(* ===== verification/Prelude.thy ===== *)
theory Prelude
  imports Complex_Main "HOL-Library.Multiset"
begin

text \<open>
  Shared vocabulary of the BEA/BAD development: the Python/numpy errors the sources
  can raise, the error monad that threads them (\<open>bindE\<close>, \<open>mapE\<close>), Python list
  indexing with negative indices, and generic lemmas on lists of reals used by the
  component theories. Floating-point numbers (float64) are modelled as \<open>real\<close>:
  rounding is not modelled, every theorem is about exact arithmetic.
\<close>

named_theorems np_simps "evaluation equations of the numpy/Python helpers"

subsection \<open>Errors and the error monad\<close>

text \<open>
  One constructor per exception the modelled code raises (or lets numpy, arviz or
  scipy raise) on a path of the model.
\<close>

datatype py_error =
    IndexError             \<comment> \<open>numpy/Python index out of bounds\<close>
  | BroadcastError         \<comment> \<open>numpy ValueError: operands could not be broadcast\<close>
  | ZeroSizeReduction      \<comment> \<open>numpy ValueError: zero-size array to reduction operation\<close>
  | EmptyStatistic         \<comment> \<open>numpy mean/quantile of an empty array (NaN or failure)\<close>
  | HdiTooFewElements      \<comment> \<open>arviz ValueError: too few elements for interval calculation\<close>
  | KdeSingular            \<comment> \<open>scipy gaussian_kde: LinAlgError, covariance not positive definite\<close>
  | KdeDatasetTooSmall     \<comment> \<open>scipy gaussian_kde: ValueError, dataset needs multiple elements\<close>
  | NegativeScale          \<comment> \<open>numpy Generator.normal: ValueError, scale < 0\<close>
  | TooFewTiePoints        \<comment> \<open>fit_bad: ValueError, fewer than 2 tie points\<close>
  | MissingColumns string  \<comment> \<open>read_inputs / read_query_depths: required CSV column absent\<close>
  | KeyError string        \<comment> \<open>pandas KeyError: a column missing from a frame\<close>
  | SamplerError           \<comment> \<open>the external sampling engine failed\<close>
  | ArgparseError string   \<comment> \<open>argparse: SystemExit(2) on a bad command line\<close>
  | ValueError string      \<comment> \<open>a ValueError raised by the launcher with its message\<close>
  | NonFiniteFloat         \<comment> \<open>not a Python error: a NaN/inf option value, outside the real-number model\<close>

type_synonym 'a result = "py_error + 'a"

definition bindE :: "'a result \<Rightarrow> ('a \<Rightarrow> 'b result) \<Rightarrow> 'b result" where
  "bindE m f = (case m of Inl e \<Rightarrow> Inl e | Inr x \<Rightarrow> f x)"

lemma bindE_Inl [simp]: "bindE (Inl e) f = Inl e"
  and bindE_Inr [simp]: "bindE (Inr x) f = f x"
  by (simp_all add: bindE_def)

lemma bindE_eq_Inr_iff: "bindE m f = Inr y \<longleftrightarrow> (\<exists>x. m = Inr x \<and> f x = Inr y)"
  by (cases m) simp_all

lemma bindE_eq_Inl_iff: "bindE m f = Inl e \<longleftrightarrow> m = Inl e \<or> (\<exists>x. m = Inr x \<and> f x = Inl e)"
  by (cases m) simp_all

text \<open>A vectorised numpy expression over a list, failing if any element fails.\<close>

fun mapE :: "('a \<Rightarrow> 'b result) \<Rightarrow> 'a list \<Rightarrow> 'b list result" where
  "mapE f [] = Inr []"
| "mapE f (x # xs) = bindE (f x) (\<lambda>y. bindE (mapE f xs) (\<lambda>ys. Inr (y # ys)))"

lemma mapE_Inr_map: "(\<And>x. x \<in> set xs \<Longrightarrow> f x = Inr (g x)) \<Longrightarrow> mapE f xs = Inr (map g xs)"
  by (induction xs) simp_all

lemma mapE_Inr_length: "mapE f xs = Inr ys \<Longrightarrow> length ys = length xs"
  by (induction xs arbitrary: ys) (auto simp: bindE_eq_Inr_iff)

lemma mapE_Inr_map_eq:
  "mapE f xs = Inr ys \<Longrightarrow> (\<And>x y. x \<in> set xs \<Longrightarrow> f x = Inr y \<Longrightarrow> g y = h x) \<Longrightarrow> map g ys = map h xs"
  by (induction xs arbitrary: ys) (auto simp: bindE_eq_Inr_iff)

lemma mapE_Inl_ex: "x \<in> set xs \<Longrightarrow> f x = Inl e \<Longrightarrow> \<exists>e'. mapE f xs = Inl e'"
  by (induction xs) (auto simp: bindE_def split: sum.splits)

subsection \<open>Python indexing\<close>

text \<open>
  \<open>xs[i]\<close> on a list or a numpy array: a negative index counts from the end, an
  index out of range raises IndexError.
\<close>

definition py_get :: "'a list \<Rightarrow> int \<Rightarrow> 'a result" where
  "py_get xs i =
     (let k = (if 0 \<le> i then i else i + int (length xs))
      in if k < 0 \<or> int (length xs) \<le> k then Inl IndexError else Inr (xs ! nat k))"

lemma py_get_nat [simp]: "k < length xs \<Longrightarrow> py_get xs (int k) = Inr (xs ! k)"
  by (simp add: py_get_def)

lemma py_get_nonneg: "0 \<le> i \<Longrightarrow> i < int (length xs) \<Longrightarrow> py_get xs i = Inr (xs ! nat i)"
  by (simp add: py_get_def)

lemma py_get_Nil [simp]: "py_get [] i = Inl IndexError"
  by (simp add: py_get_def)

subsection \<open>Names of the model's quantities\<close>

type_synonym ma = real      \<comment> \<open>an age in Ma (the sources' \<open>_ma\<close> columns)\<close>
type_synonym metres = real  \<comment> \<open>a depth in metres (the sources' \<open>_m\<close> columns)\<close>

subsection \<open>Generic list lemmas\<close>

lemma sorted_wrt_less_nth_mono:
  "sorted_wrt (<) xs \<Longrightarrow> i < j \<Longrightarrow> j < length xs \<Longrightarrow> (xs ! i :: 'a::linorder) < xs ! j"
  by (simp add: sorted_wrt_iff_nth_less)

lemma sorted_wrt_less_nth_le_iff:
  assumes "sorted_wrt (<) xs" "i < length xs" "j < length xs"
  shows "((xs ! i :: 'a::linorder) \<le> xs ! j) = (i \<le> j)"
proof (cases i j rule: linorder_cases)
  case less
  then show ?thesis using assms sorted_wrt_less_nth_mono [of xs i j] by simp
next
  case equal
  then show ?thesis by simp
next
  case greater
  then show ?thesis using assms sorted_wrt_less_nth_mono [of xs j i] by simp
qed

lemma length_filter_mono:
  "(\<And>x. P x \<Longrightarrow> Q x) \<Longrightarrow> length (filter P xs) \<le> length (filter Q xs)"
  by (induction xs) auto

lemma sum_list_take_eq_sum:
  assumes "k \<le> length xs"
  shows "sum_list (take k xs) = (\<Sum>j<k. xs ! j)"
proof -
  have "sum_list (take k xs) = (\<Sum>i = 0..<k. take k xs ! i)"
    using assms by (simp add: sum_list_sum_nth min_def)
  also have "\<dots> = (\<Sum>i = 0..<k. xs ! i)"
    by (rule sum.cong) simp_all
  finally show ?thesis by (simp add: atLeast0LessThan)
qed

lemma sum_list_ge_const:
  "(\<And>x. x \<in> set xs \<Longrightarrow> c \<le> x) \<Longrightarrow> c * real (length xs) \<le> sum_list xs"
  by (induction xs) (auto simp: algebra_simps add_mono)

lemma sum_list_le_const:
  "(\<And>x. x \<in> set xs \<Longrightarrow> x \<le> c) \<Longrightarrow> sum_list xs \<le> c * real (length xs)"
  by (induction xs) (auto simp: algebra_simps add_mono)

lemma length_filter_sort: "length (filter P (sort xs)) = length (filter P xs)"
  by (simp add: filter_sort)

text \<open>
  On a sorted list, a downward-closed predicate holds on a prefix: at position \<open>j\<close>
  exactly when \<open>j\<close> is below the number of elements satisfying it.
\<close>

lemma sorted_count_split:
  assumes "sorted xs" "\<And>x y. x \<le> y \<Longrightarrow> P y \<Longrightarrow> P x" "j < length xs"
  shows "P (xs ! j) = (j < length (filter P xs))"
  using assms(1,3)
proof (induction xs arbitrary: j)
  case Nil
  then show ?case by simp
next
  case (Cons x xs)
  show ?case
  proof (cases "P x")
    case True
    then show ?thesis using Cons by (cases j) auto
  next
    case False
    have "\<forall>y \<in> set (x # xs). \<not> P y" using False Cons.prems(1) assms(2) by auto
    then have "filter P (x # xs) = []" by (simp only: filter_empty_conv)
    moreover have "\<not> P ((x # xs) ! j)" using \<open>\<forall>y \<in> set (x # xs). \<not> P y\<close> Cons.prems(2) nth_mem by blast
    ultimately show ?thesis by simp
  qed
qed

lemma length_filter_take_drop:
  assumes "r \<le> length xs"
    and "\<And>i. i < r \<Longrightarrow> P (xs ! i)"
    and "\<And>i. r \<le> i \<Longrightarrow> i < length xs \<Longrightarrow> \<not> P (xs ! i)"
  shows "length (filter P xs) = r"
proof -
  have "filter P (take r xs) = take r xs"
    using assms(1,2) by (auto simp: filter_id_conv in_set_conv_nth)
  moreover have "filter P (drop r xs) = []"
    using assms(3) by (auto simp: filter_empty_conv in_set_conv_nth)
  ultimately have "filter P xs = take r xs"
    by (metis append_Nil2 append_take_drop_id filter_append)
  then show ?thesis using assms(1) by simp
qed

lemma map_sort_key_eq_sort: "map f (sort_key f xs) = sort (map f xs)"
proof -
  have "mset (map f (sort_key f xs)) = mset (map f xs)" by (simp only: mset_map mset_sort)
  then show ?thesis by (intro properties_for_sort [symmetric]) simp_all
qed

lemma map_nth_upt: "map (\<lambda>j. g (xs ! j)) [0..<length xs] = map g xs"
  by (rule nth_equalityI) simp_all

lemma Suc_less_chain:
  assumes "\<And>k. Suc k < n \<Longrightarrow> f k < (f (Suc k) :: real)" "i < j" "j < n"
  shows "f i < f j"
  using assms(2,3)
proof (induction j)
  case (Suc j)
  then show ?case using assms(1) [of j] by (cases "i = j") simp_all
qed simp

lemma sorted_wrt_less_upt_map:
  "(\<And>k. Suc k < n \<Longrightarrow> f k < (f (Suc k) :: real)) \<Longrightarrow> sorted_wrt (<) (map f [0..<n])"
  by (auto simp: sorted_wrt_map sorted_wrt_iff_nth_less intro: Suc_less_chain)

lemma sum_list_pos:
  "xs \<noteq> [] \<Longrightarrow> (\<And>x. x \<in> set xs \<Longrightarrow> 0 < (x :: real)) \<Longrightarrow> 0 < sum_list xs"
proof (induction xs)
  case (Cons x xs)
  then show ?case by (cases "xs = []") (simp_all add: add_pos_pos)
qed simp

lemma find_distinct_key: "distinct (map f xs) \<Longrightarrow> x \<in> set xs \<Longrightarrow> find (\<lambda>y. f y = f x) xs = Some x"
  by (induction xs) (auto simp: image_iff)

end
