(* ===== verification/Numpy.thy ===== *)
theory Numpy
  imports Prelude
begin

text \<open>
  The numpy primitives that \<open>bea_bad/bad.py\<close> and \<open>bea_bad/utils.py\<close> apply to
  one-dimensional arrays, each defined as numpy computes it, with its failure modes:
  \<open>np.diff\<close>, \<open>np.cumsum\<close>, elementwise product with broadcasting, assignment to a
  slice, \<open>np.clip\<close>, \<open>np.searchsorted(side="right")\<close> (numpy's binary search, proved
  equal to counting), and \<open>np.linspace\<close>.
\<close>

subsection \<open>Differences and running sums\<close>

definition np_diff :: "real list \<Rightarrow> real list" where
  "np_diff xs = map (\<lambda>(a, b). b - a) (zip xs (tl xs))"

fun cumsum_from :: "real \<Rightarrow> real list \<Rightarrow> real list" where
  "cumsum_from acc [] = []"
| "cumsum_from acc (x # xs) = (acc + x) # cumsum_from (acc + x) xs"

definition np_cumsum :: "real list \<Rightarrow> real list" where
  "np_cumsum xs = cumsum_from 0 xs"

lemma length_np_diff [simp]: "length (np_diff xs) = length xs - 1"
  by (simp add: np_diff_def)

lemma nth_np_diff [simp]: "Suc i < length xs \<Longrightarrow> np_diff xs ! i = xs ! Suc i - xs ! i"
  by (simp add: np_diff_def nth_tl)

lemma length_cumsum_from [simp]: "length (cumsum_from acc xs) = length xs"
  by (induction xs arbitrary: acc) simp_all

lemma nth_cumsum_from:
  "k < length xs \<Longrightarrow> cumsum_from acc xs ! k = acc + sum_list (take (Suc k) xs)"
proof (induction xs arbitrary: acc k)
  case Nil
  then show ?case by simp
next
  case (Cons x xs)
  then show ?case by (cases k) (simp_all add: algebra_simps)
qed

lemma length_np_cumsum [simp]: "length (np_cumsum xs) = length xs"
  by (simp add: np_cumsum_def)

lemma nth_np_cumsum [simp]: "k < length xs \<Longrightarrow> np_cumsum xs ! k = sum_list (take (Suc k) xs)"
  by (simp add: np_cumsum_def nth_cumsum_from)

subsection \<open>Broadcasting\<close>

text \<open>
  \<open>a * b\<close> on one-dimensional arrays: equal lengths multiply elementwise, an array
  of length 1 is stretched to the other length, anything else raises.
\<close>

definition np_mul :: "real list \<Rightarrow> real list \<Rightarrow> real list result" where
  "np_mul xs ys =
     (if length xs = length ys then Inr (map (\<lambda>(a, b). a * b) (zip xs ys))
      else if length xs = 1 then Inr (map (\<lambda>b. hd xs * b) ys)
      else if length ys = 1 then Inr (map (\<lambda>a. a * hd ys) xs)
      else Inl BroadcastError)"

text \<open>\<open>a[lo:] = v\<close> for a slice of length \<open>n\<close>: \<open>v\<close> must have length \<open>n\<close> or 1.\<close>

definition assign_slice :: "nat \<Rightarrow> real list \<Rightarrow> real list result" where
  "assign_slice n vs =
     (if length vs = n then Inr vs
      else if length vs = 1 then Inr (replicate n (hd vs))
      else Inl BroadcastError)"

lemma np_mul_same_length [simp]:
  "length xs = length ys \<Longrightarrow> np_mul xs ys = Inr (map (\<lambda>(a, b). a * b) (zip xs ys))"
  by (simp add: np_mul_def)

lemma assign_slice_exact [simp]: "length vs = n \<Longrightarrow> assign_slice n vs = Inr vs"
  by (simp add: assign_slice_def)

subsection \<open>Clipping\<close>

text \<open>
  \<open>np.clip(a, lo, hi)\<close> is \<open>minimum(maximum(a, lo), hi)\<close>: when \<open>lo > hi\<close> every
  element becomes \<open>hi\<close>.
\<close>

definition np_clip :: "int \<Rightarrow> int \<Rightarrow> int \<Rightarrow> int" where
  "np_clip lo hi x = min (max x lo) hi"

lemma np_clip_bounds: "lo \<le> hi \<Longrightarrow> lo \<le> np_clip lo hi x \<and> np_clip lo hi x \<le> hi"
  by (simp add: np_clip_def)

subsection \<open>searchsorted\<close>

text \<open>
  numpy's \<open>searchsorted(a, v, side="right")\<close> is a binary search for the first
  position whose element is greater than \<open>v\<close> (\<open>npy_binsearch\<close> with the
  \<open>side_right\<close> comparison \<open>v < a[mid]\<close>). It is only meaningful on a sorted array.
\<close>

function bisect_right :: "real list \<Rightarrow> real \<Rightarrow> nat \<Rightarrow> nat \<Rightarrow> nat" where
  "bisect_right a v lo hi =
     (if lo < hi then
        (let mid = lo + (hi - lo) div 2 in
         if v < a ! mid then bisect_right a v lo mid else bisect_right a v (Suc mid) hi)
      else lo)"
  by pat_completeness auto
termination
  by (relation "measure (\<lambda>(a, v, lo, hi). hi - lo)") auto

declare bisect_right.simps [simp del]

definition searchsorted_right :: "real list \<Rightarrow> real \<Rightarrow> nat" where
  "searchsorted_right a v = bisect_right a v 0 (length a)"

text \<open>
  The loop invariant: everything left of \<open>lo\<close> is at most \<open>v\<close>, everything from
  \<open>hi\<close> on is greater. At the end \<open>lo = hi\<close> splits the array there.
\<close>

lemma bisect_right_split:
  "sorted a \<Longrightarrow> lo \<le> hi \<Longrightarrow> hi \<le> length a \<Longrightarrow> (\<forall>i < lo. a ! i \<le> v) \<Longrightarrow>
   (\<forall>i. hi \<le> i \<and> i < length a \<longrightarrow> v < a ! i) \<Longrightarrow>
   bisect_right a v lo hi \<le> length a
   \<and> (\<forall>i < bisect_right a v lo hi. a ! i \<le> v)
   \<and> (\<forall>i. bisect_right a v lo hi \<le> i \<and> i < length a \<longrightarrow> v < a ! i)"
proof (induction a v lo hi rule: bisect_right.induct)
  case (1 a v lo hi)
  show ?case
  proof (cases "lo < hi")
    case False
    then have ret: "bisect_right a v lo hi = lo"
      by (simp add: bisect_right.simps [of a v lo hi])
    from False "1.prems"(2) have "lo = hi" by simp
    with ret "1.prems"(3,4,5) show ?thesis by simp
  next
    case True
    define mid where "mid = lo + (hi - lo) div 2"
    have mid: "lo \<le> mid" "mid < hi" "mid \<le> length a" "Suc mid \<le> hi"
      using True "1.prems"(3) by (simp_all add: mid_def)
    show ?thesis
    proof (cases "v < a ! mid")
      case less: True
      have up: "\<forall>i. mid \<le> i \<and> i < length a \<longrightarrow> v < a ! i"
      proof (intro allI impI)
        fix i assume "mid \<le> i \<and> i < length a"
        then have "a ! mid \<le> a ! i" using "1.prems"(1) by (simp add: sorted_nth_mono)
        then show "v < a ! i" using less by simp
      qed
      have "bisect_right a v lo mid \<le> length a
         \<and> (\<forall>i < bisect_right a v lo mid. a ! i \<le> v)
         \<and> (\<forall>i. bisect_right a v lo mid \<le> i \<and> i < length a \<longrightarrow> v < a ! i)"
        using "1.IH"(1) [OF True mid_def less "1.prems"(1) mid(1) mid(3) "1.prems"(4) up] .
      then show ?thesis
        using True less by (simp add: bisect_right.simps [of a v lo hi] mid_def [symmetric])
    next
      case ge: False
      have low: "\<forall>i < Suc mid. a ! i \<le> v"
      proof (intro allI impI)
        fix i assume "i < Suc mid"
        then have "i \<le> mid" by simp
        moreover have "mid < length a" using mid(2) "1.prems"(3) by simp
        ultimately have "a ! i \<le> a ! mid"
          using "1.prems"(1) by (simp add: sorted_nth_mono)
        then show "a ! i \<le> v" using ge by simp
      qed
      have "bisect_right a v (Suc mid) hi \<le> length a
         \<and> (\<forall>i < bisect_right a v (Suc mid) hi. a ! i \<le> v)
         \<and> (\<forall>i. bisect_right a v (Suc mid) hi \<le> i \<and> i < length a \<longrightarrow> v < a ! i)"
        using "1.IH"(2) [OF True mid_def ge "1.prems"(1) mid(4) "1.prems"(3) low "1.prems"(5)] .
      then show ?thesis
        using True ge by (simp add: bisect_right.simps [of a v lo hi] mid_def [symmetric])
    qed
  qed
qed

text \<open>
  On a sorted array the binary search returns the number of elements \<open>\<le> v\<close>: the
  right-biased search of the spec (\S4.5) is the count of tie depths at most the query.
\<close>

theorem searchsorted_right_count:
  "sorted a \<Longrightarrow> searchsorted_right a v = length (filter (\<lambda>d. d \<le> v) a)"
proof -
  assume s: "sorted a"
  have "searchsorted_right a v \<le> length a
        \<and> (\<forall>i < searchsorted_right a v. a ! i \<le> v)
        \<and> (\<forall>i. searchsorted_right a v \<le> i \<and> i < length a \<longrightarrow> v < a ! i)"
    unfolding searchsorted_right_def using s by (intro bisect_right_split) simp_all
  then show ?thesis
    by (intro length_filter_take_drop [symmetric]) auto
qed

text \<open>
  The split in the form the callers use: on a sorted array, position \<open>i\<close> holds an
  element \<open>\<le> v\<close> exactly when it lies before the count.
\<close>

lemma count_le_split:
  assumes "sorted (a :: real list)" "i < length a"
  shows "(a ! i \<le> v) = (i < length (filter (\<lambda>d. d \<le> v) a))"
proof -
  have "bisect_right a v 0 (length a) \<le> length a
        \<and> (\<forall>i < bisect_right a v 0 (length a). a ! i \<le> v)
        \<and> (\<forall>i. bisect_right a v 0 (length a) \<le> i \<and> i < length a \<longrightarrow> v < a ! i)"
    using assms(1) by (intro bisect_right_split) simp_all
  moreover have "bisect_right a v 0 (length a) = length (filter (\<lambda>d. d \<le> v) a)"
    using searchsorted_right_count [OF assms(1)] by (simp add: searchsorted_right_def)
  ultimately show ?thesis using assms(2) by (metis not_le)
qed

subsection \<open>linspace\<close>

text \<open>\<open>np.linspace(a, b, n)\<close>: \<open>n\<close> evenly spaced points from \<open>a\<close> to \<open>b\<close> inclusive.\<close>

definition linspace :: "real \<Rightarrow> real \<Rightarrow> nat \<Rightarrow> real list" where
  "linspace a b n =
     (if n = 1 then [a]
      else map (\<lambda>i. a + real i * ((b - a) / real (n - 1))) [0..<n])"

lemma length_linspace [simp]: "length (linspace a b n) = n"
  by (simp add: linspace_def)

lemma nth_linspace:
  "1 < n \<Longrightarrow> i < n \<Longrightarrow> linspace a b n ! i = a + real i * ((b - a) / real (n - 1))"
  by (simp add: linspace_def)

lemma linspace_strict_mono:
  assumes "a < b" "1 < n"
  shows "sorted_wrt (<) (linspace a b n)"
proof -
  define c where "c = (b - a) / real (n - 1)"
  have "0 < c" using assms by (simp add: c_def)
  then have "sorted_wrt (<) (map (\<lambda>i. a + real i * c) [0..<n])"
    by (intro sorted_wrt_less_upt_map) (simp add: distrib_right)
  then show ?thesis using assms(2) by (simp add: linspace_def c_def)
qed

lemma linspace_sorted:
  assumes "a \<le> b" "1 < n"
  shows "sorted (linspace a b n)"
proof -
  define c where "c = (b - a) / real (n - 1)"
  have "0 \<le> c" using assms by (simp add: c_def)
  then have "sorted (map (\<lambda>i. a + real i * c) [0..<n])"
    by (auto simp: sorted_iff_nth_mono intro: mult_right_mono)
  then show ?thesis using assms(2) by (simp add: linspace_def c_def)
qed

lemma linspace_last: "1 < n \<Longrightarrow> linspace a b n ! (n - 1) = b"
  by (simp add: nth_linspace)

subsection \<open>Reductions\<close>

text \<open>
  \<open>np.median\<close>, \<open>np.mean\<close>, \<open>np.std\<close> (population, \<open>ddof=0\<close>) and \<open>np.min\<close>.
  On an empty array the first three return NaN, written \<open>None\<close> here; \<open>np.min\<close>
  raises.
\<close>

definition median :: "real list \<Rightarrow> real option" where
  "median xs =
     (if xs = [] then None
      else (let s = sort xs; n = length xs
            in Some (if odd n then s ! (n div 2) else (s ! (n div 2 - 1) + s ! (n div 2)) / 2)))"

definition np_mean :: "real list \<Rightarrow> real option" where
  "np_mean xs = (if xs = [] then None else Some (sum_list xs / real (length xs)))"

definition np_std :: "real list \<Rightarrow> real option" where
  "np_std xs =
     (if xs = [] then None
      else (let m = sum_list xs / real (length xs)
            in Some (sqrt (sum_list (map (\<lambda>x. (x - m)\<^sup>2) xs) / real (length xs)))))"

definition np_min :: "real list \<Rightarrow> real result" where
  "np_min xs = (if xs = [] then Inl ZeroSizeReduction else Inr (Min (set xs)))"

lemma median_Some: "xs \<noteq> [] \<Longrightarrow> \<exists>m. median xs = Some m"
  by (simp add: median_def Let_def)

lemma median_None [simp]: "median [] = None"
  by (simp add: median_def)

lemma np_std_nonneg: "np_std xs = Some s \<Longrightarrow> 0 \<le> s"
proof -
  assume "np_std xs = Some s"
  moreover have "\<And>c. 0 \<le> sum_list (map (\<lambda>x. (x - c)\<^sup>2) xs) / real (length xs)"
    by (intro divide_nonneg_nonneg sum_list_nonneg) auto
  ultimately show ?thesis by (auto simp: np_std_def Let_def split: if_splits)
qed

lemma mean_bounds:
  assumes "xs \<noteq> []"
  shows "Min (set xs) \<le> sum_list xs / real (length xs) \<and> sum_list xs / real (length xs) \<le> Max (set xs)"
proof -
  have "Min (set xs) * real (length xs) \<le> sum_list xs"
    using assms by (intro sum_list_ge_const) simp
  moreover have "sum_list xs \<le> Max (set xs) * real (length xs)"
    using assms by (intro sum_list_le_const) simp
  ultimately show ?thesis using assms by (simp add: pos_le_divide_eq pos_divide_le_eq)
qed

lemma sort_eq_of_mset_eq: "mset xs = mset ys \<Longrightarrow> sort xs = sort ys"
  by (rule properties_for_sort) simp_all

lemma median_mset: "mset xs = mset ys \<Longrightarrow> median xs = median ys"
proof -
  assume m: "mset xs = mset ys"
  then have "length xs = length ys" "(xs = []) = (ys = [])"
    by (metis size_mset, metis mset_zero_iff)
  with sort_eq_of_mset_eq [OF m] show ?thesis by (simp add: median_def)
qed

lemma sum_list_mset: "mset xs = mset ys \<Longrightarrow> sum_list xs = sum_list (ys :: real list)"
  by (metis sum_mset_sum_list)

lemma np_std_mset: "mset xs = mset ys \<Longrightarrow> np_std xs = np_std ys"
proof -
  assume m: "mset xs = mset ys"
  then have l: "length xs = length ys" "(xs = []) = (ys = [])"
    by (metis size_mset, metis mset_zero_iff)
  have "\<And>c. sum_list (map (\<lambda>x. (x - c)\<^sup>2) xs) = sum_list (map (\<lambda>x. (x - c)\<^sup>2) ys)"
    using m by (intro sum_list_mset) simp
  with l sum_list_mset [OF m] show ?thesis by (simp add: np_std_def)
qed

end
