(* ===== verification/Interpolator.thy ===== *)
theory Interpolator
  imports Numpy
begin

text \<open>
  The piecewise age interpolator, \<open>_piecewise_age_one_draw\<close> of \<open>bea_bad/bad.py\<close>
  (spec \S4.5): from one posterior draw of the tie depths, the base age and the segment
  sedimentation rates, the ages of the tie points (a running sum) and of every query
  depth (the enclosing segment found by \<open>np.searchsorted\<close>, clipped to the boundary
  segments). The code is modelled with numpy's failure modes; the abstract
  specification is the spec's formula (tie ages as a sum over segments, the segment as
  the count of tie depths at most the query, minus one, clamped); the refinement
  theorem says the code computes it on every well-shaped draw, and the properties of
  the spec (tie points reproduced, strict monotonicity, boundary extrapolation,
  interpolation between ties) are proved of it.
\<close>

subsection \<open>The code\<close>

text \<open>
  Lines 18--21: \<open>age_tie[0] = age0\<close> fails on an empty array; the product
  \<open>rates * seg_len\<close> broadcasts; the assignment to \<open>age_tie[1:]\<close> needs a
  matching length.
\<close>

definition age_tie_vec :: "metres list \<Rightarrow> ma \<Rightarrow> real list \<Rightarrow> ma list result" where
  "age_tie_vec d_tie age0 rates =
     (if d_tie = [] then Inl IndexError
      else bindE (np_mul rates (np_diff d_tie)) (\<lambda>prod.
             bindE (assign_slice (length d_tie - 1) (map (\<lambda>c. age0 + c) (np_cumsum prod)))
               (\<lambda>rest. Inr (age0 # rest))))"

text \<open>Lines 23--24: the segment index of one query depth.\<close>

definition seg_index :: "metres list \<Rightarrow> metres \<Rightarrow> int" where
  "seg_index d_tie q =
     np_clip 0 (int (length d_tie) - 2) (int (searchsorted_right d_tie q) - 1)"

text \<open>
  Line 26 at one query depth: \<open>age_tie[idx] + rates[idx] * (d_query - d_tie[idx])\<close>,
  where each fancy index may fail.
\<close>

definition query_age :: "ma list \<Rightarrow> real list \<Rightarrow> metres list \<Rightarrow> metres \<Rightarrow> ma result" where
  "query_age age_tie rates d_tie q =
     (let i = seg_index d_tie q in
      bindE (py_get age_tie i) (\<lambda>a.
      bindE (py_get rates i) (\<lambda>r.
      bindE (py_get d_tie i) (\<lambda>d. Inr (a + r * (q - d))))))"

definition piecewise_age_one_draw ::
  "metres list \<Rightarrow> ma \<Rightarrow> real list \<Rightarrow> metres list \<Rightarrow> ma list result" where
  "piecewise_age_one_draw d_tie age0 rates d_query =
     bindE (age_tie_vec d_tie age0 rates) (\<lambda>age_tie.
       mapE (query_age age_tie rates d_tie) d_query)"

subsection \<open>The specification\<close>

text \<open>
  \S4.4: \<open>age[k] = age0 + \<Sum>j<k. rates[j] * (d[j+1] - d[j])\<close>. \S4.5: the segment of
  \<open>q\<close> is the count of tie depths \<open>\<le> q\<close>, minus one, clamped to \<open>[0, K-2]\<close>, and the
  age is the segment's starting tie age plus its rate times the signed distance.
\<close>

definition tie_age :: "metres list \<Rightarrow> ma \<Rightarrow> real list \<Rightarrow> nat \<Rightarrow> ma" where
  "tie_age d age0 rates k = age0 + (\<Sum>j<k. rates ! j * (d ! Suc j - d ! j))"

definition segment :: "metres list \<Rightarrow> metres \<Rightarrow> nat" where
  "segment d q = min (length d - 2) (length (filter (\<lambda>x. x \<le> q) d) - 1)"

definition interp_age :: "metres list \<Rightarrow> ma \<Rightarrow> real list \<Rightarrow> metres \<Rightarrow> ma" where
  "interp_age d age0 rates q =
     (let j = segment d q in tie_age d age0 rates j + rates ! j * (q - d ! j))"

text \<open>
  The shape the sampling engine guarantees for a BAD draw of \<open>K\<close> tie points, and the
  full contract: the ordered transform makes the depths strictly increasing, the
  log-normal prior makes the rates positive.
\<close>

definition draw_shape :: "metres list \<Rightarrow> real list \<Rightarrow> bool" where
  "draw_shape d rates \<longleftrightarrow> 2 \<le> length d \<and> length rates = length d - 1"

definition draw_ok :: "metres list \<Rightarrow> real list \<Rightarrow> bool" where
  "draw_ok d rates \<longleftrightarrow> draw_shape d rates \<and> sorted_wrt (<) d \<and> (\<forall>r \<in> set rates. 0 < r)"

lemmas draw_defs = draw_ok_def draw_shape_def

subsection \<open>Tie ages\<close>

lemma tie_age_0 [simp]: "tie_age d age0 rates 0 = age0"
  by (simp add: tie_age_def)

lemma tie_age_Suc:
  "tie_age d age0 rates (Suc k) = tie_age d age0 rates k + rates ! k * (d ! Suc k - d ! k)"
  by (simp add: tie_age_def)

lemma age_tie_vec_spec:
  assumes "d \<noteq> []" "length rates = length d - 1"
  shows "age_tie_vec d age0 rates = Inr (map (tie_age d age0 rates) [0..<length d])"
proof -
  let ?prod = "map (\<lambda>(a, b). a * b) (zip rates (np_diff d))"
  have cs: "map (\<lambda>c. age0 + c) (np_cumsum ?prod) = map (\<lambda>k. tie_age d age0 rates (Suc k)) [0..<length d - 1]"
  proof (rule nth_equalityI)
    fix k assume "k < length (map (\<lambda>c. age0 + c) (np_cumsum ?prod))"
    then have k: "k < length d - 1" using assms(2) by simp
    have "sum_list (take (Suc k) ?prod) = (\<Sum>j<Suc k. ?prod ! j)"
      using k assms(2) by (intro sum_list_take_eq_sum) simp
    also have "\<dots> = (\<Sum>j<Suc k. rates ! j * (d ! Suc j - d ! j))"
      using k assms(2) by (intro sum.cong) simp_all
    finally show "map (\<lambda>c. age0 + c) (np_cumsum ?prod) ! k = map (\<lambda>k. tie_age d age0 rates (Suc k)) [0..<length d - 1] ! k"
      using k assms(2) by (simp add: tie_age_def)
  qed (use assms in simp)
  have "age0 # map (\<lambda>k. tie_age d age0 rates (Suc k)) [0..<length d - 1]
        = map (tie_age d age0 rates) [0..<length d]"
    using assms(1) by (cases d) (simp_all add: map_upt_Suc del: upt_Suc)
  then show ?thesis
    using assms cs by (simp add: age_tie_vec_def)
qed

lemma tie_age_mono:
  assumes "sorted d" "length rates = length d - 1" "\<forall>r \<in> set rates. 0 \<le> r"
    and "i \<le> j" "j < length d"
  shows "tie_age d age0 rates i \<le> tie_age d age0 rates j"
  using assms(4,5)
proof (induction j)
  case 0
  then show ?case by simp
next
  case (Suc j)
  show ?case
  proof (cases "i \<le> j")
    case True
    have "0 \<le> rates ! j" using assms(2,3) Suc.prems(2) by simp
    moreover have "d ! j \<le> d ! Suc j" using assms(1) Suc.prems(2) by (simp add: sorted_nth_mono)
    ultimately have "0 \<le> rates ! j * (d ! Suc j - d ! j)" by simp
    with Suc.IH True Suc.prems(2) show ?thesis by (simp add: tie_age_Suc)
  next
    case False
    with Suc.prems(1) have "i = Suc j" by simp
    then show ?thesis by simp
  qed
qed

subsection \<open>Segments\<close>

lemma segment_le: "segment d q \<le> length d - 2"
  by (simp add: segment_def)

lemma segment_lower:
  assumes "sorted d" "2 \<le> length d" "0 < segment d q"
  shows "d ! segment d q \<le> q"
proof -
  have "segment d q < length (filter (\<lambda>x. x \<le> q) d)"
    using assms(3) by (auto simp: segment_def min_def)
  moreover have "segment d q < length d" using segment_le [of d q] assms(2) by simp
  ultimately show ?thesis using count_le_split [OF assms(1), of "segment d q" q] by simp
qed

lemma segment_upper:
  assumes "sorted d" "segment d q < length d - 2"
  shows "q < d ! Suc (segment d q)"
proof -
  have "length (filter (\<lambda>x. x \<le> q) d) \<le> Suc (segment d q)"
    using assms(2) by (simp add: segment_def)
  moreover have "Suc (segment d q) < length d" using assms(2) by simp
  ultimately show ?thesis
    using count_le_split [OF assms(1), of "Suc (segment d q)" q] by (simp add: not_le)
qed

lemma segment_mono: "q1 \<le> q2 \<Longrightarrow> segment d q1 \<le> segment d q2"
proof -
  assume "q1 \<le> q2"
  then have "length (filter (\<lambda>x. x \<le> q1) d) \<le> length (filter (\<lambda>x. x \<le> q2) d)"
    by (intro length_filter_mono) simp
  then show ?thesis by (simp add: segment_def)
qed

lemma count_at_tie:
  assumes "sorted_wrt (<) (d :: metres list)" "k < length d"
  shows "length (filter (\<lambda>x. x \<le> d ! k) d) = Suc k"
proof (rule length_filter_take_drop)
  fix i assume "i < Suc k"
  then show "d ! i \<le> d ! k"
    using assms sorted_wrt_less_nth_mono [of d i k] by (cases "i = k") auto
next
  fix i assume "Suc k \<le> i" "i < length d"
  then show "\<not> d ! i \<le> d ! k"
    using assms(1) sorted_wrt_less_nth_mono [of d k i] by simp
qed (use assms(2) in simp)

subsection \<open>Refinement: the code computes the specification\<close>

lemma seg_index_segment:
  assumes "sorted d" "2 \<le> length d"
  shows "seg_index d q = int (segment d q)"
  using assms
  by (simp add: seg_index_def segment_def np_clip_def searchsorted_right_count of_nat_diff)

lemma query_age_spec:
  assumes "draw_shape d rates" "sorted d"
  shows "query_age (map (tie_age d age0 rates) [0..<length d]) rates d q = Inr (interp_age d age0 rates q)"
proof -
  have K: "2 \<le> length d" "length rates = length d - 1" using assms(1) by (simp_all add: draw_shape_def)
  have j: "segment d q < length d - 1" using segment_le [of d q] K(1) by simp
  have "seg_index d q = int (segment d q)" by (rule seg_index_segment [OF assms(2) K(1)])
  then show ?thesis using j K by (simp add: query_age_def interp_age_def Let_def)
qed

lemma piecewise_age_one_draw_spec:
  assumes "draw_shape d rates" "sorted d"
  shows "piecewise_age_one_draw d age0 rates qs = Inr (map (interp_age d age0 rates) qs)"
proof -
  have "d \<noteq> []" "length rates = length d - 1" using assms(1) by (auto simp: draw_shape_def)
  then have "age_tie_vec d age0 rates = Inr (map (tie_age d age0 rates) [0..<length d])"
    by (rule age_tie_vec_spec)
  then show ?thesis
    using query_age_spec [OF assms] by (simp add: piecewise_age_one_draw_def mapE_Inr_map)
qed

subsection \<open>Properties of the specification\<close>

lemma interp_age_at_tie:
  assumes "draw_shape d rates" "sorted_wrt (<) d" "k < length d"
  shows "interp_age d age0 rates (d ! k) = tie_age d age0 rates k"
proof -
  have K: "2 \<le> length d" using assms(1) by (simp add: draw_shape_def)
  have seg: "segment d (d ! k) = min (length d - 2) k"
    using count_at_tie [OF assms(2,3)] by (simp add: segment_def)
  show ?thesis
  proof (cases "k \<le> length d - 2")
    case True
    with seg show ?thesis by (simp add: interp_age_def)
  next
    case False
    then have k: "k = Suc (length d - 2)" using assms(3) K by simp
    with seg have "segment d (d ! k) = length d - 2" by simp
    then show ?thesis using k by (simp add: interp_age_def tie_age_Suc Let_def)
  qed
qed

lemma interp_age_less:
  assumes "draw_ok d rates" "q1 < q2"
  shows "interp_age d age0 rates q1 < interp_age d age0 rates q2"
proof -
  have K: "2 \<le> length d" "length rates = length d - 1" and sd: "sorted_wrt (<) d"
    and pos: "\<forall>r \<in> set rates. 0 < r"
    using assms(1) by (simp_all add: draw_defs)
  have s: "sorted d" using sd by (rule strict_sorted_imp_sorted)
  have nn: "\<forall>r \<in> set rates. 0 \<le> r" using pos by auto
  have rpos: "\<And>j. j \<le> length d - 2 \<Longrightarrow> 0 < rates ! j" using pos K by simp
  define j1 where "j1 = segment d q1"
  define j2 where "j2 = segment d q2"
  have le: "j1 \<le> j2" using segment_mono assms(2) by (simp add: j1_def j2_def)
  have j2K: "j2 \<le> length d - 2" by (simp add: j2_def segment_le)
  show ?thesis
  proof (cases "j1 = j2")
    case True
    have "rates ! j2 * (q1 - d ! j2) < rates ! j2 * (q2 - d ! j2)"
      using rpos [OF j2K] assms(2) by simp
    then show ?thesis using True by (simp add: interp_age_def j1_def [symmetric] j2_def [symmetric])
  next
    case False
    with le have lt: "j1 < j2" by simp
    have "q1 < d ! Suc j1" using segment_upper [OF s, of q1] lt j2K by (simp add: j1_def)
    then have "rates ! j1 * (q1 - d ! j1) < rates ! j1 * (d ! Suc j1 - d ! j1)"
      using rpos [of j1] lt j2K by simp
    then have "interp_age d age0 rates q1 < tie_age d age0 rates (Suc j1)"
      by (simp add: interp_age_def j1_def [symmetric] tie_age_Suc)
    also have "\<dots> \<le> tie_age d age0 rates j2"
      using tie_age_mono [OF s K(2) nn] lt j2K K(1) by simp
    also have "\<dots> \<le> interp_age d age0 rates q2"
    proof -
      have "d ! j2 \<le> q2" using segment_lower [OF s K(1)] lt by (simp add: j2_def)
      then have "0 \<le> rates ! j2 * (q2 - d ! j2)" using rpos [OF j2K] by simp
      then show ?thesis by (simp add: interp_age_def j2_def [symmetric])
    qed
    finally show ?thesis .
  qed
qed

lemma interp_age_le:
  "draw_ok d rates \<Longrightarrow> q1 \<le> q2 \<Longrightarrow> interp_age d age0 rates q1 \<le> interp_age d age0 rates q2"
  by (cases "q1 = q2") (simp_all add: interp_age_less less_imp_le)

lemma interp_age_below:
  assumes "draw_shape d rates" "sorted d" "q < d ! 0"
  shows "interp_age d age0 rates q = age0 + rates ! 0 * (q - d ! 0)"
proof -
  have K: "2 \<le> length d" using assms(1) by (simp add: draw_shape_def)
  have "length (filter (\<lambda>x. x \<le> q) d) = 0"
  proof (rule ccontr)
    assume "length (filter (\<lambda>x. x \<le> q) d) \<noteq> 0"
    moreover have "0 < length d" using K by linarith
    ultimately have "d ! 0 \<le> q" using count_le_split [OF assms(2), of 0 q] by simp
    with assms(3) show False by simp
  qed
  then have "segment d q = 0" by (simp add: segment_def)
  then show ?thesis by (simp add: interp_age_def)
qed

lemma interp_age_above:
  assumes "draw_shape d rates" "sorted d" "d ! (length d - 1) \<le> q"
  shows "interp_age d age0 rates q
         = tie_age d age0 rates (length d - 1) + rates ! (length d - 2) * (q - d ! (length d - 1))"
proof -
  have K: "2 \<le> length d" using assms(1) by (simp add: draw_shape_def)
  have all: "\<forall>x \<in> set d. x \<le> q"
  proof
    fix x assume "x \<in> set d"
    then obtain i where "i < length d" "x = d ! i" by (auto simp: in_set_conv_nth)
    then have "x \<le> d ! (length d - 1)" using assms(2) by (simp add: sorted_nth_mono)
    with assms(3) show "x \<le> q" by simp
  qed
  then have "segment d q = length d - 2" by (simp add: segment_def)
  moreover have "length d - 1 = Suc (length d - 2)" using K by simp
  ultimately show ?thesis by (simp add: interp_age_def tie_age_Suc Let_def algebra_simps)
qed

subsection \<open>Properties of the code\<close>

lemmas interp_eval_simps = piecewise_age_one_draw_def age_tie_vec_def np_diff_def np_cumsum_def
  query_age_def seg_index_def searchsorted_right_def bisect_right.simps np_clip_def py_get_def

text \<open>
  C1 (refinement). On every draw of the shape the sampler returns (at least two tie
  depths, one rate per segment) with sorted depths, \<open>_piecewise_age_one_draw\<close>
  raises nothing, its tie-age vector is the spec's cumulative sum, and its result at
  each query depth is the spec's piecewise-linear age.
\<close>

theorem piecewise_age_one_draw_refines:
  assumes "draw_shape d rates" "sorted d"
  shows "age_tie_vec d age0 rates = Inr (map (tie_age d age0 rates) [0..<length d])
         \<and> piecewise_age_one_draw d age0 rates qs = Inr (map (interp_age d age0 rates) qs)"
proof
  show "age_tie_vec d age0 rates = Inr (map (tie_age d age0 rates) [0..<length d])"
    using assms(1) by (intro age_tie_vec_spec) (auto simp: draw_shape_def)
  show "piecewise_age_one_draw d age0 rates qs = Inr (map (interp_age d age0 rates) qs)"
    using assms by (rule piecewise_age_one_draw_spec)
qed

theorem piecewise_age_one_draw_refines_witness:
  "draw_shape [10, 20, 30] [1/10, 1/5] \<and> sorted [10, 20, 30 :: real]
   \<and> piecewise_age_one_draw [10, 20, 30] 2 [1/10, 1/5] [5, 15, 25, 35] = Inr [3/2, 5/2, 4, 6]"
proof -
  have h: "draw_shape [10, 20, 30] [1/10, 1/5]" "sorted [10, 20, 30 :: real]"
    by (simp_all add: draw_shape_def)
  have "piecewise_age_one_draw [10, 20, 30] 2 [1/10, 1/5] [5, 15, 25, 35]
        = Inr (map (interp_age [10, 20, 30] 2 [1/10, 1/5]) [5, 15, 25, 35])"
    using piecewise_age_one_draw_refines [OF h] by blast
  also have "\<dots> = Inr [3/2, 5/2, 4, 6]"
    by (simp add: interp_age_def segment_def tie_age_def lessThan_nat_numeral)
  finally show ?thesis using h by simp
qed

text \<open>
  C2 (functional, spec \S8). Interpolating at a query depth equal to a tie depth of the
  draw reproduces the tie age the code itself computes for that tie point.
\<close>

theorem piecewise_age_at_tie_depth:
  assumes "draw_ok d rates" "k < length d"
  shows "piecewise_age_one_draw d age0 rates [d ! k]
         = bindE (age_tie_vec d age0 rates) (\<lambda>age_tie. Inr [age_tie ! k])"
proof -
  have sh: "draw_shape d rates" and sd: "sorted_wrt (<) d" using assms(1) by (simp_all add: draw_defs)
  have "d \<noteq> []" "length rates = length d - 1" using sh by (auto simp: draw_shape_def)
  then have "age_tie_vec d age0 rates = Inr (map (tie_age d age0 rates) [0..<length d])"
    by (rule age_tie_vec_spec)
  moreover have "piecewise_age_one_draw d age0 rates [d ! k] = Inr [interp_age d age0 rates (d ! k)]"
    using piecewise_age_one_draw_spec [OF sh strict_sorted_imp_sorted [OF sd]] by simp
  ultimately show ?thesis using interp_age_at_tie [OF sh sd assms(2)] assms(2) by simp
qed

theorem piecewise_age_at_tie_depth_witness:
  "draw_ok [10, 20, 30] [1/10, 1/5] \<and> (1::nat) < length [10, 20, 30 :: real]
   \<and> piecewise_age_one_draw [10, 20, 30] 2 [1/10, 1/5] [[10, 20, 30] ! 1]
       = bindE (age_tie_vec [10, 20, 30] 2 [1/10, 1/5]) (\<lambda>age_tie. Inr [age_tie ! 1])"
proof -
  have h: "draw_ok [10, 20, 30] [1/10, 1/5]" "(1::nat) < length [10, 20, 30 :: real]"
    by (simp_all add: draw_defs)
  show ?thesis using h piecewise_age_at_tie_depth [OF h] by simp
qed

text \<open>
  C3 (functional, spec \S8). When all rates are positive and the tie depths strictly
  increase, the ages returned for strictly increasing query depths strictly increase:
  age is monotonic in depth, across segment boundaries and in the extrapolated parts.
\<close>

theorem piecewise_age_strict_mono:
  assumes "draw_ok d rates" "sorted_wrt (<) qs"
  shows "\<exists>ages. piecewise_age_one_draw d age0 rates qs = Inr ages \<and> sorted_wrt (<) ages"
proof -
  have sh: "draw_shape d rates" and s: "sorted d"
    using assms(1) by (simp_all add: draw_defs strict_sorted_imp_sorted)
  have "sorted_wrt (<) (map (interp_age d age0 rates) qs)"
    unfolding sorted_wrt_map
    using assms(2) by (rule sorted_wrt_mono_rel [rotated]) (simp add: interp_age_less [OF assms(1)])
  then show ?thesis using piecewise_age_one_draw_spec [OF sh s] by simp
qed

theorem piecewise_age_strict_mono_witness:
  "draw_ok [10, 20, 30] [1/10, 1/5] \<and> sorted_wrt (<) [5, 15, 25, 35 :: real]
   \<and> (\<exists>ages. piecewise_age_one_draw [10, 20, 30] 2 [1/10, 1/5] [5, 15, 25, 35] = Inr ages
             \<and> sorted_wrt (<) ages)"
proof -
  have h: "draw_ok [10, 20, 30] [1/10, 1/5]" "sorted_wrt (<) [5, 15, 25, 35 :: real]"
    by (simp_all add: draw_defs)
  show ?thesis using h piecewise_age_strict_mono [OF h] by blast
qed

text \<open>
  C4 (functional, spec \S4.5 and \S8). A query depth above the shallowest tie depth does
  not fail: it is extrapolated with the first segment's rate from the base age.
\<close>

theorem piecewise_age_extrapolates_shallow:
  assumes "draw_shape d rates" "sorted d" "q < d ! 0"
  shows "piecewise_age_one_draw d age0 rates [q] = Inr [age0 + rates ! 0 * (q - d ! 0)]"
  using piecewise_age_one_draw_spec [OF assms(1,2)] interp_age_below [OF assms] by simp

theorem piecewise_age_extrapolates_shallow_witness:
  "draw_shape [10, 20, 30] [1/10, 1/5] \<and> sorted [10, 20, 30 :: real] \<and> (2::real) < [10, 20, 30] ! 0
   \<and> piecewise_age_one_draw [10, 20, 30] 2 [1/10, 1/5] [2]
       = Inr [2 + [1/10, 1/5] ! 0 * (2 - [10, 20, 30] ! 0)]"
proof -
  have h: "draw_shape [10, 20, 30] [1/10, 1/5]" "sorted [10, 20, 30 :: real]" "(2::real) < [10, 20, 30] ! 0"
    by (simp_all add: draw_shape_def)
  show ?thesis using h piecewise_age_extrapolates_shallow [OF h] by simp
qed

text \<open>
  C5 (functional, spec \S4.5 and \S8). A query depth at or below the deepest tie depth
  does not fail: it is extrapolated from the deepest tie age with the last segment's
  rate.
\<close>

theorem piecewise_age_extrapolates_deep:
  assumes "draw_shape d rates" "sorted d" "d ! (length d - 1) \<le> q"
  shows "piecewise_age_one_draw d age0 rates [q]
         = Inr [tie_age d age0 rates (length d - 1) + rates ! (length d - 2) * (q - d ! (length d - 1))]"
  using piecewise_age_one_draw_spec [OF assms(1,2)] interp_age_above [OF assms] by simp

theorem piecewise_age_extrapolates_deep_witness:
  "draw_shape [10, 20, 30] [1/10, 1/5] \<and> sorted [10, 20, 30 :: real]
   \<and> [10, 20, 30] ! (length [10, 20, 30 :: real] - 1) \<le> (35::real)
   \<and> piecewise_age_one_draw [10, 20, 30] 2 [1/10, 1/5] [35] = Inr [6]"
proof -
  have h: "draw_shape [10, 20, 30] [1/10, 1/5]" "sorted [10, 20, 30 :: real]"
    "[10, 20, 30] ! (length [10, 20, 30 :: real] - 1) \<le> (35::real)"
    by (simp_all add: draw_shape_def)
  have "tie_age [10, 20, 30] 2 [1/10, 1/5] (Suc (Suc 0)) = 5"
    by (simp add: tie_age_def)
  then show ?thesis using h piecewise_age_extrapolates_deep [OF h] by simp
qed

text \<open>
  C6 (functional, spec \S8 scenario). A query depth between two adjacent tie depths gets
  an age between their two tie ages.
\<close>

theorem piecewise_age_between_ties:
  assumes "draw_ok d rates" "Suc k < length d" "d ! k \<le> q" "q \<le> d ! Suc k"
  shows "\<exists>a. piecewise_age_one_draw d age0 rates [q] = Inr [a]
             \<and> tie_age d age0 rates k \<le> a \<and> a \<le> tie_age d age0 rates (Suc k)"
proof -
  have sh: "draw_shape d rates" and sd: "sorted_wrt (<) d"
    using assms(1) by (simp_all add: draw_defs)
  have "tie_age d age0 rates k = interp_age d age0 rates (d ! k)"
    using interp_age_at_tie [OF sh sd] assms(2) by simp
  also have "\<dots> \<le> interp_age d age0 rates q" using interp_age_le [OF assms(1,3)] .
  finally have lo: "tie_age d age0 rates k \<le> interp_age d age0 rates q" .
  have "interp_age d age0 rates q \<le> interp_age d age0 rates (d ! Suc k)"
    using interp_age_le [OF assms(1,4)] .
  also have "\<dots> = tie_age d age0 rates (Suc k)" using interp_age_at_tie [OF sh sd assms(2)] .
  finally have hi: "interp_age d age0 rates q \<le> tie_age d age0 rates (Suc k)" .
  show ?thesis
    using piecewise_age_one_draw_spec [OF sh strict_sorted_imp_sorted [OF sd]] lo hi by simp
qed

theorem piecewise_age_between_ties_witness:
  "draw_ok [10, 20] [1/10] \<and> Suc 0 < length [10, 20 :: real]
   \<and> [10, 20] ! 0 \<le> (15::real) \<and> (15::real) \<le> [10, 20] ! Suc 0
   \<and> (\<exists>a. piecewise_age_one_draw [10, 20] 2 [1/10] [15] = Inr [a]
          \<and> tie_age [10, 20] 2 [1/10] 0 \<le> a \<and> a \<le> tie_age [10, 20] 2 [1/10] (Suc 0))"
proof -
  have h: "draw_ok [10, 20] [1/10]" "Suc 0 < length [10, 20 :: real]"
    "[10, 20] ! 0 \<le> (15::real)" "(15::real) \<le> [10, 20] ! Suc 0"
    by (simp_all add: draw_defs)
  show ?thesis using h piecewise_age_between_ties [OF h] by blast
qed

text \<open>
  C7 (error). With at least two tie depths, a rate vector whose length is neither one
  per segment nor 1 (which numpy would broadcast) makes the code raise numpy's
  broadcasting ValueError, for every query.
\<close>

theorem piecewise_age_shape_error:
  assumes "2 \<le> length d" "length rates \<noteq> length d - 1" "length rates \<noteq> 1"
  shows "piecewise_age_one_draw d age0 rates qs = Inl BroadcastError"
proof (cases "length d = 2")
  case True
  with assms show ?thesis
    by (auto simp: piecewise_age_one_draw_def age_tie_vec_def np_mul_def assign_slice_def)
next
  case False
  with assms show ?thesis
    by (auto simp: piecewise_age_one_draw_def age_tie_vec_def np_mul_def)
qed

theorem piecewise_age_shape_error_witness:
  "2 \<le> length [10, 20, 30 :: real] \<and> length [1, 2, 3 :: real] \<noteq> length [10, 20, 30 :: real] - 1
   \<and> length [1, 2, 3 :: real] \<noteq> 1
   \<and> piecewise_age_one_draw [10, 20, 30] 2 [1, 2, 3] [15] = Inl BroadcastError"
proof -
  have h: "2 \<le> length [10, 20, 30 :: real]" "length [1, 2, 3 :: real] \<noteq> length [10, 20, 30 :: real] - 1"
    "length [1, 2, 3 :: real] \<noteq> 1" by simp_all
  show ?thesis using h piecewise_age_shape_error [OF h] by simp
qed

end
