(* ===== verification/RobustStats.thy ===== *)
theory RobustStats
  imports Numpy
begin

text \<open>
  RobustStats (spec \S4.1), \<open>robust_mad\<close> and \<open>filter_outliers_within_span\<close> of
  \<open>bea_bad/utils.py\<close>. Both are pure. NaN (numpy's median of an empty array) is
  \<open>None\<close>; a comparison with NaN is false, so \<open>mad > 0\<close> fails on NaN and the mask
  keeps nothing.
\<close>

subsection \<open>Definitions\<close>

text \<open>Lines 9--14: the median absolute deviation, scaled, or the standard deviation.\<close>

definition robust_mad :: "real list \<Rightarrow> real option" where
  "robust_mad x =
     (let mad = (case median x of None \<Rightarrow> None | Some med \<Rightarrow> median (map (\<lambda>v. \<bar>v - med\<bar>) x))
      in case mad of
           Some m \<Rightarrow> if 0 < m then Some (1.4826 * m) else np_std x
         | None \<Rightarrow> np_std x)"

text \<open>
  Lines 17--32: keep the grains whose age lies within \<open>max_span_ma / 2\<close> of the
  median age. The boolean mask indexes \<open>sigmas\<close> too, which raises when the lengths
  differ.
\<close>

definition span_mask :: "real list \<Rightarrow> real \<Rightarrow> real \<Rightarrow> bool" where
  "span_mask ages max_span_ma a =
     (let half = max_span_ma / 2
      in case median ages of None \<Rightarrow> False | Some med \<Rightarrow> med - half \<le> a \<and> a \<le> med + half)"

definition filter_outliers_within_span ::
  "ma list \<Rightarrow> ma list \<Rightarrow> real \<Rightarrow> (ma list \<times> ma list) result" where
  "filter_outliers_within_span ages sigmas max_span_ma =
     (let kept = filter (\<lambda>(a, s). span_mask ages max_span_ma a) (zip ages sigmas)
      in if length sigmas \<noteq> length ages then Inl IndexError
         else Inr (map fst kept, map snd kept))"

subsection \<open>Lemmas\<close>

lemma span_mask_iff:
  "median ages = Some med \<Longrightarrow> span_mask ages max_span_ma a = (\<bar>a - med\<bar> \<le> max_span_ma / 2)"
  unfolding span_mask_def Let_def by (simp only: option.case abs_diff_le_iff)

lemma robust_mad_cases:
  assumes "median x = Some med" "median (map (\<lambda>v. \<bar>v - med\<bar>) x) = Some m"
  shows "robust_mad x = (if 0 < m then Some (1.4826 * m) else np_std x)"
  using assms by (simp add: robust_mad_def)

lemma robust_mad_Some_nonneg:
  assumes "x \<noteq> []"
  shows "\<exists>s. robust_mad x = Some s \<and> 0 \<le> s"
proof -
  obtain med where med: "median x = Some med" using median_Some [OF assms] by blast
  obtain m where m: "median (map (\<lambda>v. \<bar>v - med\<bar>) x) = Some m"
    using median_Some [of "map (\<lambda>v. \<bar>v - med\<bar>) x"] assms by auto
  show ?thesis
  proof (cases "0 < m")
    case True
    then have "0 \<le> 1.4826 * m" by simp
    moreover have "robust_mad x = Some (1.4826 * m)" using robust_mad_cases [OF med m] True by simp
    ultimately show ?thesis by blast
  next
    case False
    obtain s where "np_std x = Some s" using assms by (simp add: np_std_def Let_def)
    then show ?thesis using robust_mad_cases [OF med m] False np_std_nonneg by auto
  qed
qed

lemma filter_outliers_within_span_eq:
  assumes "median ages = Some med"
  shows "filter_outliers_within_span ages sigmas max_span_ma
         = (if length sigmas = length ages
            then Inr (map fst (filter (\<lambda>(a, s). \<bar>a - med\<bar> \<le> max_span_ma / 2) (zip ages sigmas)),
                      map snd (filter (\<lambda>(a, s). \<bar>a - med\<bar> \<le> max_span_ma / 2) (zip ages sigmas)))
            else Inl IndexError)"
proof -
  have "filter (\<lambda>(a, s). span_mask ages max_span_ma a) (zip ages sigmas)
        = filter (\<lambda>(a, s). \<bar>a - med\<bar> \<le> max_span_ma / 2) (zip ages sigmas)"
    using span_mask_iff [OF assms] by (intro filter_cong) auto
  then show ?thesis by (simp add: filter_outliers_within_span_def Let_def)
qed

subsection \<open>Properties\<close>

text \<open>
  C8 (bounds, spec \S8). The span filter never returns more grains than it was given,
  returns one uncertainty per kept age, and every kept age lies within
  \<open>max_span_ma / 2\<close> of the input median.
\<close>

theorem filter_outliers_within_span_bounds:
  assumes "filter_outliers_within_span ages sigmas max_span_ma = Inr (ages', sigmas')"
    and "median ages = Some med"
  shows "length ages' \<le> length ages \<and> length sigmas' = length ages'
         \<and> (\<forall>a \<in> set ages'. \<bar>a - med\<bar> \<le> max_span_ma / 2)"
proof -
  let ?kept = "filter (\<lambda>(a, s). span_mask ages max_span_ma a) (zip ages sigmas)"
  have out: "ages' = map fst ?kept" "sigmas' = map snd ?kept" "length sigmas = length ages"
    using assms(1) by (auto simp: filter_outliers_within_span_def Let_def split: if_splits)
  have "length ?kept \<le> length ages"
    using length_filter_le [of _ "zip ages sigmas"] by simp
  moreover have "\<forall>a \<in> set ages'. \<bar>a - med\<bar> \<le> max_span_ma / 2"
    using out(1) span_mask_iff [OF assms(2)] by auto
  ultimately show ?thesis using out by simp
qed

theorem filter_outliers_within_span_bounds_witness:
  "filter_outliers_within_span [2.1, 2.05, 3.9] [0.05, 0.05, 0.05] 1 = Inr ([2.1, 2.05], [0.05, 0.05])
   \<and> median [2.1, 2.05, 3.9] = Some 2.1
   \<and> length [2.1, 2.05 :: real] \<le> length [2.1, 2.05, 3.9 :: real]
   \<and> \<bar>2.05 - 2.1\<bar> \<le> (1::real) / 2"
proof -
  have h: "filter_outliers_within_span [2.1, 2.05, 3.9] [0.05, 0.05, 0.05] 1 = Inr ([2.1, 2.05], [0.05, 0.05])"
    by (simp add: filter_outliers_within_span_def span_mask_def median_def)
  have m: "median [2.1, 2.05, 3.9] = Some 2.1" by (simp add: median_def)
  show ?thesis using h m filter_outliers_within_span_bounds [OF h m] by simp
qed

end
