(* ===== verification/Posterior.thy ===== *)
theory Posterior
  imports Numpy
begin

text \<open>
  Posterior summaries applied to pooled draws: arviz's \<open>az.hdi\<close> (used by
  \<open>fit_bea_for_ash\<close>, \<open>bea_bad/bea.py\<close> line 85), numpy's \<open>np.quantile\<close> with its
  default linear method (used by \<open>fit_bad\<close>, \<open>bea_bad/bad.py\<close> lines 103--124), and
  the bounds that make their results meaningful intervals.
\<close>

subsection \<open>Highest-density interval\<close>

text \<open>\<open>np.argmin\<close>: the first index of a minimal element.\<close>

fun argmin_from :: "nat \<Rightarrow> real \<Rightarrow> nat \<Rightarrow> real list \<Rightarrow> nat" where
  "argmin_from i best bi [] = bi"
| "argmin_from i best bi (x # xs) =
     (if x < best then argmin_from (Suc i) x i xs else argmin_from (Suc i) best bi xs)"

definition np_argmin :: "real list \<Rightarrow> nat" where
  "np_argmin xs = (case xs of [] \<Rightarrow> 0 | x # rest \<Rightarrow> argmin_from 1 x 0 rest)"

text \<open>
  arviz \<open>_hdi\<close> on a flat sample: sort, take the windows of
  \<open>\<lfloor>hdi_prob * n\<rfloor>\<close> consecutive gaps, pick the narrowest (first on ties); no window
  raises ValueError.
\<close>

definition hdi_windows :: "real list \<Rightarrow> nat \<Rightarrow> real list" where
  "hdi_windows s inc = map (\<lambda>i. s ! (i + inc) - s ! i) [0..<length s - inc]"

definition arviz_hdi :: "real list \<Rightarrow> real \<Rightarrow> (real \<times> real) result" where
  "arviz_hdi ary hdi_prob =
     (let s = sort ary; n = length ary;
          inc = nat \<lfloor>hdi_prob * real n\<rfloor>;
          widths = hdi_windows s inc
      in if widths = [] then Inl HdiTooFewElements
         else (let k = np_argmin widths in Inr (s ! k, s ! (k + inc))))"

subsection \<open>Quantiles\<close>

text \<open>
  \<open>np.quantile(a, q)\<close>, method \<open>"linear"\<close>: the virtual index \<open>h = q (n - 1)\<close>
  of the sorted sample, interpolated between its neighbours.
\<close>

definition np_quantile :: "real list \<Rightarrow> real \<Rightarrow> real result" where
  "np_quantile xs q =
     (if xs = [] then Inl EmptyStatistic
      else (let s = sort xs; n = length xs; h = q * real (n - 1);
                i = nat \<lfloor>h\<rfloor>; j = min (Suc i) (n - 1)
            in Inr (s ! i + (h - real i) * (s ! j - s ! i))))"

subsection \<open>Lemmas on argmin and windows\<close>

lemma argmin_from_min:
  assumes "i + length xs = length ys" "xs = drop i ys" "bi < i" "best = ys ! bi"
    and "\<forall>j < i. best \<le> ys ! j"
  shows "argmin_from i best bi xs < length ys
         \<and> (\<forall>j < length ys. ys ! argmin_from i best bi xs \<le> ys ! j)"
  using assms
proof (induction xs arbitrary: i best bi)
  case Nil
  then show ?case by simp
next
  case (Cons x xs)
  have x: "ys ! i = x" "xs = drop (Suc i) ys"
    using Cons.prems(1,2) by (metis Cons_nth_drop_Suc add_Suc_right length_Cons less_add_Suc1 list.inject)+
  show ?case
  proof (cases "x < best")
    case True
    have "\<forall>j < Suc i. x \<le> ys ! j"
      using True Cons.prems(5) x(1) by (auto simp: less_Suc_eq)
    then show ?thesis
      using Cons.IH [of "Suc i" i x] Cons.prems(1) x True by simp
  next
    case False
    have "\<forall>j < Suc i. best \<le> ys ! j"
      using False Cons.prems(5) x(1) by (auto simp: less_Suc_eq)
    then show ?thesis
      using Cons.IH [of "Suc i" bi best] Cons.prems(1,3,4) x False by simp
  qed
qed

lemma np_argmin_min:
  assumes "ys \<noteq> []"
  shows "np_argmin ys < length ys \<and> (\<forall>j < length ys. ys ! np_argmin ys \<le> ys ! j)"
proof -
  obtain y rest where ys: "ys = y # rest" using assms by (cases ys) auto
  have "argmin_from 1 y 0 rest < length ys \<and> (\<forall>j < length ys. ys ! argmin_from 1 y 0 rest \<le> ys ! j)"
    using ys by (intro argmin_from_min) auto
  then show ?thesis using ys by (simp add: np_argmin_def)
qed

lemma hdi_inc_less:
  assumes "ary \<noteq> []" "0 \<le> p" "p < 1"
  shows "nat \<lfloor>p * real (length ary)\<rfloor> < length ary"
proof -
  have "p * real (length ary) < real (length ary)" using assms by simp
  then have "\<lfloor>p * real (length ary)\<rfloor> < int (length ary)" by linarith
  moreover have "0 \<le> \<lfloor>p * real (length ary)\<rfloor>" using assms(2) by simp
  ultimately show ?thesis by (simp add: nat_less_iff)
qed

text \<open>
  The shape of a successful call: the narrowest window \<open>k\<close> of the sorted sample,
  every other window at least as wide.
\<close>

lemma arviz_hdi_window:
  assumes "ary \<noteq> []" "0 \<le> p" "p < 1"
  defines "inc \<equiv> nat \<lfloor>p * real (length ary)\<rfloor>"
  shows "\<exists>k. k + inc < length ary \<and> arviz_hdi ary p = Inr (sort ary ! k, sort ary ! (k + inc))
             \<and> (\<forall>i. i + inc < length ary \<longrightarrow>
                  sort ary ! (k + inc) - sort ary ! k \<le> sort ary ! (i + inc) - sort ary ! i)"
proof -
  let ?s = "sort ary" and ?w = "hdi_windows (sort ary) inc"
  have lt: "inc < length ary" unfolding inc_def by (rule hdi_inc_less [OF assms(1-3)])
  then have ne: "?w \<noteq> []" by (simp add: hdi_windows_def)
  define k where "k = np_argmin ?w"
  have k: "k < length ?w" "\<forall>j < length ?w. ?w ! k \<le> ?w ! j"
    using np_argmin_min [OF ne] by (simp_all add: k_def)
  have len: "length ?w = length ary - inc" by (simp add: hdi_windows_def)
  have "\<forall>i. i + inc < length ary \<longrightarrow> ?s ! (k + inc) - ?s ! k \<le> ?s ! (i + inc) - ?s ! i"
  proof (intro allI impI)
    fix i assume "i + inc < length ary"
    then have "i < length ?w" using len by simp
    then have "?w ! k \<le> ?w ! i" using k(2) by simp
    then show "?s ! (k + inc) - ?s ! k \<le> ?s ! (i + inc) - ?s ! i"
      using k(1) \<open>i < length ?w\<close> len by (simp add: hdi_windows_def)
  qed
  moreover have "arviz_hdi ary p = Inr (?s ! k, ?s ! (k + inc))"
    using ne by (simp add: arviz_hdi_def inc_def [symmetric] k_def Let_def)
  moreover have "k + inc < length ary" using k(1) len by simp
  ultimately show ?thesis by blast
qed

subsection \<open>Lemmas on quantiles\<close>

lemma nat_floor_less:
  assumes "0 \<le> h" "h \<le> real (n - 1)" "n \<noteq> 0"
  shows "nat \<lfloor>h\<rfloor> < n"
proof -
  have "\<lfloor>h\<rfloor> \<le> \<lfloor>real (n - 1)\<rfloor>" using assms(2) by (rule floor_mono)
  then have "\<lfloor>h\<rfloor> \<le> int (n - 1)" by simp
  then show ?thesis using assms(3) by linarith
qed

lemma nat_floor_bounds:
  assumes "0 \<le> h"
  shows "real (nat \<lfloor>h\<rfloor>) \<le> h \<and> h < real (nat \<lfloor>h\<rfloor>) + 1"
proof -
  have "real (nat \<lfloor>h\<rfloor>) = of_int \<lfloor>h\<rfloor>" using assms by simp
  then show ?thesis using floor_correct [of h] by linarith
qed

definition lerp_at :: "real list \<Rightarrow> real \<Rightarrow> real" where
  "lerp_at s h =
     (let i = nat \<lfloor>h\<rfloor>; j = min (Suc i) (length s - 1) in s ! i + (h - real i) * (s ! j - s ! i))"

lemma np_quantile_lerp:
  "xs \<noteq> [] \<Longrightarrow> np_quantile xs q = Inr (lerp_at (sort xs) (q * real (length xs - 1)))"
  by (simp add: np_quantile_def lerp_at_def Let_def)

lemma lerp_at_bounds:
  assumes "sorted s" "s \<noteq> []" "0 \<le> h" "h \<le> real (length s - 1)"
  shows "s ! nat \<lfloor>h\<rfloor> \<le> lerp_at s h
         \<and> lerp_at s h \<le> s ! min (Suc (nat \<lfloor>h\<rfloor>)) (length s - 1)"
proof -
  define i where "i = nat \<lfloor>h\<rfloor>"
  define j where "j = min (Suc i) (length s - 1)"
  define X where "X = (h - real i) * (s ! j - s ! i)"
  have i: "real i \<le> h" "h < real i + 1" using nat_floor_bounds [OF assms(3)] by (simp_all add: i_def)
  have "i < length s" unfolding i_def using nat_floor_less [OF assms(3,4)] assms(2) by simp
  then have ij: "i \<le> j" "j < length s"
    using assms(2) by (auto simp: j_def)
  have d: "0 \<le> s ! j - s ! i" using assms(1) ij by (simp add: sorted_nth_mono)
  have g: "0 \<le> h - real i" "h - real i \<le> 1" using i by simp_all
  have "0 \<le> X" using g d by (simp add: X_def)
  moreover have "X \<le> 1 * (s ! j - s ! i)"
    unfolding X_def using g d by (intro mult_right_mono) simp_all
  ultimately have "s ! i \<le> s ! i + X \<and> s ! i + X \<le> s ! j" by simp
  moreover have "lerp_at s h = s ! i + X"
    by (simp add: lerp_at_def Let_def i_def j_def X_def)
  ultimately show ?thesis unfolding i_def [symmetric] j_def [symmetric] by simp
qed

lemma lerp_at_mono:
  assumes "sorted s" "s \<noteq> []" "0 \<le> h1" "h1 \<le> h2" "h2 \<le> real (length s - 1)"
  shows "lerp_at s h1 \<le> lerp_at s h2"
proof -
  define i1 where "i1 = nat \<lfloor>h1\<rfloor>"
  define i2 where "i2 = nat \<lfloor>h2\<rfloor>"
  have le: "i1 \<le> i2" using assms(4) by (simp add: i1_def i2_def nat_mono floor_mono)
  have h2nn: "0 \<le> h2" using assms(3,4) by linarith
  have i2lt: "i2 < length s" unfolding i2_def using nat_floor_less [OF h2nn assms(5)] assms(2) by simp
  have b1: "s ! i1 \<le> lerp_at s h1 \<and> lerp_at s h1 \<le> s ! min (Suc i1) (length s - 1)"
    using lerp_at_bounds [OF assms(1,2,3)] assms(4,5) by (simp add: i1_def)
  have b2: "s ! i2 \<le> lerp_at s h2"
    using lerp_at_bounds [OF assms(1,2)] assms(3,4,5) by (simp add: i2_def)
  show ?thesis
  proof (cases "i1 = i2")
    case True
    define j where "j = min (Suc i1) (length s - 1)"
    have "i1 < length s" using True i2lt by simp
    then have "0 \<le> s ! j - s ! i1" using assms(1) by (simp add: j_def sorted_nth_mono)
    then have "(h1 - real i1) * (s ! j - s ! i1) \<le> (h2 - real i1) * (s ! j - s ! i1)"
      using assms(4) by (intro mult_right_mono) simp_all
    moreover have "lerp_at s h1 = s ! i1 + (h1 - real i1) * (s ! j - s ! i1)"
      by (simp add: lerp_at_def Let_def i1_def j_def)
    moreover have "lerp_at s h2 = s ! i1 + (h2 - real i1) * (s ! j - s ! i1)"
      using True by (simp add: lerp_at_def Let_def i2_def j_def)
    ultimately show ?thesis by simp
  next
    case False
    with le have "min (Suc i1) (length s - 1) \<le> i2" by simp
    moreover note i2lt
    ultimately have "s ! min (Suc i1) (length s - 1) \<le> s ! i2"
      using assms(1) by (simp add: sorted_nth_mono)
    then show ?thesis using b1 b2 by simp
  qed
qed

lemma sorted_Min_Max:
  assumes "sorted s" "s \<noteq> []"
  shows "Min (set s) = s ! 0 \<and> Max (set s) = s ! (length s - 1)"
proof -
  have "\<And>x. x \<in> set s \<Longrightarrow> s ! 0 \<le> x \<and> x \<le> s ! (length s - 1)"
    using assms by (auto simp: in_set_conv_nth sorted_nth_mono)
  moreover have "s ! 0 \<in> set s" "s ! (length s - 1) \<in> set s" using assms(2) by simp_all
  ultimately show ?thesis by (intro conjI Min_eqI Max_eqI) auto
qed

lemma count_window:
  assumes "sorted s" "k + m < length s"
  shows "Suc m \<le> length (filter (\<lambda>x. s ! k \<le> x \<and> x \<le> s ! (k + m)) s)"
proof -
  let ?P = "\<lambda>x. s ! k \<le> x \<and> x \<le> s ! (k + m)"
  have sub: "{k..k + m} \<subseteq> {i. i < length s \<and> ?P (s ! i)}"
    using assms by (auto simp: sorted_nth_mono)
  have "Suc m = card {k..k + m}" by simp
  also have "\<dots> \<le> card {i. i < length s \<and> ?P (s ! i)}"
    using sub by (intro card_mono) auto
  finally show ?thesis by (simp add: length_filter_conv_card)
qed

lemma arviz_hdi_bounds:
  assumes "ary \<noteq> []" "0 \<le> p" "p < 1"
  shows "\<exists>lo hi. arviz_hdi ary p = Inr (lo, hi) \<and> Min (set ary) \<le> lo \<and> lo \<le> hi \<and> hi \<le> Max (set ary)"
proof -
  let ?s = "sort ary" and ?inc = "nat \<lfloor>p * real (length ary)\<rfloor>"
  obtain k where k: "k + ?inc < length ary" "arviz_hdi ary p = Inr (?s ! k, ?s ! (k + ?inc))"
    using arviz_hdi_window [OF assms] by blast
  have l: "length ?s = length ary" by simp
  then have s: "sorted ?s" "?s \<noteq> []" "length ?s = length ary" using assms(1) by (simp, metis length_0_conv, simp)
  have mm: "Min (set ary) = ?s ! 0" "Max (set ary) = ?s ! (length ary - 1)"
    using sorted_Min_Max [OF s(1,2)] s(3) by simp_all
  have "?s ! 0 \<le> ?s ! k" "?s ! k \<le> ?s ! (k + ?inc)" "?s ! (k + ?inc) \<le> ?s ! (length ary - 1)"
    using s k(1) by (simp_all add: sorted_nth_mono)
  then show ?thesis using k(2) mm by auto
qed

subsection \<open>The HDI as a highest-density interval\<close>

text \<open>
  The interval \<open>az.hdi\<close> returns is a highest-density interval in the glossary's
  sense: no interval holding at least as many draws is narrower.
\<close>

lemma arviz_hdi_narrowest:
  assumes "ary \<noteq> []" "0 \<le> p" "p < 1" "arviz_hdi ary p = Inr (lo, hi)"
    and "nat \<lfloor>p * real (length ary)\<rfloor> + 1 \<le> length (filter (\<lambda>x. a \<le> x \<and> x \<le> b) ary)"
  shows "hi - lo \<le> b - a"
proof -
  let ?m = "nat \<lfloor>p * real (length ary)\<rfloor>" and ?s = "sort ary"
  obtain k where k: "k + ?m < length ary" "arviz_hdi ary p = Inr (?s ! k, ?s ! (k + ?m))"
    and minw: "\<forall>i. i + ?m < length ary \<longrightarrow> ?s ! (k + ?m) - ?s ! k \<le> ?s ! (i + ?m) - ?s ! i"
    using arviz_hdi_window [OF assms(1-3)] by blast
  have lohi: "lo = ?s ! k" "hi = ?s ! (k + ?m)" using k(2) assms(4) by simp_all
  define ca where "ca = length (filter (\<lambda>x. x < a) ?s)"
  define cb where "cb = length (filter (\<lambda>x. x \<le> b) ?s)"
  have ssort: "sorted ?s" by simp
  have spa: "\<And>i. i < length ?s \<Longrightarrow> (?s ! i < a) = (i < ca)"
    unfolding ca_def by (rule sorted_count_split [OF ssort]) auto
  have spb: "\<And>i. i < length ?s \<Longrightarrow> (?s ! i \<le> b) = (i < cb)"
    unfolding cb_def by (rule sorted_count_split [OF ssort]) auto
  have "{i. i < length ?s \<and> a \<le> ?s ! i \<and> ?s ! i \<le> b} \<subseteq> {ca..<cb}"
    using spa spb by (auto simp: not_less [symmetric])
  then have "card {i. i < length ?s \<and> a \<le> ?s ! i \<and> ?s ! i \<le> b} \<le> cb - ca"
    using card_mono [of "{ca..<cb}"] by fastforce
  moreover have "length (filter (\<lambda>x. a \<le> x \<and> x \<le> b) ary)
      = card {i. i < length ?s \<and> a \<le> ?s ! i \<and> ?s ! i \<le> b}"
    by (rule trans [OF length_filter_sort [symmetric] length_filter_conv_card])
  ultimately have "Suc ?m \<le> cb - ca" using assms(5) by simp
  then have win: "ca + ?m < cb" "cb \<le> length ary"
    by (simp_all add: cb_def) (use length_filter_le [of _ ?s] in simp)
  have "a \<le> ?s ! ca" using spa [of ca] win by simp
  moreover have "?s ! (ca + ?m) \<le> b" using spb [of "ca + ?m"] win by simp
  moreover have "hi - lo \<le> ?s ! (ca + ?m) - ?s ! ca" using minw win lohi by simp
  ultimately show ?thesis by simp
qed

text \<open>
  The interval holds at least \<open>\<lfloor>p n\<rfloor> + 1\<close> of the draws: the window of sorted
  draws it spans.
\<close>

lemma arviz_hdi_covers:
  assumes "ary \<noteq> []" "0 \<le> p" "p < 1" "arviz_hdi ary p = Inr (lo, hi)"
  shows "nat \<lfloor>p * real (length ary)\<rfloor> + 1 \<le> length (filter (\<lambda>x. lo \<le> x \<and> x \<le> hi) ary)"
proof -
  let ?m = "nat \<lfloor>p * real (length ary)\<rfloor>" and ?s = "sort ary"
  obtain k where k: "k + ?m < length ary" "arviz_hdi ary p = Inr (?s ! k, ?s ! (k + ?m))"
    using arviz_hdi_window [OF assms(1-3)] by blast
  have lohi: "lo = ?s ! k" "hi = ?s ! (k + ?m)" using k(2) assms(4) by simp_all
  have "{k..k + ?m} \<subseteq> {i. i < length ?s \<and> lo \<le> ?s ! i \<and> ?s ! i \<le> hi}"
    using k(1) lohi by (auto intro: sorted_nth_mono)
  then have "card {k..k + ?m} \<le> card {i. i < length ?s \<and> lo \<le> ?s ! i \<and> ?s ! i \<le> hi}"
    by (rule card_mono [rotated]) simp
  moreover have "length (filter (\<lambda>x. lo \<le> x \<and> x \<le> hi) ary)
      = card {i. i < length ?s \<and> lo \<le> ?s ! i \<and> ?s ! i \<le> hi}"
    by (rule trans [OF length_filter_sort [symmetric] length_filter_conv_card])
  ultimately show ?thesis by simp
qed

text \<open>
  \<open>np.quantile\<close> on a non-empty sample succeeds, is monotone in \<open>q\<close> on
  \<open>[0, 1]\<close> and stays within the sample's range.
\<close>

lemma np_quantile_mono:
  assumes "xs \<noteq> []" "0 \<le> q1" "q1 \<le> q2" "q2 \<le> 1"
  shows "\<exists>v1 v2. np_quantile xs q1 = Inr v1 \<and> np_quantile xs q2 = Inr v2
           \<and> Min (set xs) \<le> v1 \<and> v1 \<le> v2 \<and> v2 \<le> Max (set xs)"
proof -
  let ?s = "sort xs" and ?n = "length xs"
  have s: "sorted ?s" "?s \<noteq> []" using assms(1) by (simp, metis length_0_conv length_sort)
  have len: "length ?s = ?n" by simp
  have h: "0 \<le> q1 * real (?n - 1)" "q1 * real (?n - 1) \<le> q2 * real (?n - 1)"
    "q2 * real (?n - 1) \<le> real (length ?s - 1)"
    using assms by (simp_all add: mult_right_mono mult_left_le_one_le)
  have h2: "0 \<le> q2 * real (?n - 1)" using h(1,2) by linarith
  have mono: "lerp_at ?s (q1 * real (?n - 1)) \<le> lerp_at ?s (q2 * real (?n - 1))"
    using lerp_at_mono [OF s h(1,2)] h(3) by simp
  have h1le: "q1 * real (?n - 1) \<le> real (length ?s - 1)" using h(2,3) by linarith
  have "length ?s \<noteq> 0" using assms(1) by simp
  then have i1: "nat \<lfloor>q1 * real (?n - 1)\<rfloor> < length ?s"
    using nat_floor_less [OF h(1) h1le] by blast
  have lo: "?s ! 0 \<le> lerp_at ?s (q1 * real (?n - 1))"
  proof -
    have "?s ! 0 \<le> ?s ! nat \<lfloor>q1 * real (?n - 1)\<rfloor>" using i1 by (simp add: sorted_nth_mono del: of_nat_diff)
    also have "\<dots> \<le> lerp_at ?s (q1 * real (?n - 1))"
      using lerp_at_bounds [OF s h(1)] h(2,3) by simp
    finally show ?thesis .
  qed
  have hi: "lerp_at ?s (q2 * real (?n - 1)) \<le> ?s ! (length ?s - 1)"
  proof -
    have "lerp_at ?s (q2 * real (?n - 1)) \<le> ?s ! min (Suc (nat \<lfloor>q2 * real (?n - 1)\<rfloor>)) (length ?s - 1)"
      using lerp_at_bounds [OF s h2 h(3)] by simp
    also have "\<dots> \<le> ?s ! (length ?s - 1)"
      using assms(1) by (intro sorted_nth_mono) simp_all
    finally show ?thesis .
  qed
  have mm: "Min (set xs) = ?s ! 0" "Max (set xs) = ?s ! (length ?s - 1)"
    using sorted_Min_Max [OF s] by simp_all
  show ?thesis
    using np_quantile_lerp [OF assms(1)] mono lo hi mm by simp
qed

end
