(* ===== verification/BAD.thy ===== *)
theory BAD
  imports Interpolator Posterior
begin

text \<open>
  BADModel (spec \S4.4), \<open>fit_bad\<close> of \<open>bea_bad/bad.py\<close>: sort the tie points by
  depth, reject fewer than two, declare the age--depth model (ordered latent depths,
  log-normal segment rates, base age, cumulative tie ages, Gaussian likelihood of the
  BEA ages), hand it to the sampling engine, and summarise the pooled draws at the
  query depths (through the interpolator) and at the tie points (mean and 2.5\%/97.5\%
  quantiles). The engine is a parameter: any function from a model declaration and the
  sampler settings to a list of draws. Writing the NetCDF file and creating the output
  directory are I/O and not modelled.
\<close>

subsection \<open>Data\<close>

text \<open>The keyword arguments of \<open>fit_bad\<close> that reach the model or the sampler.\<close>

record bad_config =
  depth_sigma_m :: real
  sedrate_logn_mu :: real
  sedrate_logn_sigma :: real
  bad_draws :: int
  bad_tune :: int
  bad_chains :: int
  bad_target_accept :: real
  bad_seed :: int

text \<open>The \<open>pm.Model\<close> block, lines 65--82, as the declaration handed to the engine.\<close>

record bad_model =
  d_true_mu :: "metres list"      \<comment> \<open>\<open>mu=d_obs\<close>, also the \<open>initval\<close>\<close>
  d_true_sigma :: real           \<comment> \<open>\<open>sigma=depth_sigma_m\<close>, ordered transform\<close>
  n_ties :: nat                  \<comment> \<open>\<open>shape=K\<close>\<close>
  rates_mu :: real
  rates_sigma :: real
  n_rates :: nat                 \<comment> \<open>\<open>shape=K - 1\<close>\<close>
  age0_mu :: ma
  age0_sigma :: real
  like_obs :: "ma list"          \<comment> \<open>\<open>observed=E_obs\<close>\<close>
  like_sigma :: "real list"      \<comment> \<open>\<open>sigma=E_sd\<close>\<close>

text \<open>One pooled posterior draw (lines 94--96 read the three variables by index).\<close>

record bad_draw =
  d_true :: "metres list"
  age0 :: ma
  rates :: "real list"

type_synonym bad_sampler = "bad_model \<Rightarrow> bad_config \<Rightarrow> bad_draw list result"

text \<open>The two output tables (\<open>pd.DataFrame\<close>s) as lists of rows.\<close>

record query_row =
  q_depth_m :: metres
  q_age_mean_ma :: ma
  q_age_low_ma :: ma
  q_age_high_ma :: ma

record tie_row =
  t_depth_obs_m :: metres
  t_eruption_obs_ma :: ma
  t_eruption_obs_sd_ma :: real
  t_age_model_mean_ma :: ma
  t_age_model_low_ma :: ma
  t_age_model_high_ma :: ma

record bad_outputs =
  tie_summary :: "tie_row list"
  query_summary :: "query_row list"

subsection \<open>Operations\<close>

text \<open>
  Line 56: \<open>np.argsort\<close>. numpy's default sort is not stable; this model takes the
  stable order, which differs from numpy's only among equal depths.
\<close>

definition np_argsort :: "real list \<Rightarrow> nat list" where
  "np_argsort xs = sort_key (\<lambda>i. xs ! i) [0..<length xs]"

text \<open>Lines 57--59: fancy indexing \<open>a[order]\<close>.\<close>

definition take_order :: "real list \<Rightarrow> nat list \<Rightarrow> real list result" where
  "take_order a order = mapE (\<lambda>i. py_get a (int i)) order"

text \<open>Lines 50--82: sort, check, declare the model.\<close>

definition bad_model_of ::
  "metres list \<Rightarrow> ma list \<Rightarrow> real list \<Rightarrow> bad_config \<Rightarrow> (bad_model \<times> metres list \<times> ma list \<times> real list) result" where
  "bad_model_of tie_depths_m tie_age_mean_ma tie_age_sd_ma cfg =
     (let order = np_argsort tie_depths_m;
          d_obs = map (\<lambda>i. tie_depths_m ! i) order
      in bindE (take_order tie_age_mean_ma order) (\<lambda>E_obs.
         bindE (take_order tie_age_sd_ma order) (\<lambda>E_sd.
         (let K = length d_obs
          in if K < 2 then Inl TooFewTiePoints
             else Inr (\<lparr>d_true_mu = d_obs, d_true_sigma = depth_sigma_m cfg, n_ties = K,
                        rates_mu = sedrate_logn_mu cfg, rates_sigma = sedrate_logn_sigma cfg,
                        n_rates = K - 1,
                        age0_mu = E_obs ! 0, age0_sigma = max (E_sd ! 0 * 5) 0.2,
                        like_obs = E_obs, like_sigma = E_sd\<rparr>,
                       d_obs, E_obs, E_sd)))))"

text \<open>Lines 99--101: the interpolated ages of every draw at the query depths.\<close>

definition query_ages :: "bad_draw list \<Rightarrow> metres list \<Rightarrow> ma list list result" where
  "query_ages post q =
     mapE (\<lambda>dr. piecewise_age_one_draw (d_true dr) (age0 dr) (rates dr) q) post"

text \<open>Lines 111--115: the tie ages of every draw, into rows of width \<open>K\<close>.\<close>

definition tie_ages_row :: "nat \<Rightarrow> bad_draw \<Rightarrow> ma list result" where
  "tie_ages_row K dr =
     bindE (np_mul (rates dr) (np_diff (d_true dr))) (\<lambda>prod.
       bindE (assign_slice (K - 1) (map (\<lambda>c. age0 dr + c) (np_cumsum prod)))
         (\<lambda>rest. Inr (age0 dr # rest)))"

text \<open>
  One column of a draws-by-values matrix summarised as \<open>fit_bad\<close> does:
  \<open>mean(axis=0)\<close>, \<open>quantile(0.025)\<close>, \<open>quantile(0.975)\<close>. With no draws numpy
  yields NaN; the model reports it as an error.
\<close>

definition column :: "real list list \<Rightarrow> nat \<Rightarrow> real list" where
  "column m j = map (\<lambda>row. row ! j) m"

definition col_stats :: "real list \<Rightarrow> (real \<times> real \<times> real) result" where
  "col_stats xs =
     (case np_mean xs of
        None \<Rightarrow> Inl EmptyStatistic
      | Some m \<Rightarrow> bindE (np_quantile xs 0.025) (\<lambda>lo.
                   bindE (np_quantile xs 0.975) (\<lambda>hi. Inr (m, lo, hi))))"

text \<open>Lines 103--108: the query table, sorted by depth.\<close>

definition mk_query_row :: "metres \<Rightarrow> real \<times> real \<times> real \<Rightarrow> query_row" where
  "mk_query_row x t =
     \<lparr>q_depth_m = x, q_age_mean_ma = fst t, q_age_low_ma = fst (snd t), q_age_high_ma = snd (snd t)\<rparr>"

definition query_summary_of :: "metres list \<Rightarrow> ma list list \<Rightarrow> query_row list result" where
  "query_summary_of q ages_q =
     bindE (mapE (\<lambda>j. bindE (col_stats (column ages_q j)) (\<lambda>t. Inr (mk_query_row (q ! j) t)))
            [0..<length q])
       (\<lambda>rows. Inr (sort_key q_depth_m rows))"

text \<open>Lines 117--124: the tie-point table, in sorted depth order.\<close>

definition mk_tie_row :: "metres \<Rightarrow> ma \<Rightarrow> real \<Rightarrow> real \<times> real \<times> real \<Rightarrow> tie_row" where
  "mk_tie_row d e sd t =
     \<lparr>t_depth_obs_m = d, t_eruption_obs_ma = e, t_eruption_obs_sd_ma = sd,
      t_age_model_mean_ma = fst t, t_age_model_low_ma = fst (snd t), t_age_model_high_ma = snd (snd t)\<rparr>"

definition tie_summary_of :: "metres list \<Rightarrow> ma list \<Rightarrow> real list \<Rightarrow> ma list list \<Rightarrow> tie_row list result" where
  "tie_summary_of d_obs E_obs E_sd tie_ages =
     mapE (\<lambda>k. bindE (col_stats (column tie_ages k)) (\<lambda>t. Inr (mk_tie_row (d_obs ! k) (E_obs ! k) (E_sd ! k) t)))
       [0..<length d_obs]"

text \<open>
  Lines 93--130: everything after the NetCDF file is written, from the pooled draws to
  the two summary tables.
\<close>

definition bad_summaries ::
  "bad_draw list \<Rightarrow> metres list \<Rightarrow> metres list \<Rightarrow> ma list \<Rightarrow> real list \<Rightarrow> bad_outputs result" where
  "bad_summaries post query_depths_m d_obs E_obs E_sd =
     bindE (query_ages post query_depths_m) (\<lambda>ages_q.
     bindE (query_summary_of query_depths_m ages_q) (\<lambda>qs.
     bindE (mapE (tie_ages_row (length d_obs)) post) (\<lambda>tie_ages.
     bindE (tie_summary_of d_obs E_obs E_sd tie_ages) (\<lambda>ts.
       Inr \<lparr>tie_summary = ts, query_summary = qs\<rparr>))))"

text \<open>The whole of \<open>fit_bad\<close> (lines 29--130).\<close>

definition fit_bad ::
  "bad_sampler \<Rightarrow> metres list \<Rightarrow> ma list \<Rightarrow> real list \<Rightarrow> metres list \<Rightarrow> bad_config \<Rightarrow> bad_outputs result" where
  "fit_bad sampler tie_depths_m tie_age_mean_ma tie_age_sd_ma query_depths_m cfg =
     bindE (bad_model_of tie_depths_m tie_age_mean_ma tie_age_sd_ma cfg) (\<lambda>(m, d_obs, E_obs, E_sd).
     bindE (sampler m cfg) (\<lambda>post. bad_summaries post query_depths_m d_obs E_obs E_sd))"

subsection \<open>Lemmas\<close>

definition col_triple :: "real list \<Rightarrow> real \<times> real \<times> real" where
  "col_triple xs =
     (sum_list xs / real (length xs),
      lerp_at (sort xs) (0.025 * real (length xs - 1)),
      lerp_at (sort xs) (0.975 * real (length xs - 1)))"

text \<open>
  The pooled posterior as the spec describes it: per draw, the age at a query depth
  (\S4.5) and the age of the \<open>k\<close>-th tie (\S4.4); and the engine's contract on a
  non-empty list of draws for \<open>K\<close> tie points.
\<close>

definition draw_query_ages :: "bad_draw list \<Rightarrow> metres \<Rightarrow> ma list" where
  "draw_query_ages post x = map (\<lambda>dr. interp_age (d_true dr) (age0 dr) (rates dr) x) post"

definition draw_tie_ages :: "bad_draw list \<Rightarrow> nat \<Rightarrow> ma list" where
  "draw_tie_ages post k = map (\<lambda>dr. tie_age (d_true dr) (age0 dr) (rates dr) k) post"

definition post_ok :: "nat \<Rightarrow> bad_draw list \<Rightarrow> bool" where
  "post_ok K post \<longleftrightarrow> post \<noteq> [] \<and> (\<forall>dr \<in> set post. draw_ok (d_true dr) (rates dr) \<and> length (d_true dr) = K)"

lemma col_stats_eq: "xs \<noteq> [] \<Longrightarrow> col_stats xs = Inr (col_triple xs)"
  by (simp add: col_stats_def np_mean_def col_triple_def np_quantile_lerp)

lemma col_triple_bounds:
  assumes "xs \<noteq> []"
  shows "Min (set xs) \<le> fst (snd (col_triple xs)) \<and> fst (snd (col_triple xs)) \<le> snd (snd (col_triple xs))
         \<and> snd (snd (col_triple xs)) \<le> Max (set xs)
         \<and> Min (set xs) \<le> fst (col_triple xs) \<and> fst (col_triple xs) \<le> Max (set xs)"
proof -
  obtain v1 v2 where q: "np_quantile xs 0.025 = Inr v1" "np_quantile xs 0.975 = Inr v2"
    "Min (set xs) \<le> v1" "v1 \<le> v2" "v2 \<le> Max (set xs)"
    using np_quantile_mono [OF assms, of "0.025" "0.975"] by auto
  have "fst (snd (col_triple xs)) = v1" "snd (snd (col_triple xs)) = v2"
    using q(1,2) np_quantile_lerp [OF assms] by (simp_all add: col_triple_def)
  moreover have "Min (set xs) * real (length xs) \<le> sum_list xs"
    using assms by (intro sum_list_ge_const) simp
  moreover have "sum_list xs \<le> Max (set xs) * real (length xs)"
    using assms by (intro sum_list_le_const) simp
  ultimately show ?thesis
    using q assms by (simp add: col_triple_def pos_le_divide_eq pos_divide_le_eq)
qed

lemma col_triple_mean_mono:
  "post \<noteq> [] \<Longrightarrow> (\<And>x. x \<in> set post \<Longrightarrow> f x \<le> g x)
   \<Longrightarrow> fst (col_triple (map f post)) \<le> fst (col_triple (map g post))"
  by (simp add: col_triple_def divide_right_mono sum_list_mono)

lemma col_triple_mean_strict_mono:
  "post \<noteq> [] \<Longrightarrow> (\<And>x. x \<in> set post \<Longrightarrow> f x < g x)
   \<Longrightarrow> fst (col_triple (map f post)) < fst (col_triple (map g post))"
  by (simp add: col_triple_def divide_strict_right_mono sum_list_strict_mono)

lemma take_order_ok:
  "(\<And>i. i \<in> set order \<Longrightarrow> i < length a) \<Longrightarrow> take_order a order = Inr (map (\<lambda>i. a ! i) order)"
  by (simp add: take_order_def mapE_Inr_map)

lemma np_argsort_props:
  "mset (np_argsort xs) = mset [0..<length xs] \<and> set (np_argsort xs) = {0..<length xs}
   \<and> sorted (map (\<lambda>i. xs ! i) (np_argsort xs)) \<and> length (np_argsort xs) = length xs"
  by (simp add: np_argsort_def)

lemma take_order_argsort:
  "length d \<le> length a \<Longrightarrow> take_order a (np_argsort d) = Inr (map (\<lambda>i. a ! i) (np_argsort d))"
  by (intro take_order_ok) (simp add: np_argsort_def)

lemma take_order_out_of_range:
  "\<exists>i \<in> set order. length a \<le> i \<Longrightarrow> take_order a order = Inl IndexError"
proof (induction order)
  case (Cons i order)
  then show ?case
    by (cases "i < length a") (auto simp: take_order_def py_get_def)
qed simp

lemma take_order_argsort_short:
  "length a < length d \<Longrightarrow> take_order a (np_argsort d) = Inl IndexError"
  by (intro take_order_out_of_range bexI [of _ "length a"]) (simp_all add: np_argsort_def)

lemma bad_model_of_eq:
  "bad_model_of d E sd cfg =
     (if length E < length d \<or> length sd < length d then Inl IndexError
      else if length d < 2 then Inl TooFewTiePoints
      else Inr (\<lparr>d_true_mu = map (\<lambda>i. d ! i) (np_argsort d), d_true_sigma = depth_sigma_m cfg,
                 n_ties = length d, rates_mu = sedrate_logn_mu cfg, rates_sigma = sedrate_logn_sigma cfg,
                 n_rates = length d - 1,
                 age0_mu = E ! (np_argsort d ! 0), age0_sigma = max (sd ! (np_argsort d ! 0) * 5) 0.2,
                 like_obs = map (\<lambda>i. E ! i) (np_argsort d), like_sigma = map (\<lambda>i. sd ! i) (np_argsort d)\<rparr>,
                map (\<lambda>i. d ! i) (np_argsort d), map (\<lambda>i. E ! i) (np_argsort d), map (\<lambda>i. sd ! i) (np_argsort d)))"
proof -
  have len: "length (np_argsort d) = length d" by (simp add: np_argsort_def)
  consider (shortE) "length E < length d" | (shortsd) "length d \<le> length E" "length sd < length d"
    | (ok) "length d \<le> length E" "length d \<le> length sd" by linarith
  then show ?thesis
  proof cases
    case shortE
    then show ?thesis by (simp add: bad_model_of_def take_order_argsort_short)
  next
    case shortsd
    then show ?thesis by (simp add: bad_model_of_def take_order_argsort take_order_argsort_short)
  next
    case ok
    have "\<not> length d < 2 \<Longrightarrow> 0 < length (np_argsort d)" using len by linarith
    then show ?thesis
      using ok len by (auto simp: bad_model_of_def take_order_argsort Let_def)
  qed
qed

lemma argsort_sort: "map (\<lambda>i. d ! i) (np_argsort d) = sort d"
  using map_sort_key_eq_sort [of "\<lambda>i. d ! i" "[0..<length d]"] by (simp add: np_argsort_def map_nth)

lemma zip3_argsort:
  assumes "length d \<le> length E" "length d \<le> length sd"
  shows "mset (zip (map (\<lambda>i. d ! i) (np_argsort d)) (zip (map (\<lambda>i. E ! i) (np_argsort d)) (map (\<lambda>i. sd ! i) (np_argsort d))))
         = mset (zip d (zip E sd))"
proof -
  let ?f = "\<lambda>i. (d ! i, E ! i, sd ! i)"
  have "zip (map (\<lambda>i. d ! i) (np_argsort d)) (zip (map (\<lambda>i. E ! i) (np_argsort d)) (map (\<lambda>i. sd ! i) (np_argsort d)))
        = map ?f (np_argsort d)"
    by (rule nth_equalityI) simp_all
  moreover have "zip d (zip E sd) = map ?f [0..<length d]"
    using assms by (intro nth_equalityI) simp_all
  moreover have "mset (np_argsort d) = mset [0..<length d]" by (simp add: np_argsort_def)
  ultimately show ?thesis by (simp only: mset_map)
qed

lemma bad_model_of_Inr:
  assumes "bad_model_of d E sd cfg = Inr (m0, d', E', sd')"
  shows "d' = sort d" "length d' = length d" "2 \<le> length d"
proof -
  have c: "\<not> (length E < length d \<or> length sd < length d)" "\<not> length d < 2"
    using assms unfolding bad_model_of_eq by (auto split: if_splits)
  then have "d' = map (\<lambda>i. d ! i) (np_argsort d)"
    using assms unfolding bad_model_of_eq by (simp only: if_False sum.inject prod.inject)
  then show "d' = sort d" "length d' = length d" "2 \<le> length d"
    using c argsort_sort [of d] by simp_all
qed

lemma tie_age_Suc_less:
  assumes "draw_ok d rs" "Suc k < length d"
  shows "tie_age d a0 rs k < tie_age d a0 rs (Suc k)"
proof -
  have "0 < rs ! k" using assms by (simp add: draw_defs)
  moreover have "d ! k < d ! Suc k" using assms by (simp add: draw_defs sorted_wrt_iff_nth_less)
  ultimately show ?thesis by (simp add: tie_age_Suc)
qed

lemma query_rows_depth:
  "map q_depth_m (sort_key q_depth_m (map (\<lambda>x. mk_query_row x (t x)) q)) = sort q"
  by (simp add: map_sort_key_eq_sort comp_def mk_query_row_def)

lemma query_rows_mean:
  "map q_age_mean_ma (sort_key q_depth_m (map (\<lambda>x. mk_query_row x (t x)) q)) = map (\<lambda>x. fst (t x)) (sort q)"
proof -
  let ?S = "sort_key q_depth_m (map (\<lambda>x. mk_query_row x (t x)) q)"
  have "map q_age_mean_ma ?S = map (\<lambda>r. fst (t (q_depth_m r))) ?S"
    by (rule map_cong) (auto simp: mk_query_row_def)
  also have "\<dots> = map (\<lambda>x. fst (t x)) (map q_depth_m ?S)" by simp
  finally show ?thesis by (simp only: query_rows_depth)
qed

lemma col_triple_lo_hi: "xs \<noteq> [] \<Longrightarrow> fst (snd (col_triple xs)) \<le> snd (snd (col_triple xs))"
  using col_triple_bounds by blast

lemma tie_rows_depth:
  "map t_depth_obs_m (map (\<lambda>k. mk_tie_row (d ! k) (e k) (s k) (t k)) [0..<length d]) = d"
  by (rule nth_equalityI) (simp_all add: mk_tie_row_def)

lemma post_ok_draw:
  assumes "post_ok K post" "dr \<in> set post"
  shows "draw_shape (d_true dr) (rates dr)" "sorted (d_true dr)" "length (d_true dr) = K"
    "draw_ok (d_true dr) (rates dr)"
  using assms by (auto simp: post_ok_def draw_ok_def intro: strict_sorted_imp_sorted)

lemma query_ages_eval:
  "post_ok K post \<Longrightarrow>
   query_ages post q = Inr (map (\<lambda>dr. map (interp_age (d_true dr) (age0 dr) (rates dr)) q) post)"
  unfolding query_ages_def
  by (intro mapE_Inr_map) (simp add: piecewise_age_one_draw_spec post_ok_draw)

lemma tie_ages_row_eval:
  assumes "post_ok K post" "dr \<in> set post"
  shows "tie_ages_row K dr = Inr (map (tie_age (d_true dr) (age0 dr) (rates dr)) [0..<K])"
proof -
  have s: "draw_shape (d_true dr) (rates dr)" and K: "length (d_true dr) = K"
    using post_ok_draw [OF assms] by simp_all
  then have "d_true dr \<noteq> []" "length (rates dr) = length (d_true dr) - 1"
    by (auto simp: draw_shape_def)
  from age_tie_vec_spec [OF this, of "age0 dr"] this(1) K show ?thesis
    by (simp add: age_tie_vec_def tie_ages_row_def)
qed

lemma query_summary_eval:
  assumes "post_ok K post"
  shows "query_summary_of q (map (\<lambda>dr. map (interp_age (d_true dr) (age0 dr) (rates dr)) q) post)
         = Inr (sort_key q_depth_m (map (\<lambda>x. mk_query_row x (col_triple (draw_query_ages post x))) q))"
proof -
  have ne: "post \<noteq> []" using assms by (simp add: post_ok_def)
  have "mapE (\<lambda>j. bindE (col_stats (column (map (\<lambda>dr. map (interp_age (d_true dr) (age0 dr) (rates dr)) q) post) j))
                 (\<lambda>t. Inr (mk_query_row (q ! j) t))) [0..<length q]
        = Inr (map (\<lambda>j. mk_query_row (q ! j) (col_triple (draw_query_ages post (q ! j)))) [0..<length q])"
    using ne by (intro mapE_Inr_map) (simp add: column_def draw_query_ages_def col_stats_eq comp_def)
  then show ?thesis
    using map_nth_upt [of "\<lambda>x. mk_query_row x (col_triple (draw_query_ages post x))" q]
    by (simp add: query_summary_of_def)
qed

lemma tie_summary_eval:
  assumes "post_ok K post" "length d_obs = K"
  shows "tie_summary_of d_obs E_obs E_sd (map (\<lambda>dr. map (tie_age (d_true dr) (age0 dr) (rates dr)) [0..<K]) post)
         = Inr (map (\<lambda>k. mk_tie_row (d_obs ! k) (E_obs ! k) (E_sd ! k) (col_triple (draw_tie_ages post k))) [0..<K])"
proof -
  have ne: "post \<noteq> []" using assms(1) by (simp add: post_ok_def)
  show ?thesis
    unfolding tie_summary_of_def assms(2)
    using ne by (intro mapE_Inr_map) (simp add: column_def draw_tie_ages_def col_stats_eq comp_def)
qed

lemma fit_bad_eval:
  assumes "bad_model_of d E sd cfg = Inr (m0, d', E', sd')" "sampler m0 cfg = Inr post"
    "post_ok (length d') post"
  shows "fit_bad sampler d E sd q cfg =
           Inr \<lparr>tie_summary = map (\<lambda>k. mk_tie_row (d' ! k) (E' ! k) (sd' ! k) (col_triple (draw_tie_ages post k)))
                                 [0..<length d'],
                query_summary = sort_key q_depth_m (map (\<lambda>x. mk_query_row x (col_triple (draw_query_ages post x))) q)\<rparr>"
proof -
  have "mapE (tie_ages_row (length d')) post
        = Inr (map (\<lambda>dr. map (tie_age (d_true dr) (age0 dr) (rates dr)) [0..<length d']) post)"
    using tie_ages_row_eval [OF assms(3)] by (intro mapE_Inr_map) simp
  then show ?thesis
    using assms query_ages_eval [OF assms(3)] query_summary_eval [OF assms(3)]
      tie_summary_eval [OF assms(3) refl]
    by (simp add: fit_bad_def bad_summaries_def)
qed

subsection \<open>Properties\<close>

text \<open>
  C9 (bounds). The per-column summary of \<open>fit_bad\<close> (mean, 2.5\% and 97.5\%
  quantiles) of a non-empty column is defined, its low value is at most its high value,
  and the mean and both quantiles lie within the range of the column.
\<close>

theorem col_stats_interval:
  assumes "xs \<noteq> []"
  shows "\<exists>m lo hi. col_stats xs = Inr (m, lo, hi) \<and> Min (set xs) \<le> lo \<and> lo \<le> hi \<and> hi \<le> Max (set xs)
           \<and> Min (set xs) \<le> m \<and> m \<le> Max (set xs)"
proof -
  obtain m lo hi where t: "col_triple xs = (m, lo, hi)" by (cases "col_triple xs") auto
  show ?thesis using col_stats_eq [OF assms] col_triple_bounds [OF assms] t by simp
qed

theorem col_stats_interval_witness:
  "[1, 2, 3, 4 :: real] \<noteq> []
   \<and> (\<exists>m lo hi. col_stats [1, 2, 3, 4] = Inr (m, lo, hi) \<and> 1 \<le> lo \<and> lo \<le> hi \<and> hi \<le> 4 \<and> 1 \<le> m \<and> m \<le> 4)"
  using col_stats_interval [of "[1, 2, 3, 4]"] by simp

text \<open>
  C10 (error). \<open>fit_bad\<close> fails before the engine is called when the inputs are bad:
  with fewer eruption ages or uncertainties than tie depths the fancy indexing raises
  IndexError; otherwise, with fewer than two tie points, it raises the
  "need at least 2 tie points" error.
\<close>

theorem fit_bad_input_errors:
  assumes "length d < 2 \<or> length E < length d \<or> length sd < length d"
  shows "fit_bad sampler d E sd q cfg
         = Inl (if length E < length d \<or> length sd < length d then IndexError else TooFewTiePoints)"
  using assms by (auto simp: fit_bad_def bad_model_of_eq)

theorem fit_bad_input_errors_witness:
  "(length [10 :: real] < 2 \<or> length [2 :: real] < length [10 :: real] \<or> length [0.1 :: real] < length [10 :: real])
   \<and> fit_bad (\<lambda>m c. Inr []) [10] [2] [0.1] [5]
     \<lparr>depth_sigma_m = 1, sedrate_logn_mu = 0, sedrate_logn_sigma = 1, bad_draws = 100, bad_tune = 100,
      bad_chains = 1, bad_target_accept = 0.9, bad_seed = 0\<rparr> = Inl TooFewTiePoints"
  using fit_bad_input_errors [of "[10]" "[2]" "[0.1]" "\<lambda>m c. Inr []" "[5]" "\<lparr>depth_sigma_m = 1, sedrate_logn_mu = 0, sedrate_logn_sigma = 1, bad_draws = 100, bad_tune = 100, bad_chains = 1, bad_target_accept = 0.9, bad_seed = 0\<rparr>"] by simp

text \<open>
  C11 (functional). On well-formed inputs (at least two tie points, one age and one
  uncertainty per tie depth) the model declaration succeeds; the tie points are sorted by
  depth, each keeping its own age and uncertainty (the triples are a permutation of the
  input), and the priors are those of lines 65--82: latent depths centred on the sorted
  observed depths with \<open>depth_sigma_m\<close>, \<open>K - 1\<close> log-normal rates, the base age
  centred on the shallowest eruption age with \<open>max(5 sd, 0.2)\<close>, and the likelihood on
  the sorted ages and uncertainties.
\<close>

theorem bad_model_of_sorted_perm:
  assumes "2 \<le> length d" "length d \<le> length E" "length d \<le> length sd"
  shows "\<exists>m d' E' sd'. bad_model_of d E sd cfg = Inr (m, d', E', sd') \<and> d' = sort d
           \<and> mset (zip d' (zip E' sd')) = mset (zip d (zip E sd))
           \<and> d_true_mu m = d' \<and> d_true_sigma m = depth_sigma_m cfg \<and> n_ties m = length d
           \<and> rates_mu m = sedrate_logn_mu cfg \<and> rates_sigma m = sedrate_logn_sigma cfg
           \<and> n_rates m = length d - 1
           \<and> age0_mu m = E' ! 0 \<and> age0_sigma m = max (sd' ! 0 * 5) 0.2
           \<and> like_obs m = E' \<and> like_sigma m = sd'"
proof -
  have "length (np_argsort d) = length d" by (simp add: np_argsort_def)
  then have "0 < length (np_argsort d)" using assms(1) by linarith
  then show ?thesis
    using assms bad_model_of_eq [of d E sd cfg] zip3_argsort [OF assms(2,3)] argsort_sort [of d]
    by simp
qed

theorem bad_model_of_sorted_perm_witness:
  "2 \<le> length [20, 10, 30 :: real] \<and> length [20, 10, 30 :: real] \<le> length [3, 2, 4 :: real]
   \<and> length [20, 10, 30 :: real] \<le> length [0.1, 0.2, 0.1 :: real]
   \<and> (\<exists>m d' E' sd'. bad_model_of [20, 10, 30] [3, 2, 4] [0.1, 0.2, 0.1]
          \<lparr>depth_sigma_m = 1, sedrate_logn_mu = 0, sedrate_logn_sigma = 1, bad_draws = 100, bad_tune = 100, bad_chains = 1, bad_target_accept = 0.9, bad_seed = 0\<rparr> = Inr (m, d', E', sd')
        \<and> d' = [10, 20, 30] \<and> age0_mu m = 2 \<and> age0_sigma m = 1)"
proof -
  have "sort [20, 10, 30 :: real] = [10, 20, 30]" by simp
  moreover have "np_argsort [20, 10, 30] = [1, 0, 2]" by (simp add: np_argsort_def)
  ultimately show ?thesis
    using bad_model_of_sorted_perm [of "[20, 10, 30]" "[3, 2, 4]" "[0.1, 0.2, 0.1]"
        "\<lparr>depth_sigma_m = 1, sedrate_logn_mu = 0, sedrate_logn_sigma = 1, bad_draws = 100, bad_tune = 100, bad_chains = 1, bad_target_accept = 0.9, bad_seed = 0\<rparr>"]
    by (auto simp: bad_model_of_eq)
qed

text \<open>
  C12 (functional). When the model declaration succeeds and the engine returns a
  non-empty list of draws that meets its contract (strictly increasing depths, positive
  rates, \<open>K\<close> tie points each), \<open>fit_bad\<close> returns both tables: the tie table has
  one row per tie point in sorted depth order, the query table one row per query depth
  sorted by depth, and every row's low value is at most its high value.
\<close>

theorem fit_bad_summaries:
  assumes "bad_model_of d E sd cfg = Inr (m0, d', E', sd')" "sampler m0 cfg = Inr post"
    and "post_ok (length d) post"
  shows "\<exists>out. fit_bad sampler d E sd q cfg = Inr out
           \<and> map t_depth_obs_m (tie_summary out) = sort d
           \<and> map q_depth_m (query_summary out) = sort q
           \<and> (\<forall>r \<in> set (tie_summary out). t_age_model_low_ma r \<le> t_age_model_high_ma r)
           \<and> (\<forall>r \<in> set (query_summary out). q_age_low_ma r \<le> q_age_high_ma r)"
proof -
  have L: "d' = sort d" "length d' = length d" using bad_model_of_Inr [OF assms(1)] by simp_all
  have ok: "post_ok (length d') post" using assms(3) L by simp
  have ne: "post \<noteq> []" using assms(3) by (simp add: post_ok_def)
  have "\<forall>r \<in> set (map (\<lambda>k. mk_tie_row (d' ! k) (E' ! k) (sd' ! k) (col_triple (draw_tie_ages post k)))
                      [0..<length d']). t_age_model_low_ma r \<le> t_age_model_high_ma r"
    using ne by (auto simp: mk_tie_row_def draw_tie_ages_def intro!: col_triple_lo_hi)
  moreover have "\<forall>r \<in> set (sort_key q_depth_m (map (\<lambda>x. mk_query_row x (col_triple (draw_query_ages post x))) q)).
                   q_age_low_ma r \<le> q_age_high_ma r"
    using ne by (auto simp: mk_query_row_def draw_query_ages_def intro!: col_triple_lo_hi)
  moreover have "map t_depth_obs_m (map (\<lambda>k. mk_tie_row (d' ! k) (E' ! k) (sd' ! k) (col_triple (draw_tie_ages post k)))
                 [0..<length d']) = sort d"
    using tie_rows_depth [of d' "\<lambda>k. E' ! k" "\<lambda>k. sd' ! k" "\<lambda>k. col_triple (draw_tie_ages post k)"] L(1)
    by simp
  ultimately show ?thesis
    using fit_bad_eval [where sampler = sampler, OF assms(1,2) ok] query_rows_depth
    by simp
qed

theorem fit_bad_summaries_witness:
  "bad_model_of [20, 10, 30] [3, 2, 4] [0.1, 0.1, 0.1]
     \<lparr>depth_sigma_m = 1, sedrate_logn_mu = 0, sedrate_logn_sigma = 1, bad_draws = 100, bad_tune = 100,
      bad_chains = 1, bad_target_accept = 0.9, bad_seed = 0\<rparr>
   = Inr (\<lparr>d_true_mu = [10, 20, 30], d_true_sigma = 1, n_ties = 3, rates_mu = 0, rates_sigma = 1,
           n_rates = 2, age0_mu = 2, age0_sigma = 0.5, like_obs = [2, 3, 4], like_sigma = [0.1, 0.1, 0.1]\<rparr>,
          [10, 20, 30], [2, 3, 4], [0.1, 0.1, 0.1])
   \<and> (\<lambda>m c. Inr [\<lparr>d_true = [10, 20, 30], age0 = 2, rates = [0.1, 0.1]\<rparr>])
       \<lparr>d_true_mu = [10, 20, 30], d_true_sigma = 1, n_ties = 3, rates_mu = 0, rates_sigma = 1,
        n_rates = 2, age0_mu = 2, age0_sigma = 0.5, like_obs = [2, 3, 4], like_sigma = [0.1, 0.1, 0.1]\<rparr>
       \<lparr>depth_sigma_m = 1, sedrate_logn_mu = 0, sedrate_logn_sigma = 1, bad_draws = 100, bad_tune = 100,
        bad_chains = 1, bad_target_accept = 0.9, bad_seed = 0\<rparr>
     = Inr [\<lparr>d_true = [10, 20, 30], age0 = 2, rates = [0.1, 0.1]\<rparr>]
   \<and> post_ok (length [20, 10, 30 :: real]) [\<lparr>d_true = [10, 20, 30], age0 = 2, rates = [0.1, 0.1]\<rparr>]
   \<and> (\<exists>out. fit_bad (\<lambda>m c. Inr [\<lparr>d_true = [10, 20, 30], age0 = 2, rates = [0.1, 0.1]\<rparr>])
              [20, 10, 30] [3, 2, 4] [0.1, 0.1, 0.1] [25, 5]
              \<lparr>depth_sigma_m = 1, sedrate_logn_mu = 0, sedrate_logn_sigma = 1, bad_draws = 100,
               bad_tune = 100, bad_chains = 1, bad_target_accept = 0.9, bad_seed = 0\<rparr> = Inr out
            \<and> map t_depth_obs_m (tie_summary out) = [10, 20, 30] \<and> map q_depth_m (query_summary out) = [5, 25])"
proof -
  have h1: "bad_model_of [20, 10, 30] [3, 2, 4] [0.1, 0.1, 0.1]
     \<lparr>depth_sigma_m = 1, sedrate_logn_mu = 0, sedrate_logn_sigma = 1, bad_draws = 100, bad_tune = 100,
      bad_chains = 1, bad_target_accept = 0.9, bad_seed = 0\<rparr>
   = Inr (\<lparr>d_true_mu = [10, 20, 30], d_true_sigma = 1, n_ties = 3, rates_mu = 0, rates_sigma = 1,
           n_rates = 2, age0_mu = 2, age0_sigma = 0.5, like_obs = [2, 3, 4], like_sigma = [0.1, 0.1, 0.1]\<rparr>,
          [10, 20, 30], [2, 3, 4], [0.1, 0.1, 0.1])"
    by (simp add: bad_model_of_eq np_argsort_def)
  have h3: "post_ok (length [20, 10, 30 :: real]) [\<lparr>d_true = [10, 20, 30], age0 = 2, rates = [0.1, 0.1]\<rparr>]"
    by (simp add: post_ok_def draw_defs)
  have "sort [20, 10, 30 :: real] = [10, 20, 30]" "sort [25, 5 :: real] = [5, 25]" by simp_all
  then show ?thesis
    using h1 h3 fit_bad_summaries [where sampler = "\<lambda>m c. Inr [\<lparr>d_true = [10, 20, 30], age0 = 2, rates = [0.1, 0.1]\<rparr>]"
        and post = "[\<lparr>d_true = [10, 20, 30], age0 = 2, rates = [0.1, 0.1]\<rparr>]" and q = "[25, 5]", OF h1 _ h3]
    by auto
qed

text \<open>
  C13 (safety, spec \S8). Under the same conditions the posterior-mean age in the tie
  table strictly increases down the core, and the posterior-mean age in the query table
  (sorted by depth) never decreases: the pooled age model is monotone in depth.
\<close>

theorem fit_bad_means_monotone:
  assumes "bad_model_of d E sd cfg = Inr (m0, d', E', sd')" "sampler m0 cfg = Inr post"
    and "post_ok (length d) post"
  shows "\<exists>out. fit_bad sampler d E sd q cfg = Inr out
           \<and> sorted_wrt (<) (map t_age_model_mean_ma (tie_summary out))
           \<and> sorted (map q_age_mean_ma (query_summary out))"
proof -
  have L: "length d' = length d" using bad_model_of_Inr [OF assms(1)] by simp
  have ok: "post_ok (length d') post" using assms(3) L by simp
  have ne: "post \<noteq> []" using assms(3) by (simp add: post_ok_def)
  have "sorted_wrt (<) (map (\<lambda>k. fst (col_triple (draw_tie_ages post k))) [0..<length d'])"
  proof (rule sorted_wrt_less_upt_map)
    fix k assume "Suc k < length d'"
    then show "fst (col_triple (draw_tie_ages post k)) < fst (col_triple (draw_tie_ages post (Suc k)))"
      unfolding draw_tie_ages_def using ne post_ok_draw [OF ok]
      by (intro col_triple_mean_strict_mono tie_age_Suc_less) simp_all
  qed
  moreover have "sorted (map (\<lambda>x. fst (col_triple (draw_query_ages post x))) (sort q))"
  proof (rule sorted_map_mono)
    show "mono_on (set (sort q)) (\<lambda>x. fst (col_triple (draw_query_ages post x)))"
      unfolding draw_query_ages_def using ne post_ok_draw [OF ok]
      by (intro mono_onI col_triple_mean_mono interp_age_le) simp_all
  qed simp
  ultimately show ?thesis
    using fit_bad_eval [where sampler = sampler, OF assms(1,2) ok] query_rows_mean
    by (simp add: mk_tie_row_def comp_def)
qed

theorem fit_bad_means_monotone_witness:
  "bad_model_of [20, 10, 30] [3, 2, 4] [0.1, 0.1, 0.1]
     \<lparr>depth_sigma_m = 1, sedrate_logn_mu = 0, sedrate_logn_sigma = 1, bad_draws = 100, bad_tune = 100,
      bad_chains = 1, bad_target_accept = 0.9, bad_seed = 0\<rparr>
   = Inr (\<lparr>d_true_mu = [10, 20, 30], d_true_sigma = 1, n_ties = 3, rates_mu = 0, rates_sigma = 1,
           n_rates = 2, age0_mu = 2, age0_sigma = 0.5, like_obs = [2, 3, 4], like_sigma = [0.1, 0.1, 0.1]\<rparr>,
          [10, 20, 30], [2, 3, 4], [0.1, 0.1, 0.1])
   \<and> post_ok (length [20, 10, 30 :: real])
       [\<lparr>d_true = [10, 20, 30], age0 = 2, rates = [0.1, 0.1]\<rparr>, \<lparr>d_true = [9, 21, 30], age0 = 1.9, rates = [0.12, 0.1]\<rparr>]
   \<and> (\<exists>out. fit_bad (\<lambda>m c. Inr [\<lparr>d_true = [10, 20, 30], age0 = 2, rates = [0.1, 0.1]\<rparr>,
                                  \<lparr>d_true = [9, 21, 30], age0 = 1.9, rates = [0.12, 0.1]\<rparr>])
              [20, 10, 30] [3, 2, 4] [0.1, 0.1, 0.1] [25, 5, 15]
              \<lparr>depth_sigma_m = 1, sedrate_logn_mu = 0, sedrate_logn_sigma = 1, bad_draws = 100,
               bad_tune = 100, bad_chains = 1, bad_target_accept = 0.9, bad_seed = 0\<rparr> = Inr out
            \<and> sorted_wrt (<) (map t_age_model_mean_ma (tie_summary out))
            \<and> sorted (map q_age_mean_ma (query_summary out)))"
proof -
  have h1: "bad_model_of [20, 10, 30] [3, 2, 4] [0.1, 0.1, 0.1]
     \<lparr>depth_sigma_m = 1, sedrate_logn_mu = 0, sedrate_logn_sigma = 1, bad_draws = 100, bad_tune = 100,
      bad_chains = 1, bad_target_accept = 0.9, bad_seed = 0\<rparr>
   = Inr (\<lparr>d_true_mu = [10, 20, 30], d_true_sigma = 1, n_ties = 3, rates_mu = 0, rates_sigma = 1,
           n_rates = 2, age0_mu = 2, age0_sigma = 0.5, like_obs = [2, 3, 4], like_sigma = [0.1, 0.1, 0.1]\<rparr>,
          [10, 20, 30], [2, 3, 4], [0.1, 0.1, 0.1])"
    by (simp add: bad_model_of_eq np_argsort_def)
  have h3: "post_ok (length [20, 10, 30 :: real])
       [\<lparr>d_true = [10, 20, 30], age0 = 2, rates = [0.1, 0.1]\<rparr>, \<lparr>d_true = [9, 21, 30], age0 = 1.9, rates = [0.12, 0.1]\<rparr>]"
    by (simp add: post_ok_def draw_defs)
  show ?thesis
    using h1 h3 fit_bad_means_monotone [where sampler = "\<lambda>m c. Inr [\<lparr>d_true = [10, 20, 30], age0 = 2, rates = [0.1, 0.1]\<rparr>,
                                  \<lparr>d_true = [9, 21, 30], age0 = 1.9, rates = [0.12, 0.1]\<rparr>]"
        and q = "[25, 5, 15]", OF h1 _ h3]
    by simp
qed

end
