(* ===== verification/PriorBuilder.thy ===== *)
theory PriorBuilder
  imports Numpy
begin

text \<open>
  EmpiricalPriorBuilder (spec \S4.2), \<open>bootstrap_min_prior_kde\<close> of
  \<open>bea_bad/utils.py\<close>: draw every grain age from its Gaussian \<open>n_boot\<close> times, take
  the youngest of each bootstrap replicate, and fit scipy's \<open>gaussian_kde\<close> (Scott's
  bandwidth) to those minima. The random generator \<open>np.random.default_rng(seed)\<close> is
  a parameter: a function from the seed to the stream of standard-normal variates it
  produces, indexed by replicate and grain; \<open>rng.normal(loc, scale)\<close> is
  \<open>loc + scale * z\<close>.
\<close>

subsection \<open>Definitions\<close>

type_synonym normal_stream = "nat \<Rightarrow> nat \<Rightarrow> real"

text \<open>
  Line 51: \<open>rng.normal(loc=ages[None, :], scale=sigmas[None, :], size=(n_boot, n))\<close>.
  numpy first rejects a negative scale, then broadcasts the scale row to the output,
  which needs one entry or \<open>n\<close> entries.
\<close>

definition rng_normal :: "normal_stream \<Rightarrow> real list \<Rightarrow> real list \<Rightarrow> nat \<Rightarrow> real list list result" where
  "rng_normal z loc scale n_boot =
     (if list_ex (\<lambda>s. s < 0) scale then Inl NegativeScale
      else if length scale \<noteq> length loc \<and> length scale \<noteq> 1 then Inl BroadcastError
      else Inr (map (\<lambda>b. map (\<lambda>i. loc ! i + (if length scale = 1 then scale ! 0 else scale ! i) * z b i)
                            [0..<length loc]) [0..<n_boot]))"

text \<open>Line 52: \<open>draws.min(axis=1)\<close>; a zero-width row has no minimum.\<close>

definition min_axis1 :: "nat \<Rightarrow> real list list \<Rightarrow> real list result" where
  "min_axis1 ncols rows = (if ncols = 0 then Inl ZeroSizeReduction else mapE np_min rows)"

text \<open>
  Line 53: \<open>scipy.stats.gaussian_kde\<close> on a one-dimensional dataset. The kernel
  covariance is the sample covariance (\<open>ddof=1\<close>) times the squared Scott factor
  \<open>n^(-1/5)\<close>; fewer than two points raise ValueError, a zero covariance makes the
  Cholesky factorisation raise LinAlgError. Evaluation is the average of the Gaussian
  kernels centred on the data.
\<close>

record gaussian_kde =
  kde_dataset :: "real list"
  kde_covariance :: real

definition np_cov :: "real list \<Rightarrow> real" where
  "np_cov xs =
     (let n = length xs; m = sum_list xs / real n
      in sum_list (map (\<lambda>x. (x - m)\<^sup>2) xs) / real (n - 1))"

definition scotts_factor :: "nat \<Rightarrow> real" where
  "scotts_factor n = real n powr (- 1 / 5)"

definition gaussian_kde :: "real list \<Rightarrow> gaussian_kde result" where
  "gaussian_kde xs =
     (if length xs \<le> 1 then Inl KdeDatasetTooSmall
      else (let c = np_cov xs
            in if c = 0 then Inl KdeSingular
               else Inr \<lparr>kde_dataset = xs, kde_covariance = c * (scotts_factor (length xs))\<^sup>2\<rparr>))"

definition kde_evaluate :: "gaussian_kde \<Rightarrow> real \<Rightarrow> real" where
  "kde_evaluate k x =
     (let v = kde_covariance k; n = length (kde_dataset k)
      in sum_list (map (\<lambda>m. exp (- (x - m)\<^sup>2 / (2 * v))) (kde_dataset k)) / (real n * sqrt (2 * pi * v)))"

text \<open>Lines 35--53.\<close>

definition bootstrap_min_prior_kde ::
  "(int \<Rightarrow> normal_stream) \<Rightarrow> real list \<Rightarrow> real list \<Rightarrow> nat \<Rightarrow> int \<Rightarrow> gaussian_kde result" where
  "bootstrap_min_prior_kde rng ages sigmas n_boot seed =
     bindE (rng_normal (rng seed) ages sigmas n_boot) (\<lambda>draws.
     bindE (min_axis1 (length ages) draws) gaussian_kde)"

subsection \<open>Lemmas\<close>

lemma rng_normal_ok:
  assumes "length sigmas = length ages" "\<forall>s \<in> set sigmas. 0 \<le> s"
  shows "rng_normal z ages sigmas n_boot
         = Inr (map (\<lambda>b. map (\<lambda>i. ages ! i + sigmas ! i * z b i) [0..<length ages]) [0..<n_boot])"
proof -
  have "\<not> list_ex (\<lambda>s. s < 0) sigmas" using assms(2) by (auto simp: list_ex_iff)
  moreover have "\<And>i. i < length ages \<Longrightarrow> (if length sigmas = 1 then sigmas ! 0 else sigmas ! i) = sigmas ! i"
    using assms(1) by (auto simp: less_Suc_eq)
  ultimately show ?thesis using assms(1) by (simp add: rng_normal_def)
qed

lemma min_axis1_ok:
  "0 < n \<Longrightarrow> (\<And>r. r \<in> set rows \<Longrightarrow> length r = n) \<Longrightarrow> min_axis1 n rows = Inr (map (\<lambda>r. Min (set r)) rows)"
  unfolding min_axis1_def by (auto simp: np_min_def intro!: mapE_Inr_map) fastforce

lemma np_cov_nonneg: "0 \<le> np_cov xs"
  unfolding np_cov_def Let_def by (intro divide_nonneg_nonneg sum_list_nonneg) auto

lemma np_cov_replicate: "np_cov (replicate n c) = 0"
proof (cases "n = 0")
  case False
  then have "real n * c / real n = c" by simp
  then show ?thesis by (simp add: np_cov_def Let_def sum_list_replicate)
qed (simp add: np_cov_def)

lemma scotts_factor_pos: "0 < n \<Longrightarrow> 0 < scotts_factor n"
  by (simp add: scotts_factor_def)

lemma gaussian_kde_Inr:
  assumes "gaussian_kde xs = Inr k"
  shows "kde_dataset k = xs" "2 \<le> length xs" "0 < kde_covariance k"
proof -
  have n: "\<not> length xs \<le> 1" and c: "np_cov xs \<noteq> 0"
    and k: "k = \<lparr>kde_dataset = xs, kde_covariance = np_cov xs * (scotts_factor (length xs))\<^sup>2\<rparr>"
    using assms by (auto simp: gaussian_kde_def Let_def split: if_splits)
  have "0 < np_cov xs" using c np_cov_nonneg [of xs] by simp
  moreover have "0 < length xs" using n by linarith
  then have "0 < scotts_factor (length xs)" by (rule scotts_factor_pos)
  ultimately show "kde_dataset k = xs" "2 \<le> length xs" "0 < kde_covariance k"
    using n k by simp_all
qed

lemma bootstrap_min_prior_kde_eq:
  assumes "length sigmas = length ages" "ages \<noteq> []" "\<forall>s \<in> set sigmas. 0 \<le> s"
  shows "bootstrap_min_prior_kde rng ages sigmas n_boot seed
         = gaussian_kde (map (\<lambda>b. Min (set (map (\<lambda>i. ages ! i + sigmas ! i * rng seed b i) [0..<length ages])))
                          [0..<n_boot])"
proof -
  have "min_axis1 (length ages) (map (\<lambda>b. map (\<lambda>i. ages ! i + sigmas ! i * rng seed b i) [0..<length ages]) [0..<n_boot])
        = Inr (map (\<lambda>r. Min (set r)) (map (\<lambda>b. map (\<lambda>i. ages ! i + sigmas ! i * rng seed b i) [0..<length ages]) [0..<n_boot]))"
    using assms(2) by (intro min_axis1_ok) auto
  then show ?thesis
    using rng_normal_ok [OF assms(1,3)] by (simp add: bootstrap_min_prior_kde_def comp_def)
qed

lemma Min_map_upt:
  assumes "0 < n"
  shows "\<exists>i < n. Min (set (map f [0..<n])) = f i" "\<forall>j < n. Min (set (map f [0..<n])) \<le> (f j :: real)"
proof -
  have "Min (set (map f [0..<n])) \<in> set (map f [0..<n])" using assms by (intro Min_in) auto
  then show "\<exists>i < n. Min (set (map f [0..<n])) = f i" by auto
  show "\<forall>j < n. Min (set (map f [0..<n])) \<le> f j" by simp
qed

subsection \<open>Properties\<close>

text \<open>
  C14 (functional). With one non-negative uncertainty per grain, a successful bootstrap
  prior has one kernel centre per replicate, and the centre of replicate \<open>b\<close> is the
  youngest simulated grain age of that replicate: it is one grain's draw and no grain's
  draw is younger.
\<close>

theorem bootstrap_min_prior_kde_centres:
  assumes "length sigmas = length ages" "ages \<noteq> []" "\<forall>s \<in> set sigmas. 0 \<le> s"
    and "bootstrap_min_prior_kde rng ages sigmas n_boot seed = Inr k"
  shows "length (kde_dataset k) = n_boot
         \<and> (\<forall>b < n_boot. (\<exists>i < length ages. kde_dataset k ! b = ages ! i + sigmas ! i * rng seed b i)
                          \<and> (\<forall>j < length ages. kde_dataset k ! b \<le> ages ! j + sigmas ! j * rng seed b j))"
proof -
  let ?row = "\<lambda>b. map (\<lambda>i. ages ! i + sigmas ! i * rng seed b i) [0..<length ages]"
  have "gaussian_kde (map (\<lambda>b. Min (set (?row b))) [0..<n_boot]) = Inr k"
    using assms(4) bootstrap_min_prior_kde_eq [OF assms(1-3)] by simp
  then have ds: "kde_dataset k = map (\<lambda>b. Min (set (?row b))) [0..<n_boot]" by (rule gaussian_kde_Inr(1))
  have pos: "0 < length ages" using assms(2) by simp
  show ?thesis
    unfolding ds using Min_map_upt [OF pos] by simp
qed

theorem bootstrap_min_prior_kde_centres_witness:
  "length [1, 1 :: real] = length [2, 3 :: real] \<and> [2, 3 :: real] \<noteq> []
   \<and> bootstrap_min_prior_kde (\<lambda>s b i. real b) [2, 3] [1, 1] 2 42
       = Inr \<lparr>kde_dataset = [2, 3], kde_covariance = 1 / 2 * (scotts_factor 2)\<^sup>2\<rparr>
   \<and> length (kde_dataset \<lparr>kde_dataset = [2, 3 :: real], kde_covariance = 1 / 2 * (scotts_factor 2)\<^sup>2\<rparr>) = 2"
proof -
  have r: "rng_normal ((\<lambda>s b i. real b) 42) [2, 3] [1, 1] 2 = Inr [[2, 3], [3, 4]]"
    by (simp add: rng_normal_def upt_rec)
  have m: "min_axis1 (length [2, 3 :: real]) [[2, 3], [3, 4]] = Inr [2, 3]"
    by (simp add: min_axis1_def np_min_def)
  have g: "gaussian_kde [2, 3] = Inr \<lparr>kde_dataset = [2, 3], kde_covariance = 1 / 2 * (scotts_factor 2)\<^sup>2\<rparr>"
    by (simp add: gaussian_kde_def np_cov_def numeral_2_eq_2)
  have h: "bootstrap_min_prior_kde (\<lambda>s b i. real b) [2, 3] [1, 1] 2 42
       = Inr \<lparr>kde_dataset = [2, 3], kde_covariance = 1 / 2 * (scotts_factor 2)\<^sup>2\<rparr>"
    unfolding bootstrap_min_prior_kde_def r bindE_Inr m g by (rule refl)
  show ?thesis using h bootstrap_min_prior_kde_centres [of "[1, 1]" "[2, 3]" "\<lambda>s b i. real b" 2 42, OF _ _ _ h]
    by simp
qed

end
