(* ===== verification/BEA.thy ===== *)
theory BEA
  imports PriorBuilder RobustStats Posterior
begin

text \<open>
  BEAModel (spec \S4.3), \<open>fit_bea_for_ash\<close> of \<open>bea_bad/bea.py\<close>: filter the grains of
  one ash bed by span (reverting to all grains when fewer than two survive), derive the
  scale of the excess-age prior, declare the eruption-age prior (the bootstrap KDE on a
  2000-point grid, or a normal fallback), hand the model to the sampling engine and
  summarise the pooled draws of \<open>E\<close> (mean, population sd, arviz 95\% HDI). The
  engine is a parameter, as in \<open>BAD\<close>. Python's \<open>max(a, b)\<close> keeps \<open>a\<close> when
  \<open>b > a\<close> is false, so a NaN first argument (written \<open>None\<close>) propagates.
\<close>

subsection \<open>Data\<close>

text \<open>The keyword arguments of \<open>fit_bea_for_ash\<close> (lines 26--33).\<close>

record bea_config =
  use_bootstrap_prior :: bool
  bea_max_span_ma :: real
  bea_draws :: int
  bea_tune :: int
  bea_chains :: int
  bea_target_accept :: real
  bea_seed :: int

text \<open>The prior of \<open>E\<close>: \<open>pm.Interpolated\<close> on a grid (line 58) or \<open>pm.Normal\<close> (line 73).\<close>

datatype e_prior = InterpolatedPrior "real list" "real list" | NormalPrior real "real option"

text \<open>The \<open>pm.Model\<close> blocks of lines 57--61 and 72--76 as the declaration handed to the engine.\<close>

record bea_model =
  e_prior :: e_prior
  tau_sigma :: "real option"     \<comment> \<open>\<open>HalfNormal(sigma=tau_scale)\<close>\<close>
  n_delta :: nat                 \<comment> \<open>\<open>shape=ages2.size\<close>\<close>
  obs_ages :: "real list"        \<comment> \<open>\<open>observed=ages2\<close>\<close>
  obs_sigmas :: "real list"      \<comment> \<open>\<open>sigma=sigmas2\<close>\<close>

text \<open>\<open>BEAResult\<close>, lines 12--19.\<close>

record bea_result =
  ash_id :: string
  e_mean :: real
  e_sd :: real
  hdi95_low :: real
  hdi95_high :: real
  n_used :: nat

type_synonym bea_sampler = "bea_model \<Rightarrow> bea_config \<Rightarrow> real list result"

subsection \<open>Operations\<close>

definition py_max :: "real option \<Rightarrow> real \<Rightarrow> real option" where
  "py_max a b = (case a of None \<Rightarrow> None | Some x \<Rightarrow> Some (if b > x then b else x))"

text \<open>Lines 46--48: the grains the model is fitted to.\<close>

definition bea_fit_set :: "real list \<Rightarrow> real list \<Rightarrow> real \<Rightarrow> (real list \<times> real list) result" where
  "bea_fit_set ages sigmas max_span =
     bindE (filter_outliers_within_span ages sigmas max_span) (\<lambda>(ages2, sigmas2).
       Inr (if length ages2 < 2 then (ages, sigmas) else (ages2, sigmas2)))"

text \<open>Lines 54--55: the prior grid and the clipped density on it.\<close>

definition kde_prior_grid :: "real \<Rightarrow> real list" where
  "kde_prior_grid amin = linspace (amin - 1) (amin + 0.5) 2000"

definition kde_prior_pdf :: "gaussian_kde \<Rightarrow> real list \<Rightarrow> real list" where
  "kde_prior_pdf k grid = map (\<lambda>x. max (kde_evaluate k x) (1 / 10 ^ 300)) grid"

text \<open>Lines 46--82: filtering, the scale of the excess ages, and the model declaration.\<close>

definition bea_model_of ::
  "(int \<Rightarrow> normal_stream) \<Rightarrow> real list \<Rightarrow> real list \<Rightarrow> bea_config \<Rightarrow> bea_model result" where
  "bea_model_of rng ages sigmas cfg =
     bindE (bea_fit_set ages sigmas (bea_max_span_ma cfg)) (\<lambda>(ages2, sigmas2).
       (let tau_scale = py_max (robust_mad ages2) 0.02
        in if use_bootstrap_prior cfg \<and> 2 \<le> length ages2 then
             bindE (bootstrap_min_prior_kde rng ages2 sigmas2 6000 (bea_seed cfg)) (\<lambda>kde.
             bindE (np_min ages2) (\<lambda>amin.
               (let grid = kde_prior_grid amin
                in Inr \<lparr>e_prior = InterpolatedPrior grid (kde_prior_pdf kde grid), tau_sigma = tau_scale,
                        n_delta = length ages2, obs_ages = ages2, obs_sigmas = sigmas2\<rparr>)))
           else
             bindE (np_min ages2) (\<lambda>amin.
               Inr \<lparr>e_prior = NormalPrior (amin - 0.05) (py_max (map_option (\<lambda>r. r * 3) (robust_mad ages2)) 0.2),
                    tau_sigma = tau_scale, n_delta = length ages2, obs_ages = ages2, obs_sigmas = sigmas2\<rparr>)))"

text \<open>The whole of \<open>fit_bea_for_ash\<close> (lines 22--94).\<close>

definition fit_bea_for_ash ::
  "(int \<Rightarrow> normal_stream) \<Rightarrow> bea_sampler \<Rightarrow> string \<Rightarrow> real list \<Rightarrow> real list \<Rightarrow> bea_config \<Rightarrow> bea_result result" where
  "fit_bea_for_ash rng sampler aid ages sigmas cfg =
     bindE (bea_model_of rng ages sigmas cfg) (\<lambda>m.
     bindE (sampler m cfg) (\<lambda>post_E.
     bindE (arviz_hdi post_E 0.95) (\<lambda>(lo, hi).
       (case (np_mean post_E, np_std post_E) of
          (Some mu, Some sd) \<Rightarrow>
            Inr \<lparr>ash_id = aid, e_mean = mu, e_sd = sd, hdi95_low = lo, hdi95_high = hi, n_used = n_delta m\<rparr>
        | _ \<Rightarrow> Inl EmptyStatistic))))"

subsection \<open>Lemmas\<close>

lemma fit_bea_for_ash_ash_id: "fit_bea_for_ash rng sampler aid ages sigmas cfg = Inr r \<Longrightarrow> ash_id r = aid"
  by (auto simp: fit_bea_for_ash_def bindE_eq_Inr_iff split: prod.split_asm option.split_asm) force

lemma py_max_Some [simp]: "py_max (Some x) b = Some (max x b)"
  by (simp add: py_max_def max_def)

lemma bea_fit_set_mismatch: "length sigmas \<noteq> length ages \<Longrightarrow> bea_fit_set ages sigmas sp = Inl IndexError"
  by (simp add: bea_fit_set_def filter_outliers_within_span_def Let_def)

lemma bea_fit_set_Nil [simp]: "bea_fit_set [] [] sp = Inr ([], [])"
  by (simp add: bea_fit_set_def filter_outliers_within_span_def)

lemma bea_fit_set_eq:
  assumes "median ages = Some med" "length sigmas = length ages"
  shows "bea_fit_set ages sigmas sp =
           Inr (let kept = filter (\<lambda>(a, s). \<bar>a - med\<bar> \<le> sp / 2) (zip ages sigmas)
                in if length kept < 2 then (ages, sigmas) else (map fst kept, map snd kept))"
  using filter_outliers_within_span_eq [OF assms(1), of sigmas sp] assms(2)
  by (simp add: bea_fit_set_def Let_def)

lemma bea_fit_set_Inr:
  assumes "bea_fit_set ages sigmas sp = Inr (a2, s2)" "ages \<noteq> []"
  shows "length sigmas = length ages" "length s2 = length a2" "a2 \<noteq> []"
proof -
  have eq: "length sigmas = length ages"
    using assms(1) bea_fit_set_mismatch by (cases "length sigmas = length ages") auto
  obtain med where med: "median ages = Some med" using median_Some [OF assms(2)] by blast
  let ?kept = "filter (\<lambda>(a, s). \<bar>a - med\<bar> \<le> sp / 2) (zip ages sigmas)"
  have "Inr (a2, s2) = bea_fit_set ages sigmas sp" using assms(1) by simp
  also have "\<dots> = Inr (if length ?kept < 2 then (ages, sigmas) else (map fst ?kept, map snd ?kept))"
    unfolding bea_fit_set_eq [OF med eq, of sp] Let_def ..
  finally have r: "(a2, s2) = (if length ?kept < 2 then (ages, sigmas) else (map fst ?kept, map snd ?kept))"
    by (simp only: sum.inject)
  show "length sigmas = length ages" by (rule eq)
  show "length s2 = length a2" "a2 \<noteq> []"
    by (cases "length ?kept < 2"; use r eq assms(2) in auto)+
qed

lemma bea_model_of_fallback_eq:
  assumes "bea_fit_set ages sigmas (bea_max_span_ma cfg) = Inr (a2, s2)" "a2 \<noteq> []"
    and "\<not> (use_bootstrap_prior cfg \<and> 2 \<le> length a2)" "robust_mad a2 = Some r"
  shows "bea_model_of rng ages sigmas cfg =
           Inr \<lparr>e_prior = NormalPrior (Min (set a2) - 0.05) (Some (max (r * 3) 0.2)),
                tau_sigma = Some (max r 0.02), n_delta = length a2, obs_ages = a2, obs_sigmas = s2\<rparr>"
  unfolding bea_model_of_def assms(1) bindE_Inr prod.case Let_def if_not_P [OF assms(3)]
  using assms(2,4) by (simp add: np_min_def)

lemma fit_bea_for_ash_hdi:
  assumes "bea_model_of rng ages sigmas cfg = Inr m" "sampler m cfg = Inr post"
    and "fit_bea_for_ash rng sampler aid ages sigmas cfg = Inr r"
  shows "post \<noteq> [] \<and> arviz_hdi post 0.95 = Inr (hdi95_low r, hdi95_high r)"
proof -
  obtain lo hi where h: "arviz_hdi post 0.95 = Inr (lo, hi)"
    using assms by (cases "arviz_hdi post 0.95") (auto simp: fit_bea_for_ash_def)
  have "post \<noteq> []" using h by (auto simp: arviz_hdi_def hdi_windows_def)
  moreover have "hdi95_low r = lo \<and> hdi95_high r = hi"
    using assms h by (auto simp: fit_bea_for_ash_def split: option.split_asm)
  ultimately show ?thesis using h by simp
qed

subsection \<open>Properties\<close>

text \<open>
  C15 (error). \<open>fit_bea_for_ash\<close> fails before the engine is called on unusable
  input: mismatched ages and uncertainties make the boolean mask raise IndexError, and
  an ash bed with no grains reaches \<open>ages2.min()\<close> (line 69), which raises numpy's
  zero-size-reduction ValueError.
\<close>

theorem fit_bea_input_errors:
  assumes "ages = [] \<or> length sigmas \<noteq> length ages"
  shows "fit_bea_for_ash rng sampler aid ages sigmas cfg
         = Inl (if length sigmas \<noteq> length ages then IndexError else ZeroSizeReduction)"
proof (cases "length sigmas = length ages")
  case True
  then have "ages = []" "sigmas = []" using assms by simp_all
  then show ?thesis by (simp add: fit_bea_for_ash_def bea_model_of_def np_min_def)
next
  case False
  then show ?thesis by (simp add: fit_bea_for_ash_def bea_model_of_def bea_fit_set_mismatch)
qed

theorem fit_bea_input_errors_witness:
  "([] = ([] :: real list) \<or> length ([] :: real list) \<noteq> length ([] :: real list))
   \<and> fit_bea_for_ash (\<lambda>s b i. 0) (\<lambda>m c. Inr [2]) ''A'' [] []
       \<lparr>use_bootstrap_prior = True, bea_max_span_ma = 1, bea_draws = 2000, bea_tune = 2000, bea_chains = 2,
        bea_target_accept = 0.9, bea_seed = 42\<rparr> = Inl ZeroSizeReduction"
  using fit_bea_input_errors [of "[]" "[]" "\<lambda>s b i. 0" "\<lambda>m c. Inr [2]" "''A''"
      "\<lparr>use_bootstrap_prior = True, bea_max_span_ma = 1, bea_draws = 2000, bea_tune = 2000, bea_chains = 2,
        bea_target_accept = 0.9, bea_seed = 42\<rparr>"] by simp

text \<open>
  C16 (bounds). The grid of the KDE prior (line 54) has 2000 strictly increasing points
  from 1 Ma below to 0.5 Ma above the youngest fitted grain, and the clipped density on
  it (line 55) has one strictly positive value per grid point, as \<open>pm.Interpolated\<close>
  requires.
\<close>

theorem kde_prior_grid_pdf:
  "length (kde_prior_grid amin) = 2000 \<and> sorted_wrt (<) (kde_prior_grid amin)
   \<and> kde_prior_grid amin ! 0 = amin - 1 \<and> kde_prior_grid amin ! 1999 = amin + 0.5
   \<and> length (kde_prior_pdf k (kde_prior_grid amin)) = 2000
   \<and> list_all (\<lambda>p. 0 < p) (kde_prior_pdf k (kde_prior_grid amin))"
proof -
  have "sorted_wrt (<) (kde_prior_grid amin)"
    unfolding kde_prior_grid_def by (rule linspace_strict_mono) simp_all
  moreover have "kde_prior_grid amin ! 1999 = amin + 0.5"
    using linspace_last [of 2000 "amin - 1" "amin + 0.5"] by (simp add: kde_prior_grid_def)
  moreover have "kde_prior_grid amin ! 0 = amin - 1"
    by (simp add: kde_prior_grid_def nth_linspace)
  moreover have "list_all (\<lambda>p. 0 < p) (kde_prior_pdf k (kde_prior_grid amin))"
    by (simp add: kde_prior_pdf_def list_all_iff max.strict_coboundedI2)
  ultimately show ?thesis by (simp add: kde_prior_grid_def kde_prior_pdf_def)
qed

text \<open>
  C17 (bounds). When the engine returns a non-empty list of draws of \<open>E\<close>, the fit
  returns an estimate for the ash bed whose HDI is an interval within the range of the
  draws, whose mean lies in that range, whose sd is non-negative, and whose grain count
  is the number of excess ages of the model.
\<close>

theorem fit_bea_summary_bounds:
  assumes "bea_model_of rng ages sigmas cfg = Inr m" "sampler m cfg = Inr post" "post \<noteq> []"
  shows "\<exists>r. fit_bea_for_ash rng sampler aid ages sigmas cfg = Inr r
           \<and> ash_id r = aid \<and> n_used r = n_delta m
           \<and> Min (set post) \<le> hdi95_low r \<and> hdi95_low r \<le> hdi95_high r \<and> hdi95_high r \<le> Max (set post)
           \<and> Min (set post) \<le> e_mean r \<and> e_mean r \<le> Max (set post) \<and> 0 \<le> e_sd r"
proof -
  obtain lo hi where h: "arviz_hdi post 0.95 = Inr (lo, hi)" "Min (set post) \<le> lo" "lo \<le> hi" "hi \<le> Max (set post)"
    using arviz_hdi_bounds [OF assms(3), of "0.95"] by auto
  obtain sd where sd: "np_std post = Some sd" using assms(3) by (simp add: np_std_def Let_def)
  have mu: "np_mean post = Some (sum_list post / real (length post))" using assms(3) by (simp add: np_mean_def)
  show ?thesis
    using assms(1,2) h sd mu mean_bounds [OF assms(3)] np_std_nonneg [OF sd]
    by (simp add: fit_bea_for_ash_def)
qed

theorem fit_bea_summary_bounds_witness:
  "bea_model_of (\<lambda>s b i. 0) [2.1] [0.05]
     \<lparr>use_bootstrap_prior = False, bea_max_span_ma = 1, bea_draws = 2000, bea_tune = 2000, bea_chains = 2,
      bea_target_accept = 0.9, bea_seed = 42\<rparr>
     = Inr \<lparr>e_prior = NormalPrior (2.1 - 0.05) (Some 0.2), tau_sigma = Some 0.02, n_delta = 1,
            obs_ages = [2.1], obs_sigmas = [0.05]\<rparr>
   \<and> [2.0, 2.1, 2.05 :: real] \<noteq> []
   \<and> (\<exists>r. fit_bea_for_ash (\<lambda>s b i. 0) (\<lambda>m c. Inr [2.0, 2.1, 2.05]) ''A'' [2.1] [0.05]
             \<lparr>use_bootstrap_prior = False, bea_max_span_ma = 1, bea_draws = 2000, bea_tune = 2000,
              bea_chains = 2, bea_target_accept = 0.9, bea_seed = 42\<rparr> = Inr r
         \<and> n_used r = 1 \<and> 2.0 \<le> hdi95_low r \<and> hdi95_low r \<le> hdi95_high r \<and> hdi95_high r \<le> 2.1)"
proof -
  have f: "bea_fit_set [2.1] [0.05] 1 = Inr ([2.1], [0.05])"
    by (simp add: bea_fit_set_def filter_outliers_within_span_def span_mask_def median_def)
  have r: "robust_mad [2.1] = Some 0" by (simp add: robust_mad_def median_def np_std_def)
  have h: "bea_model_of (\<lambda>s b i. 0) [2.1] [0.05]
     \<lparr>use_bootstrap_prior = False, bea_max_span_ma = 1, bea_draws = 2000, bea_tune = 2000, bea_chains = 2,
      bea_target_accept = 0.9, bea_seed = 42\<rparr>
     = Inr \<lparr>e_prior = NormalPrior (2.1 - 0.05) (Some 0.2), tau_sigma = Some 0.02, n_delta = 1,
            obs_ages = [2.1], obs_sigmas = [0.05]\<rparr>"
    using bea_model_of_fallback_eq [of "[2.1]" "[0.05]" "\<lparr>use_bootstrap_prior = False, bea_max_span_ma = 1,
        bea_draws = 2000, bea_tune = 2000, bea_chains = 2, bea_target_accept = 0.9, bea_seed = 42\<rparr>"
        "[2.1]" "[0.05]" 0 "\<lambda>s b i. 0"] f r by simp
  show ?thesis
    using h fit_bea_summary_bounds [OF h, of "\<lambda>m c. Inr [2.0, 2.1, 2.05]" "[2.0, 2.1, 2.05]" "''A''"]
    by auto
qed

text \<open>
  C26 (functional). The 95% HDI the fit reports for an ash bed (lines 85, 91-92) is a
  highest-density interval of the engine's draws of \<open>E\<close>: it holds at least
  \<open>\<lfloor>0.95 n\<rfloor> + 1\<close> of the \<open>n\<close> draws, and no interval holding that many draws is narrower.
\<close>

theorem fit_bea_hdi95:
  assumes "bea_model_of rng ages sigmas cfg = Inr m" "sampler m cfg = Inr post"
    and "fit_bea_for_ash rng sampler aid ages sigmas cfg = Inr r"
  shows "nat \<lfloor>0.95 * real (length post)\<rfloor> + 1
           \<le> length (filter (\<lambda>x. hdi95_low r \<le> x \<and> x \<le> hdi95_high r) post)
         \<and> (\<forall>a b. nat \<lfloor>0.95 * real (length post)\<rfloor> + 1 \<le> length (filter (\<lambda>x. a \<le> x \<and> x \<le> b) post)
                 \<longrightarrow> hdi95_high r - hdi95_low r \<le> b - a)"
proof -
  have h: "post \<noteq> []" "arviz_hdi post 0.95 = Inr (hdi95_low r, hdi95_high r)"
    using fit_bea_for_ash_hdi [OF assms] by simp_all
  show ?thesis
    using arviz_hdi_covers [OF h(1) _ _ h(2)] arviz_hdi_narrowest [OF h(1) _ _ h(2)] by simp
qed

theorem fit_bea_hdi95_witness:
  "bea_model_of (\<lambda>s b i. 0) [2.1] [0.05] \<lparr>use_bootstrap_prior = False, bea_max_span_ma = 1, bea_draws = 2000, bea_tune = 2000, bea_chains = 2,
      bea_target_accept = 0.9, bea_seed = 42\<rparr>
     = Inr \<lparr>e_prior = NormalPrior (2.1 - 0.05) (Some 0.2), tau_sigma = Some 0.02, n_delta = 1,
            obs_ages = [2.1], obs_sigmas = [0.05]\<rparr>
   \<and> (\<exists>r. fit_bea_for_ash (\<lambda>s b i. 0) (\<lambda>m c. Inr [2.0, 2.1, 2.05]) ''A'' [2.1] [0.05] \<lparr>use_bootstrap_prior = False, bea_max_span_ma = 1, bea_draws = 2000, bea_tune = 2000, bea_chains = 2,
      bea_target_accept = 0.9, bea_seed = 42\<rparr> = Inr r
         \<and> 3 \<le> length (filter (\<lambda>x. hdi95_low r \<le> x \<and> x \<le> hdi95_high r) [2.0, 2.1, 2.05 :: real]))"
proof -
  have f: "bea_fit_set [2.1] [0.05] 1 = Inr ([2.1], [0.05])"
    by (simp add: bea_fit_set_def filter_outliers_within_span_def span_mask_def median_def)
  have rm: "robust_mad [2.1] = Some 0" by (simp add: robust_mad_def median_def np_std_def)
  have h: "bea_model_of (\<lambda>s b i. 0) [2.1] [0.05] \<lparr>use_bootstrap_prior = False, bea_max_span_ma = 1, bea_draws = 2000, bea_tune = 2000, bea_chains = 2,
      bea_target_accept = 0.9, bea_seed = 42\<rparr>
     = Inr \<lparr>e_prior = NormalPrior (2.1 - 0.05) (Some 0.2), tau_sigma = Some 0.02, n_delta = 1,
            obs_ages = [2.1], obs_sigmas = [0.05]\<rparr>"
    using bea_model_of_fallback_eq [of "[2.1]" "[0.05]" "\<lparr>use_bootstrap_prior = False, bea_max_span_ma = 1, bea_draws = 2000, bea_tune = 2000, bea_chains = 2,
      bea_target_accept = 0.9, bea_seed = 42\<rparr>" "[2.1]" "[0.05]" 0 "\<lambda>s b i. 0"] f rm
    by simp
  have smp: "(\<lambda>m c. Inr [2.0, 2.1, 2.05]) \<lparr>e_prior = NormalPrior (2.1 - 0.05) (Some 0.2), tau_sigma = Some 0.02, n_delta = 1,
            obs_ages = [2.1], obs_sigmas = [0.05]\<rparr> \<lparr>use_bootstrap_prior = False, bea_max_span_ma = 1, bea_draws = 2000, bea_tune = 2000, bea_chains = 2,
      bea_target_accept = 0.9, bea_seed = 42\<rparr> = (Inr [2.0, 2.1, 2.05 :: real] :: real list result)"
    by simp
  obtain lo hi where hdi: "arviz_hdi [2.0, 2.1, 2.05] 0.95 = Inr (lo, hi)"
    using arviz_hdi_bounds [of "[2.0, 2.1, 2.05]" "0.95"] by auto
  obtain r where fr: "fit_bea_for_ash (\<lambda>s b i. 0) (\<lambda>m c. Inr [2.0, 2.1, 2.05]) ''A'' [2.1] [0.05] \<lparr>use_bootstrap_prior = False, bea_max_span_ma = 1, bea_draws = 2000, bea_tune = 2000, bea_chains = 2,
      bea_target_accept = 0.9, bea_seed = 42\<rparr> = Inr r"
    using h hdi by (simp add: fit_bea_for_ash_def np_mean_def np_std_def Let_def)
  have fl: "\<lfloor>0.95 * real (length [2.0, 2.1, 2.05 :: real])\<rfloor> = 2" by (simp add: floor_eq_iff)
  show ?thesis
    using h fr fit_bea_hdi95 [OF h smp fr] fl by auto
qed

end
