(* ===== verification/PyStr.thy ===== *)
theory PyStr
  imports Prelude
begin

text \<open>
  Python's string conversions used by the launchers: \<open>str.strip\<close>, \<open>int(s)\<close>,
  \<open>str(n)\<close> for an \<open>int\<close>, and \<open>float(s)\<close>, on ASCII strings. A Python float is a
  finite number (a \<open>real\<close>, rounding not modelled), NaN or an infinity, and the
  comparisons \<open><\<close>, \<open>>\<close> with NaN are false. Non-ASCII digits and whitespace,
  which Python also accepts, are not modelled.
\<close>

subsection \<open>Characters\<close>

definition py_isspace :: "char \<Rightarrow> bool" where
  "py_isspace c \<longleftrightarrow> (let n = of_char c :: nat in n = 32 \<or> (9 \<le> n \<and> n \<le> 13))"

definition py_strip :: "string \<Rightarrow> string" where
  "py_strip s = rev (dropWhile py_isspace (rev (dropWhile py_isspace s)))"

definition is_digit :: "char \<Rightarrow> bool" where
  "is_digit c \<longleftrightarrow> (let n = of_char c :: nat in 48 \<le> n \<and> n \<le> 57)"

definition digit_val :: "char \<Rightarrow> nat" where
  "digit_val c = of_char c - 48"

definition digit_char :: "nat \<Rightarrow> char" where
  "digit_char d = ''0123456789'' ! d"

text \<open>A run of decimal digits with single underscores between digits (PEP 515).\<close>

fun valid_digits :: "string \<Rightarrow> bool" where
  "valid_digits [] = False"
| "valid_digits [c] = is_digit c"
| "valid_digits (c # d # cs) =
     (is_digit c \<and> (if d = CHR ''_'' then valid_digits cs else valid_digits (d # cs)))"

definition digits_value :: "string \<Rightarrow> nat" where
  "digits_value s = foldl (\<lambda>n c. 10 * n + digit_val c) 0 (filter (\<lambda>c. c \<noteq> CHR ''_'') s)"

subsection \<open>\<open>int(s)\<close> and \<open>str(n)\<close>\<close>

definition py_int :: "string \<Rightarrow> int option" where
  "py_int s =
     (case py_strip s of
        [] \<Rightarrow> None
      | c # cs \<Rightarrow>
          if c = CHR ''-'' then (if valid_digits cs then Some (- int (digits_value cs)) else None)
          else if c = CHR ''+'' then (if valid_digits cs then Some (int (digits_value cs)) else None)
          else if valid_digits (c # cs) then Some (int (digits_value (c # cs))) else None)"

fun nat_digits :: "nat \<Rightarrow> string" where
  "nat_digits n = (if n < 10 then [digit_char n] else nat_digits (n div 10) @ [digit_char (n mod 10)])"

declare nat_digits.simps [simp del]

definition str_int :: "int \<Rightarrow> string" where
  "str_int i = (if i < 0 then CHR ''-'' # nat_digits (nat (- i)) else nat_digits (nat i))"

text \<open>\<open>sep.join(xs)\<close>.\<close>

fun py_join :: "string \<Rightarrow> string list \<Rightarrow> string" where
  "py_join sep [] = []"
| "py_join sep [x] = x"
| "py_join sep (x # y # xs) = x @ sep @ py_join sep (y # xs)"

subsection \<open>\<open>float(s)\<close>\<close>

datatype pyfloat = PFin real | PNaN | PInf | PNegInf

text \<open>The comparisons \<open>v < m\<close> and \<open>v > m\<close> against a finite bound.\<close>

fun py_lt :: "pyfloat \<Rightarrow> real \<Rightarrow> bool" where
  "py_lt (PFin x) m = (x < m)"
| "py_lt PNaN m = False"
| "py_lt PInf m = False"
| "py_lt PNegInf m = True"

fun py_gt :: "pyfloat \<Rightarrow> real \<Rightarrow> bool" where
  "py_gt (PFin x) m = (m < x)"
| "py_gt PNaN m = False"
| "py_gt PInf m = True"
| "py_gt PNegInf m = False"

definition ascii_lower :: "char \<Rightarrow> char" where
  "ascii_lower c =
     (case map_of (zip ''ABCDEFGHIJKLMNOPQRSTUVWXYZ'' ''abcdefghijklmnopqrstuvwxyz'') c of Some d \<Rightarrow> d | None \<Rightarrow> c)"

definition count_digits :: "string \<Rightarrow> nat" where
  "count_digits s = length (filter (\<lambda>c. c \<noteq> CHR ''_'') s)"

text \<open>\<open>digitpart [\<close>.\<open> [digitpart]] | \<close>.\<open> digitpart\<close>, as an exact decimal.\<close>

definition parse_mantissa :: "string \<Rightarrow> real option" where
  "parse_mantissa m =
     (let ip = takeWhile (\<lambda>c. c \<noteq> CHR ''.'') m; rest = dropWhile (\<lambda>c. c \<noteq> CHR ''.'') m
      in if rest = [] then (if valid_digits ip then Some (real (digits_value ip)) else None)
         else (let fp = tl rest
               in if (ip = [] \<or> valid_digits ip) \<and> (fp = [] \<or> valid_digits fp) \<and> \<not> (ip = [] \<and> fp = [])
                  then Some (real (digits_value ip) + real (digits_value fp) / 10 ^ count_digits fp)
                  else None))"

definition parse_exponent :: "string \<Rightarrow> int option" where
  "parse_exponent e =
     (case e of
        [] \<Rightarrow> None
      | c # cs \<Rightarrow>
          if c = CHR ''-'' then (if valid_digits cs then Some (- int (digits_value cs)) else None)
          else if c = CHR ''+'' then (if valid_digits cs then Some (int (digits_value cs)) else None)
          else if valid_digits e then Some (int (digits_value e)) else None)"

definition scale10 :: "real \<Rightarrow> int \<Rightarrow> real" where
  "scale10 x e = (if 0 \<le> e then x * 10 ^ nat e else x / 10 ^ nat (- e))"

definition parse_decimal :: "string \<Rightarrow> real option" where
  "parse_decimal b =
     (let m = takeWhile (\<lambda>c. c \<noteq> CHR ''e'' \<and> c \<noteq> CHR ''E'') b;
          r = dropWhile (\<lambda>c. c \<noteq> CHR ''e'' \<and> c \<noteq> CHR ''E'') b
      in case parse_mantissa m of
           None \<Rightarrow> None
         | Some x \<Rightarrow> if r = [] then Some x else map_option (scale10 x) (parse_exponent (tl r)))"

definition py_float :: "string \<Rightarrow> pyfloat option" where
  "py_float s =
     (let t = py_strip s;
          (neg, body) = (case t of
                           c # cs \<Rightarrow> if c = CHR ''-'' then (True, cs) else if c = CHR ''+'' then (False, cs) else (False, t)
                         | [] \<Rightarrow> (False, []));
          l = map ascii_lower body
      in if l = ''nan'' then Some PNaN
         else if l = ''inf'' \<or> l = ''infinity'' then Some (if neg then PNegInf else PInf)
         else map_option (\<lambda>x. PFin (if neg then - x else x)) (parse_decimal body))"

subsection \<open>Lemmas\<close>

lemma digit_char_props:
  assumes "d < 10"
  shows "is_digit (digit_char d) \<and> digit_val (digit_char d) = d \<and> \<not> py_isspace (digit_char d)"
proof -
  have "d = 0 \<or> d = 1 \<or> d = 2 \<or> d = 3 \<or> d = 4 \<or> d = 5 \<or> d = 6 \<or> d = 7 \<or> d = 8 \<or> d = 9"
    using assms by presburger
  then show ?thesis
    by (elim disjE) (simp_all add: is_digit_def digit_val_def digit_char_def py_isspace_def)
qed

lemma underscore_not_digit [simp]: "\<not> is_digit CHR ''_''"
  by (simp add: is_digit_def)

lemma digit_char_not_underscore: "d < 10 \<Longrightarrow> digit_char d \<noteq> CHR ''_''"
  using digit_char_props [of d] by auto

lemma nat_digits_ne [simp]: "nat_digits n \<noteq> []"
  by (subst nat_digits.simps) simp

lemma nat_digits_digits: "c \<in> set (nat_digits n) \<Longrightarrow> is_digit c \<and> \<not> py_isspace c"
proof (induction n rule: nat_digits.induct)
  case (1 n)
  then show ?case
    by (cases "n < 10") (auto simp: nat_digits.simps [of n] digit_char_props)
qed

lemma valid_digits_all: "xs \<noteq> [] \<Longrightarrow> (\<And>c. c \<in> set xs \<Longrightarrow> is_digit c) \<Longrightarrow> valid_digits xs"
proof (induction xs rule: valid_digits.induct)
  case (3 c d cs)
  have d: "d \<noteq> CHR ''_''" using "3.prems"(2) [of d] by auto
  have "valid_digits (d # cs)"
    by (rule "3.IH"(2) [OF d]) (use "3.prems"(2) in auto)
  then show ?case using "3.prems"(2) [of c] d by simp
qed simp_all

lemma digits_value_nat_digits: "digits_value (nat_digits n) = n"
proof (induction n rule: nat_digits.induct)
  case (1 n)
  have nu: "\<And>m. filter (\<lambda>c. c \<noteq> CHR ''_'') (nat_digits m) = nat_digits m"
    by (auto simp: filter_id_conv dest: nat_digits_digits)
  show ?case
  proof (cases "n < 10")
    case True
    then show ?thesis
      by (simp add: nat_digits.simps [of n] digits_value_def digit_char_props digit_char_not_underscore)
  next
    case False
    then have "digits_value (nat_digits (n div 10)) = n div 10" using "1.IH" by simp
    then have "foldl (\<lambda>n c. 10 * n + digit_val c) 0 (nat_digits (n div 10)) = n div 10"
      by (simp add: digits_value_def nu)
    then show ?thesis
      using False nu [of n] by (simp add: nat_digits.simps [of n] digits_value_def digit_char_props)
  qed
qed

lemma py_strip_no_space:
  assumes "xs \<noteq> []" "\<not> py_isspace (hd xs)" "\<not> py_isspace (last xs)"
  shows "py_strip xs = xs"
proof -
  have "dropWhile py_isspace xs = xs" using assms(1,2) by (cases xs) simp_all
  moreover have "dropWhile py_isspace (rev xs) = rev xs" using assms(1,3) by (cases "rev xs") (simp_all add: last_rev [symmetric])
  ultimately show ?thesis by (simp add: py_strip_def)
qed

lemma nat_digits_strip_valid:
  "py_strip (nat_digits n) = nat_digits n \<and> valid_digits (nat_digits n)
   \<and> \<not> py_isspace (last (nat_digits n)) \<and> is_digit (hd (nat_digits n))"
proof -
  have "last (nat_digits n) \<in> set (nat_digits n)" "hd (nat_digits n) \<in> set (nat_digits n)" by simp_all
  then have "\<not> py_isspace (last (nat_digits n))" "\<not> py_isspace (hd (nat_digits n))" "is_digit (hd (nat_digits n))"
    using nat_digits_digits by blast+
  moreover have "valid_digits (nat_digits n)" using nat_digits_digits by (intro valid_digits_all) auto
  ultimately show ?thesis by (simp add: py_strip_no_space)
qed

lemma py_int_str_int: "py_int (str_int i) = Some i"
proof (cases "i < 0")
  case True
  let ?d = "nat_digits (nat (- i))"
  have "py_strip (CHR ''-'' # ?d) = CHR ''-'' # ?d"
    using nat_digits_strip_valid [of "nat (- i)"] by (intro py_strip_no_space) (simp_all add: py_isspace_def)
  then show ?thesis
    using True nat_digits_strip_valid [of "nat (- i)"] digits_value_nat_digits [of "nat (- i)"]
    by (simp add: py_int_def str_int_def)
next
  case False
  let ?d = "nat_digits (nat i)"
  have "hd ?d \<noteq> CHR ''-''" "hd ?d \<noteq> CHR ''+''"
    using nat_digits_strip_valid [of "nat i"] by (auto simp: is_digit_def)
  then show ?thesis
    using False nat_digits_strip_valid [of "nat i"] digits_value_nat_digits [of "nat i"]
    by (cases ?d) (simp_all add: py_int_def str_int_def)
qed

end
