(* ===== verification/Argparse.thy ===== *)
theory Argparse
  imports PyStr
begin

text \<open>
  The part of Python's \<open>argparse\<close> that \<open>bea_bad/cli.py\<close> uses: long options with one
  argument (\<open>type=str\<close>, \<open>float\<close>, \<open>int\<close>) or \<open>store_true\<close>, required options,
  defaults, unambiguous prefixes of long options, negative numbers as arguments, and
  the errors \<open>parse_args\<close> reports (every one exits with \<open>SystemExit(2)\<close>). The
  \<open>--opt=value\<close> form, the \<open>--\<close> separator and the automatic \<open>-h/--help\<close> are not
  modelled.
\<close>

subsection \<open>Option table\<close>

datatype arg_action = StoreStr | StoreFloat | StoreInt | StoreTrue

datatype arg_val = VStr string | VFloat pyfloat | VInt int | VBool bool | VNone

record arg_spec =
  a_flag :: string
  a_action :: arg_action
  a_required :: bool
  a_default :: arg_val

type_synonym namespace = "string \<Rightarrow> arg_val option"

subsection \<open>Classifying a token (\<open>_parse_optional\<close>)\<close>

datatype tok_class = Positional | KnownOpt arg_spec | AmbiguousOpt | UnknownOpt

text \<open>\<open>_negative_number_matcher\<close>: \<open>^-\d+$|^-\d*\.\d+$\<close>.\<close>

definition negative_number_like :: "string \<Rightarrow> bool" where
  "negative_number_like t =
     (case t of
        [] \<Rightarrow> False
      | c # cs \<Rightarrow> c = CHR ''-'' \<and>
          ((cs \<noteq> [] \<and> list_all is_digit cs)
           \<or> (let ip = takeWhile (\<lambda>x. x \<noteq> CHR ''.'') cs; fp = drop (Suc (length ip)) cs
              in list_all is_digit ip \<and> length ip < length cs \<and> fp \<noteq> [] \<and> list_all is_digit fp)))"

definition classify :: "arg_spec list \<Rightarrow> string \<Rightarrow> tok_class" where
  "classify sp t =
     (if t = [] \<or> hd t \<noteq> CHR ''-'' then Positional
      else case find (\<lambda>a. a_flag a = t) sp of
        Some a \<Rightarrow> KnownOpt a
      | None \<Rightarrow>
          if length t = 1 then Positional
          else (let ms = filter (\<lambda>a. take (length t) (a_flag a) = t) sp
                in if length ms = 1 then KnownOpt (hd ms)
                   else if 1 < length ms then AmbiguousOpt
                   else if negative_number_like t then Positional
                   else if CHR '' '' \<in> set t then Positional
                   else UnknownOpt))"

subsection \<open>Consuming the command line\<close>

definition convert_arg :: "arg_action \<Rightarrow> string \<Rightarrow> string \<Rightarrow> arg_val result" where
  "convert_arg act flag v =
     (case act of
        StoreFloat \<Rightarrow> (case py_float v of
                         None \<Rightarrow> Inl (ArgparseError (''argument '' @ flag @ '': invalid float value: '' @ v))
                       | Some x \<Rightarrow> Inr (VFloat x))
      | StoreInt \<Rightarrow> (case py_int v of
                       None \<Rightarrow> Inl (ArgparseError (''argument '' @ flag @ '': invalid int value: '' @ v))
                     | Some i \<Rightarrow> Inr (VInt i))
      | _ \<Rightarrow> Inr (VStr v))"

fun ap_loop :: "arg_spec list \<Rightarrow> namespace \<Rightarrow> string list \<Rightarrow> string list \<Rightarrow> (namespace \<times> string list) result" where
  "ap_loop sp ns ex [] = Inr (ns, ex)"
| "ap_loop sp ns ex (t # ts) =
     (case classify sp t of
        Positional \<Rightarrow> ap_loop sp ns (ex @ [t]) ts
      | UnknownOpt \<Rightarrow> ap_loop sp ns (ex @ [t]) ts
      | AmbiguousOpt \<Rightarrow> Inl (ArgparseError (''ambiguous option: '' @ t))
      | KnownOpt a \<Rightarrow>
          if a_action a = StoreTrue then ap_loop sp (ns(a_flag a \<mapsto> VBool True)) ex ts
          else (case ts of
                  [] \<Rightarrow> Inl (ArgparseError (''argument '' @ a_flag a @ '': expected one argument''))
                | v # ts' \<Rightarrow>
                    if classify sp v = Positional
                    then bindE (convert_arg (a_action a) (a_flag a) v) (\<lambda>x. ap_loop sp (ns(a_flag a \<mapsto> x)) ex ts')
                    else Inl (ArgparseError (''argument '' @ a_flag a @ '': expected one argument''))))"

text \<open>
  \<open>parse_args\<close>: \<open>_parse_known_args\<close> first classifies every token with
  \<open>_parse_optional\<close>, so the first ambiguous prefix on the command line is reported
  before any token is consumed; then the loop runs; after it, missing required options
  are reported, then leftover tokens; otherwise every option reads its value or its
  default.
\<close>

definition parse_args :: "arg_spec list \<Rightarrow> string list \<Rightarrow> namespace result" where
  "parse_args sp argv =
     (case find (\<lambda>t. classify sp t = AmbiguousOpt) argv of
        Some t \<Rightarrow> Inl (ArgparseError (''ambiguous option: '' @ t))
      | None \<Rightarrow>
     bindE (ap_loop sp Map.empty [] argv) (\<lambda>(ns, ex).
       (let missing = filter (\<lambda>a. a_required a \<and> ns (a_flag a) = None) sp
        in if missing \<noteq> [] then
             Inl (ArgparseError (''the following arguments are required: '' @ py_join '', '' (map a_flag missing)))
           else if ex \<noteq> [] then Inl (ArgparseError (''unrecognized arguments: '' @ py_join '' '' ex))
           else Inr (\<lambda>f. case find (\<lambda>a. a_flag a = f) sp of
                          None \<Rightarrow> None
                        | Some a \<Rightarrow> (case ns f of Some v \<Rightarrow> Some v | None \<Rightarrow> Some (a_default a))))))"

text \<open>
  The type an option's value has once stored (\<open>type=str\<close>, \<open>float\<close>, \<open>int\<close> or
  \<open>store_true\<close>), and the namespace invariant of the loop: every stored value belongs
  to an option of the table and has that option's type.
\<close>

fun val_fits :: "arg_action \<Rightarrow> arg_val \<Rightarrow> bool" where
  "val_fits StoreStr (VStr _) = True"
| "val_fits StoreFloat (VFloat _) = True"
| "val_fits StoreInt (VInt _) = True"
| "val_fits StoreTrue (VBool _) = True"
| "val_fits _ _ = False"

definition ns_typed :: "arg_spec list \<Rightarrow> namespace \<Rightarrow> bool" where
  "ns_typed sp ns \<longleftrightarrow> (\<forall>f v. ns f = Some v \<longrightarrow> (\<exists>a \<in> set sp. a_flag a = f \<and> val_fits (a_action a) v))"

subsection \<open>Lemmas\<close>

lemma ap_loop_store:
  assumes "classify sp f = KnownOpt a" "a_action a \<noteq> StoreTrue" "classify sp v = Positional"
    and "convert_arg (a_action a) (a_flag a) v = Inr x"
  shows "ap_loop sp ns ex (f # v # rest) = ap_loop sp (ns(a_flag a \<mapsto> x)) ex rest"
  using assms by simp

lemma ap_loop_true:
  "classify sp f = KnownOpt a \<Longrightarrow> a_action a = StoreTrue \<Longrightarrow>
   ap_loop sp ns ex (f # rest) = ap_loop sp (ns(a_flag a \<mapsto> VBool True)) ex rest"
  by simp

lemma convert_arg_Inl: "convert_arg act f v = Inl e \<Longrightarrow> \<exists>m. e = ArgparseError m"
  by (auto simp: convert_arg_def split: arg_action.splits option.splits)

text \<open>One step of the loop: skip a token, set a flag, store an argument, or fail.\<close>

lemma ap_loop_Cons_cases:
  obtains (skip) "classify sp t = Positional \<or> classify sp t = UnknownOpt"
      "ap_loop sp ns ex (t # ts) = ap_loop sp ns (ex @ [t]) ts"
    | (flag) a where "classify sp t = KnownOpt a" "a_action a = StoreTrue"
      "ap_loop sp ns ex (t # ts) = ap_loop sp (ns(a_flag a \<mapsto> VBool True)) ex ts"
    | (store) a v vs x where "classify sp t = KnownOpt a" "a_action a \<noteq> StoreTrue" "ts = v # vs"
      "classify sp v = Positional" "ap_loop sp ns ex (t # ts) = ap_loop sp (ns(a_flag a \<mapsto> x)) ex vs"
    | (err) m where "ap_loop sp ns ex (t # ts) = Inl (ArgparseError m)"
proof (cases "classify sp t")
  case (KnownOpt a)
  show ?thesis
  proof (cases "a_action a = StoreTrue")
    case False
    show ?thesis
    proof (cases ts)
      case (Cons v vs)
      show ?thesis
      proof (cases "classify sp v = Positional")
        case True
        show ?thesis
        proof (cases "convert_arg (a_action a) (a_flag a) v")
          case (Inl e)
          then obtain m where "e = ArgparseError m" using convert_arg_Inl by blast
          then show ?thesis using KnownOpt False Cons True Inl err by simp
        qed (use KnownOpt False Cons True store in simp)
      qed (use KnownOpt False Cons err in simp)
    qed (use KnownOpt False err in simp)
  qed (use KnownOpt flag in simp)
qed (use skip err in simp_all)

lemma ap_loop_Inl: "ap_loop sp ns ex ts = Inl e \<Longrightarrow> \<exists>m. e = ArgparseError m"
proof (induction sp ns ex ts rule: ap_loop.induct)
  case (2 sp ns ex t ts)
  show ?case
  proof (cases rule: ap_loop_Cons_cases [of sp t ns ex ts])
    case skip
    then show ?thesis using "2.IH"(1,4) "2.prems" by auto
  next
    case (flag a)
    have "ap_loop sp (ns(a_flag a \<mapsto> VBool True)) ex ts = Inl e" using flag(3) "2.prems" by simp
    then show ?thesis using "2.IH"(2) [OF flag(1,2)] by (simp add: fun_upd_def)
  next
    case (store a v vs x)
    have "ap_loop sp (ns(a_flag a \<mapsto> x)) ex vs = Inl e" using store(5) "2.prems" by simp
    then show ?thesis using "2.IH"(3) [OF store(1-4), of x] by (simp add: fun_upd_def)
  next
    case (err m)
    then have "e = ArgparseError m" using "2.prems" by (metis sum.inject(1))
    then show ?thesis by blast
  qed
qed simp

lemma ap_loop_extras_mono: "ap_loop sp ns ex ts = Inr (ns', ex') \<Longrightarrow> ex \<noteq> [] \<Longrightarrow> ex' \<noteq> []"
proof (induction sp ns ex ts rule: ap_loop.induct)
  case (2 sp ns ex t ts)
  show ?case
  proof (cases rule: ap_loop_Cons_cases [of sp t ns ex ts])
    case skip
    then show ?thesis using "2.IH"(1,4) "2.prems" by auto
  next
    case (flag a)
    have "ap_loop sp (ns(a_flag a \<mapsto> VBool True)) ex ts = Inr (ns', ex')" using flag(3) "2.prems"(1) by simp
    then show ?thesis using "2.IH"(2) [OF flag(1,2)] "2.prems"(2) by (simp add: fun_upd_def)
  next
    case (store a v vs x)
    have "ap_loop sp (ns(a_flag a \<mapsto> x)) ex vs = Inr (ns', ex')" using store(5) "2.prems"(1) by simp
    then show ?thesis using "2.IH"(3) [OF store(1-4), of x] "2.prems"(2) by (simp add: fun_upd_def)
  next
    case (err m)
    then show ?thesis using "2.prems"(1) by simp
  qed
qed simp

lemma ap_loop_unknown:
  "t \<in> set ts \<Longrightarrow> classify sp t = UnknownOpt \<Longrightarrow>
   (\<exists>m. ap_loop sp ns ex ts = Inl (ArgparseError m)) \<or> (\<exists>ns' ex'. ap_loop sp ns ex ts = Inr (ns', ex') \<and> ex' \<noteq> [])"
proof (induction sp ns ex ts rule: ap_loop.induct)
  case (2 sp ns ex u us)
  show ?case
  proof (cases "u = t")
    case True
    then show ?thesis using "2.prems"(2) ap_loop_extras_mono [of sp ns "ex @ [t]" us]
      by (cases "ap_loop sp ns (ex @ [t]) us") (auto dest: ap_loop_Inl)
  next
    case False
    then have t: "t \<in> set us" using "2.prems"(1) by simp
    show ?thesis
    proof (cases rule: ap_loop_Cons_cases [of sp u ns ex us])
      case (store a v vs x)
      then have "t \<in> set vs" using t "2.prems"(2) by auto
      then show ?thesis using store(5) "2.IH"(3) [OF store(1-4), of x] "2.prems"(2) by (simp only:)
    next
      case skip
      then show ?thesis using "2.IH"(1,4) t "2.prems"(2) by auto
    next
      case (flag a)
      then show ?thesis using "2.IH"(2) [OF flag(1,2) t "2.prems"(2)] by (simp add: fun_upd_def)
    qed simp
  qed
qed simp

lemma ap_loop_no_ambiguous:
  "ap_loop sp ns ex ts = Inr r \<Longrightarrow> find (\<lambda>t. classify sp t = AmbiguousOpt) ts = None"
proof (induction sp ns ex ts rule: ap_loop.induct)
  case (2 sp ns ex t ts)
  show ?case
  proof (cases rule: ap_loop_Cons_cases [of sp t ns ex ts])
    case skip
    then show ?thesis using "2.IH"(1,4) "2.prems" by auto
  next
    case (flag a)
    have "ap_loop sp (ns(a_flag a \<mapsto> VBool True)) ex ts = Inr r" using flag(3) "2.prems" by simp
    then show ?thesis using "2.IH"(2) [OF flag(1,2)] flag(1) by (simp add: fun_upd_def)
  next
    case (store a v vs x)
    have "ap_loop sp (ns(a_flag a \<mapsto> x)) ex vs = Inr r" using store(5) "2.prems" by simp
    then show ?thesis using "2.IH"(3) [OF store(1-4), of x] store(1,3,4) by (simp add: fun_upd_def)
  next
    case (err m)
    then show ?thesis using "2.prems" by simp
  qed
qed simp

text \<open>Once the loop has succeeded, no token was ambiguous and \<open>parse_args\<close> checks the result.\<close>

lemma parse_args_loop:
  assumes "ap_loop sp Map.empty [] argv = Inr (ns0, ex)"
  shows "parse_args sp argv =
     (let missing = filter (\<lambda>a. a_required a \<and> ns0 (a_flag a) = None) sp
      in if missing \<noteq> [] then
           Inl (ArgparseError (''the following arguments are required: '' @ py_join '', '' (map a_flag missing)))
         else if ex \<noteq> [] then Inl (ArgparseError (''unrecognized arguments: '' @ py_join '' '' ex))
         else Inr (\<lambda>f. case find (\<lambda>a. a_flag a = f) sp of
                        None \<Rightarrow> None
                      | Some a \<Rightarrow> (case ns0 f of Some v \<Rightarrow> Some v | None \<Rightarrow> Some (a_default a))))"
  unfolding parse_args_def ap_loop_no_ambiguous [OF assms] option.case assms bindE_Inr prod.case ..

lemma parse_args_unknown:
  assumes "t \<in> set argv" "classify sp t = UnknownOpt"
  shows "\<exists>m. parse_args sp argv = Inl (ArgparseError m)"
  using ap_loop_unknown [OF assms, of Map.empty "[]"]
  by (auto simp: parse_args_def Let_def split: option.split)

lemma classify_KnownOpt_mem: "classify sp t = KnownOpt a \<Longrightarrow> a \<in> set sp"
proof -
  assume c: "classify sp t = KnownOpt a"
  show ?thesis
  proof (cases "find (\<lambda>a. a_flag a = t) sp")
    case (Some b)
    then have "a = b" using c by (auto simp: classify_def split: if_splits)
    then show ?thesis using Some by (auto simp: find_Some_iff)
  next
    case None
    let ?ms = "filter (\<lambda>a. take (length t) (a_flag a) = t) sp"
    from c None have "length ?ms = 1" "a = hd ?ms"
      by (auto simp: classify_def Let_def split: if_splits)
    then have "a \<in> set ?ms" by (cases ?ms) auto
    then show ?thesis by simp
  qed
qed

lemma convert_arg_fits: "convert_arg act f v = Inr x \<Longrightarrow> act \<noteq> StoreTrue \<Longrightarrow> val_fits act x"
  by (cases act) (auto simp: convert_arg_def split: option.splits)

lemma ns_typed_upd:
  "ns_typed sp ns \<Longrightarrow> a \<in> set sp \<Longrightarrow> val_fits (a_action a) x \<Longrightarrow> ns_typed sp (ns(a_flag a \<mapsto> x))"
  by (auto simp: ns_typed_def)

lemma ap_loop_ns_typed: "ap_loop sp ns ex ts = Inr (ns', ex') \<Longrightarrow> ns_typed sp ns \<Longrightarrow> ns_typed sp ns'"
proof (induction sp ns ex ts rule: ap_loop.induct)
  case (2 sp ns ex t ts)
  show ?case
  proof (cases rule: ap_loop_Cons_cases [of sp t ns ex ts])
    case skip
    then show ?thesis using "2.IH"(1,4) "2.prems" by auto
  next
    case (flag a)
    have "ap_loop sp (ns(a_flag a \<mapsto> VBool True)) ex ts = Inr (ns', ex')" using flag(3) "2.prems"(1) by simp
    moreover have "ns_typed sp (ns(a_flag a \<mapsto> VBool True))"
      using ns_typed_upd [OF "2.prems"(2) classify_KnownOpt_mem [OF flag(1)]] flag(2) by simp
    ultimately show ?thesis using "2.IH"(2) [OF flag(1,2)] by (simp add: fun_upd_def)
  next
    case (store a v vs x)
    obtain y where conv: "convert_arg (a_action a) (a_flag a) v = Inr y"
      and rec: "ap_loop sp (ns(a_flag a \<mapsto> y)) ex vs = Inr (ns', ex')"
      using store(1-4) "2.prems"(1) by (cases "convert_arg (a_action a) (a_flag a) v") simp_all
    have "ns_typed sp (ns(a_flag a \<mapsto> y))"
      using ns_typed_upd [OF "2.prems"(2) classify_KnownOpt_mem [OF store(1)] convert_arg_fits [OF conv store(2)]] .
    then show ?thesis using rec "2.IH"(3) [OF store(1-4), of y] by (simp add: fun_upd_def)
  next
    case (err m)
    then show ?thesis using "2.prems"(1) by simp
  qed
qed simp

lemma parse_args_Inr:
  assumes "parse_args sp argv = Inr ns"
  obtains ns0 ex where "ap_loop sp Map.empty [] argv = Inr (ns0, ex)"
    "\<forall>a \<in> set sp. a_required a \<longrightarrow> ns0 (a_flag a) \<noteq> None" "ex = []"
    "ns = (\<lambda>f. case find (\<lambda>a. a_flag a = f) sp of None \<Rightarrow> None
              | Some a \<Rightarrow> (case ns0 f of Some v \<Rightarrow> Some v | None \<Rightarrow> Some (a_default a)))"
proof -
  have nf: "find (\<lambda>t. classify sp t = AmbiguousOpt) argv = None"
    using assms by (cases "find (\<lambda>t. classify sp t = AmbiguousOpt) argv") (simp_all add: parse_args_def)
  obtain ns0 ex where loop: "ap_loop sp Map.empty [] argv = Inr (ns0, ex)"
    using assms nf by (cases "ap_loop sp Map.empty [] argv") (auto simp: parse_args_def)
  then show ?thesis using assms that [OF loop]
    by (auto simp: parse_args_loop [OF loop] Let_def filter_empty_conv split: if_splits)
qed

lemma parse_args_value:
  assumes "parse_args sp argv = Inr ns" "distinct (map a_flag sp)" "a \<in> set sp"
  shows "\<exists>v. ns (a_flag a) = Some v \<and> (val_fits (a_action a) v \<or> (\<not> a_required a \<and> v = a_default a))"
proof -
  obtain ns0 ex where loop: "ap_loop sp Map.empty [] argv = Inr (ns0, ex)"
    and req: "\<forall>a \<in> set sp. a_required a \<longrightarrow> ns0 (a_flag a) \<noteq> None"
    and "ex = []"
    and res: "ns = (\<lambda>f. case find (\<lambda>a. a_flag a = f) sp of None \<Rightarrow> None
              | Some a \<Rightarrow> (case ns0 f of Some v \<Rightarrow> Some v | None \<Rightarrow> Some (a_default a)))"
    by (rule parse_args_Inr [OF assms(1)])
  have find: "find (\<lambda>b. a_flag b = a_flag a) sp = Some a" using find_distinct_key [OF assms(2,3)] .
  have typed: "ns_typed sp ns0" using ap_loop_ns_typed [OF loop] by (simp add: ns_typed_def)
  show ?thesis
  proof (cases "ns0 (a_flag a)")
    case None
    then have "\<not> a_required a" using req assms(3) by blast
    then show ?thesis using res find None by simp
  next
    case (Some v)
    then obtain b where b: "b \<in> set sp" "a_flag b = a_flag a" "val_fits (a_action b) v"
      using typed by (auto simp: ns_typed_def)
    then have "b = a" using assms(2,3) by (metis distinct_map inj_onD)
    then show ?thesis using res find Some b(3) by simp
  qed
qed

lemma parse_args_None:
  assumes "parse_args sp argv = Inr ns" "f \<notin> a_flag ` set sp"
  shows "ns f = None"
proof -
  have find: "find (\<lambda>a. a_flag a = f) sp = None" using assms(2) by (auto simp: find_None_iff)
  obtain ns0 ex where "ap_loop sp Map.empty [] argv = Inr (ns0, ex)"
    "\<forall>a \<in> set sp. a_required a \<longrightarrow> ns0 (a_flag a) \<noteq> None" "ex = []"
    and res: "ns = (\<lambda>f. case find (\<lambda>a. a_flag a = f) sp of None \<Rightarrow> None
              | Some a \<Rightarrow> (case ns0 f of Some v \<Rightarrow> Some v | None \<Rightarrow> Some (a_default a)))"
    by (rule parse_args_Inr [OF assms(1)])
  then show ?thesis using find by simp
qed

end
