(* ===== verification/DataIO.thy ===== *)
theory DataIO
  imports Numpy
begin

text \<open>
  DataIO (spec \S6), \<open>bea_bad/dataio.py\<close>: the schema checks, the discordance filter and
  the inner merge of \<open>read_inputs\<close>, and the query depths of \<open>read_query_depths\<close>.
  Reading a CSV file is I/O: a table is given as its column names and its rows, the
  cells of the optional \<open>is_discordant\<close> column as \<open>real option\<close> (\<open>None\<close> for an
  empty cell, which pandas reads as NaN).
\<close>

subsection \<open>Tables\<close>

record zircon_row =
  z_ash_id :: string
  z_age_ma :: real
  z_sigma_ma :: real
  z_is_discordant :: "real option"

record zircon_csv =
  z_columns :: "string list"
  z_rows :: "zircon_row list"

record tiepoint_row =
  t_ash_id :: string
  t_depth_m :: real

record tiepoint_csv =
  t_columns :: "string list"
  t_rows :: "tiepoint_row list"

record query_csv =
  q_columns :: "string list"
  q_depths :: "real list"

text \<open>\<open>InputData\<close>, lines 9--12.\<close>

record input_data =
  zircon :: "zircon_row list"
  tiepoints :: "tiepoint_row list"

subsection \<open>Operations\<close>

text \<open>\<open>astype(int)\<close> truncates towards zero.\<close>

definition astype_int :: "real \<Rightarrow> int" where
  "astype_int x = (if 0 \<le> x then \<lfloor>x\<rfloor> else \<lceil>x\<rceil>)"

text \<open>Line 29: \<open>z["is_discordant"].fillna(0).astype(int) == 0\<close>.\<close>

definition concordant :: "zircon_row \<Rightarrow> bool" where
  "concordant r \<longleftrightarrow> astype_int (case z_is_discordant r of None \<Rightarrow> 0 | Some x \<Rightarrow> x) = 0"

text \<open>
  Line 32: \<open>z.merge(t[["ash_id"]], on="ash_id", how="inner")\<close> keeps the left order and
  repeats a grain once per tie-point row of its ash bed.
\<close>

definition merge_inner_ash :: "zircon_row list \<Rightarrow> tiepoint_row list \<Rightarrow> zircon_row list" where
  "merge_inner_ash zs ts = concat (map (\<lambda>r. map (\<lambda>_. r) (filter (\<lambda>t. t_ash_id t = z_ash_id r) ts)) zs)"

definition has_columns :: "string list \<Rightarrow> string list \<Rightarrow> bool" where
  "has_columns req cols \<longleftrightarrow> list_all (\<lambda>c. c \<in> set cols) req"

text \<open>Lines 15--33.\<close>

definition read_inputs :: "zircon_csv \<Rightarrow> tiepoint_csv \<Rightarrow> input_data result" where
  "read_inputs z t =
     (if \<not> has_columns [''ash_id'', ''age_ma'', ''sigma_ma''] (z_columns z) then Inl (MissingColumns ''zircon.csv'')
      else if \<not> has_columns [''ash_id'', ''depth_m''] (t_columns t) then Inl (MissingColumns ''tiepoints.csv'')
      else (let z1 = (if ''is_discordant'' \<in> set (z_columns z) then filter concordant (z_rows z) else z_rows z)
            in Inr \<lparr>zircon = merge_inner_ash z1 (t_rows t), tiepoints = t_rows t\<rparr>))"

text \<open>
  Lines 36--45. A query file is read when its path is a non-empty string; otherwise the
  default grid of \<open>n_grid\<close> points spans the tie depths. On an empty tie table pandas'
  \<open>min\<close> and \<open>max\<close> are NaN and so is every grid point, written \<open>None\<close>.
\<close>

definition default_grid :: "tiepoint_row list \<Rightarrow> nat \<Rightarrow> real list option" where
  "default_grid ts n_grid =
     (if ts = [] then None
      else Some (linspace (Min (set (map t_depth_m ts))) (Max (set (map t_depth_m ts))) n_grid))"

definition read_query_depths ::
  "string option \<Rightarrow> (string \<Rightarrow> query_csv) \<Rightarrow> tiepoint_row list \<Rightarrow> nat \<Rightarrow> real list option result" where
  "read_query_depths query_path read_csv ts n_grid =
     (case query_path of
        Some p \<Rightarrow> if p \<noteq> [] then
                   (let qdf = read_csv p
                    in if ''depth_m'' \<notin> set (q_columns qdf) then Inl (MissingColumns ''query_depths.csv'')
                       else Inr (Some (q_depths qdf)))
                 else Inr (default_grid ts n_grid)
      | None \<Rightarrow> Inr (default_grid ts n_grid))"

subsection \<open>Lemmas\<close>

lemma read_inputs_tied:
  "read_inputs z t = Inr data \<Longrightarrow> r \<in> set (zircon data) \<Longrightarrow> \<exists>u \<in> set (tiepoints data). t_ash_id u = z_ash_id r"
  by (auto simp: read_inputs_def merge_inner_ash_def Let_def split: if_splits)

subsection \<open>Properties\<close>

text \<open>
  C18 (functional, spec \S8). The discordance filter keeps a grain exactly when its flag
  is missing or strictly between -1 and 1: \<open>astype(int)\<close> truncates, so a grain flagged
  0.5 is treated as concordant.
\<close>

theorem concordant_iff:
  "concordant r \<longleftrightarrow> (case z_is_discordant r of None \<Rightarrow> True | Some x \<Rightarrow> - 1 < x \<and> x < 1)"
proof (cases "z_is_discordant r")
  case (Some x)
  have "astype_int x = 0 \<longleftrightarrow> - 1 < x \<and> x < 1"
    by (auto simp: astype_int_def floor_eq_iff ceiling_eq_iff)
  then show ?thesis using Some by (simp add: concordant_def)
qed (simp add: concordant_def astype_int_def)

text \<open>
  C19 (functional, spec \S6). Without a query file the query depths are \<open>n_grid\<close>
  non-decreasing points from the shallowest to the deepest tie depth.
\<close>

theorem read_query_depths_default:
  assumes "ts \<noteq> []" "query_path = None \<or> query_path = Some []" "1 < n_grid"
  shows "\<exists>g. read_query_depths query_path read_csv ts n_grid = Inr (Some g) \<and> length g = n_grid \<and> sorted g
           \<and> g ! 0 = Min (set (map t_depth_m ts)) \<and> g ! (n_grid - 1) = Max (set (map t_depth_m ts))"
proof -
  let ?lo = "Min (set (map t_depth_m ts))" and ?hi = "Max (set (map t_depth_m ts))"
  have m: "t_depth_m (hd ts) \<in> set (map t_depth_m ts)" using assms(1) by simp
  then have "?lo \<le> t_depth_m (hd ts)" "t_depth_m (hd ts) \<le> ?hi" by simp_all
  then have "?lo \<le> ?hi" by linarith
  then have "sorted (linspace ?lo ?hi n_grid)" using assms(3) by (rule linspace_sorted)
  moreover have "read_query_depths query_path read_csv ts n_grid = Inr (Some (linspace ?lo ?hi n_grid))"
    using assms(1,2) by (auto simp: read_query_depths_def default_grid_def)
  ultimately show ?thesis using assms(3) by (simp add: nth_linspace linspace_last)
qed

theorem read_query_depths_default_witness:
  "[\<lparr>t_ash_id = ''A'', t_depth_m = 10\<rparr>, \<lparr>t_ash_id = ''B'', t_depth_m = 20\<rparr>] \<noteq> [] \<and> (None :: string option) = None
   \<and> 1 < (300 :: nat)
   \<and> (\<exists>g. read_query_depths None (\<lambda>p. \<lparr>q_columns = [], q_depths = []\<rparr>)
            [\<lparr>t_ash_id = ''A'', t_depth_m = 10\<rparr>, \<lparr>t_ash_id = ''B'', t_depth_m = 20\<rparr>] 300 = Inr (Some g)
          \<and> length g = 300 \<and> g ! 0 = 10 \<and> g ! 299 = 20)"
  using read_query_depths_default [of "[\<lparr>t_ash_id = ''A'', t_depth_m = 10\<rparr>, \<lparr>t_ash_id = ''B'', t_depth_m = 20\<rparr>]"
      None 300 "\<lambda>p. \<lparr>q_columns = [], q_depths = []\<rparr>"] by (simp, blast)

end
