(* ===== verification/CLI.thy ===== *)
theory CLI
  imports Argparse DataIO BEA BAD "HOL-Library.Char_ord" "HOL-Library.List_Lexorder"
begin

text \<open>
  CLIPipeline (spec \S3, \S6), \<open>main\<close> of \<open>bea_bad/cli.py\<close>: the argparse table of the
  \<open>bea_bad\<close> command, the typed arguments, and the pipeline: read the tables, fit BEA
  per ash bed (in \<open>groupby\<close> order, the first failure aborting the run), attach each
  estimate to its tie depth, sort by depth and fit BAD. File reading, the sampling
  engines and the generator are the environment; writing the CSV files, the figure
  and the printed paths are I/O and not modelled. The model works with real numbers,
  so a NaN or infinite float option stops it with \<open>NonFiniteFloat\<close> (which the
  program does not raise).
\<close>

subsection \<open>The command line\<close>

text \<open>Lines 14--28: one \<open>add_argument\<close> per option.\<close>

definition opt_zircon :: arg_spec where
  "opt_zircon = \<lparr>a_flag = ''--zircon'', a_action = StoreStr, a_required = True, a_default = VNone\<rparr>"

definition opt_tiepoints :: arg_spec where
  "opt_tiepoints = \<lparr>a_flag = ''--tiepoints'', a_action = StoreStr, a_required = True, a_default = VNone\<rparr>"

definition opt_query :: arg_spec where
  "opt_query = \<lparr>a_flag = ''--query'', a_action = StoreStr, a_required = False, a_default = VNone\<rparr>"

definition opt_outdir :: arg_spec where
  "opt_outdir = \<lparr>a_flag = ''--outdir'', a_action = StoreStr, a_required = False, a_default = VStr ''out''\<rparr>"

definition opt_max_span_ma :: arg_spec where
  "opt_max_span_ma = \<lparr>a_flag = ''--max_span_ma'', a_action = StoreFloat, a_required = False, a_default = VFloat (PFin 1)\<rparr>"

definition opt_depth_sigma_m :: arg_spec where
  "opt_depth_sigma_m = \<lparr>a_flag = ''--depth_sigma_m'', a_action = StoreFloat, a_required = False, a_default = VFloat (PFin 0.03)\<rparr>"

definition opt_no_bootstrap_prior :: arg_spec where
  "opt_no_bootstrap_prior = \<lparr>a_flag = ''--no_bootstrap_prior'', a_action = StoreTrue, a_required = False, a_default = VBool False\<rparr>"

definition opt_bea_draws :: arg_spec where
  "opt_bea_draws = \<lparr>a_flag = ''--bea_draws'', a_action = StoreInt, a_required = False, a_default = VInt 2000\<rparr>"

definition opt_bea_tune :: arg_spec where
  "opt_bea_tune = \<lparr>a_flag = ''--bea_tune'', a_action = StoreInt, a_required = False, a_default = VInt 2000\<rparr>"

definition opt_bad_draws :: arg_spec where
  "opt_bad_draws = \<lparr>a_flag = ''--bad_draws'', a_action = StoreInt, a_required = False, a_default = VInt 3000\<rparr>"

definition opt_bad_tune :: arg_spec where
  "opt_bad_tune = \<lparr>a_flag = ''--bad_tune'', a_action = StoreInt, a_required = False, a_default = VInt 3000\<rparr>"

definition opt_seed :: arg_spec where
  "opt_seed = \<lparr>a_flag = ''--seed'', a_action = StoreInt, a_required = False, a_default = VInt 42\<rparr>"

definition bea_bad_parser :: "arg_spec list" where
  "bea_bad_parser =
     [opt_zircon, opt_tiepoints, opt_query, opt_outdir, opt_max_span_ma, opt_depth_sigma_m,
      opt_no_bootstrap_prior, opt_bea_draws, opt_bea_tune, opt_bad_draws, opt_bad_tune, opt_seed]"

lemmas cli_opt_defs = opt_zircon_def opt_tiepoints_def opt_query_def opt_outdir_def opt_max_span_ma_def
  opt_depth_sigma_m_def opt_no_bootstrap_prior_def opt_bea_draws_def opt_bea_tune_def opt_bad_draws_def
  opt_bad_tune_def opt_seed_def

text \<open>The attributes of \<open>args\<close> (line 30).\<close>

record cli_args =
  cli_zircon :: string
  cli_tiepoints :: string
  cli_query :: "string option"
  cli_outdir :: string
  cli_max_span_ma :: pyfloat
  cli_depth_sigma_m :: pyfloat
  cli_no_bootstrap_prior :: bool
  cli_bea_draws :: int
  cli_bea_tune :: int
  cli_bad_draws :: int
  cli_bad_tune :: int
  cli_seed :: int

definition get_str :: "arg_val option \<Rightarrow> string" where
  "get_str v = (case v of Some (VStr s) \<Rightarrow> s | _ \<Rightarrow> [])"

definition get_opt_str :: "arg_val option \<Rightarrow> string option" where
  "get_opt_str v = (case v of Some (VStr s) \<Rightarrow> Some s | _ \<Rightarrow> None)"

definition get_float :: "arg_val option \<Rightarrow> pyfloat" where
  "get_float v = (case v of Some (VFloat x) \<Rightarrow> x | _ \<Rightarrow> PNaN)"

definition get_bool :: "arg_val option \<Rightarrow> bool" where
  "get_bool v = (case v of Some (VBool b) \<Rightarrow> b | _ \<Rightarrow> False)"

definition get_int :: "arg_val option \<Rightarrow> int" where
  "get_int v = (case v of Some (VInt i) \<Rightarrow> i | _ \<Rightarrow> 0)"

definition cli_args_of :: "namespace \<Rightarrow> cli_args" where
  "cli_args_of ns =
     \<lparr>cli_zircon = get_str (ns ''--zircon''), cli_tiepoints = get_str (ns ''--tiepoints''),
      cli_query = get_opt_str (ns ''--query''), cli_outdir = get_str (ns ''--outdir''),
      cli_max_span_ma = get_float (ns ''--max_span_ma''), cli_depth_sigma_m = get_float (ns ''--depth_sigma_m''),
      cli_no_bootstrap_prior = get_bool (ns ''--no_bootstrap_prior''),
      cli_bea_draws = get_int (ns ''--bea_draws''), cli_bea_tune = get_int (ns ''--bea_tune''),
      cli_bad_draws = get_int (ns ''--bad_draws''), cli_bad_tune = get_int (ns ''--bad_tune''),
      cli_seed = get_int (ns ''--seed'')\<rparr>"

text \<open>
  The command line that passes every argument explicitly, in the order \<open>app_gui.py\<close>
  writes them (the launcher's float formatting is the parameter \<open>fr\<close>), and the
  tokens that \<open>argparse\<close> takes as arguments.
\<close>

definition cli_argv :: "(pyfloat \<Rightarrow> string) \<Rightarrow> cli_args \<Rightarrow> string list" where
  "cli_argv fr a =
     [''--zircon'', cli_zircon a, ''--tiepoints'', cli_tiepoints a]
     @ (case cli_query a of None \<Rightarrow> [] | Some q \<Rightarrow> [''--query'', q])
     @ [''--outdir'', cli_outdir a, ''--max_span_ma'', fr (cli_max_span_ma a),
        ''--depth_sigma_m'', fr (cli_depth_sigma_m a)]
     @ (if cli_no_bootstrap_prior a then [''--no_bootstrap_prior''] else [])
     @ [''--bea_draws'', str_int (cli_bea_draws a), ''--bea_tune'', str_int (cli_bea_tune a),
        ''--bad_draws'', str_int (cli_bad_draws a), ''--bad_tune'', str_int (cli_bad_tune a),
        ''--seed'', str_int (cli_seed a)]"

definition plain_token :: "string \<Rightarrow> bool" where
  "plain_token s \<longleftrightarrow> s = [] \<or> hd s \<noteq> CHR ''-''"

definition float_token :: "(pyfloat \<Rightarrow> string) \<Rightarrow> pyfloat \<Rightarrow> bool" where
  "float_token fr x \<longleftrightarrow> py_float (fr x) = Some x \<and> classify bea_bad_parser (fr x) = Positional"

text \<open>
  The namespace that holds exactly the typed arguments: what \<open>args\<close> is, seen as
  \<open>argparse\<close>'s attribute table.
\<close>

definition cli_ns :: "cli_args \<Rightarrow> namespace" where
  "cli_ns a =
     [''--zircon'' \<mapsto> VStr (cli_zircon a), ''--tiepoints'' \<mapsto> VStr (cli_tiepoints a),
      ''--query'' \<mapsto> (case cli_query a of None \<Rightarrow> VNone | Some q \<Rightarrow> VStr q),
      ''--outdir'' \<mapsto> VStr (cli_outdir a), ''--max_span_ma'' \<mapsto> VFloat (cli_max_span_ma a),
      ''--depth_sigma_m'' \<mapsto> VFloat (cli_depth_sigma_m a),
      ''--no_bootstrap_prior'' \<mapsto> VBool (cli_no_bootstrap_prior a),
      ''--bea_draws'' \<mapsto> VInt (cli_bea_draws a), ''--bea_tune'' \<mapsto> VInt (cli_bea_tune a),
      ''--bad_draws'' \<mapsto> VInt (cli_bad_draws a), ''--bad_tune'' \<mapsto> VInt (cli_bad_tune a),
      ''--seed'' \<mapsto> VInt (cli_seed a)]"

subsection \<open>The pipeline\<close>

record cli_env =
  read_zircon :: "string \<Rightarrow> zircon_csv"
  read_tiepoints :: "string \<Rightarrow> tiepoint_csv"
  read_query :: "string \<Rightarrow> query_csv"
  env_rng :: "int \<Rightarrow> normal_stream"
  env_bea_sampler :: bea_sampler
  env_bad_sampler :: bad_sampler

text \<open>
  Line 38: \<open>groupby("ash_id")\<close>, keys in sorted order, rows in input order. Ash ids
  are read as strings and sorted as strings; pandas sorts a numeric \<open>ash_id\<close>
  column numerically.
\<close>

definition ash_groups :: "zircon_row list \<Rightarrow> (string \<times> zircon_row list) list" where
  "ash_groups zs = map (\<lambda>a. (a, filter (\<lambda>r. z_ash_id r = a) zs)) (sorted_list_of_set (set (map z_ash_id zs)))"

text \<open>Lines 39--48: the keyword arguments of \<open>fit_bea_for_ash\<close>; chains and
  \<open>target_accept\<close> keep their defaults.\<close>

definition bea_cfg_of :: "cli_args \<Rightarrow> real \<Rightarrow> bea_config" where
  "bea_cfg_of a mspan =
     \<lparr>use_bootstrap_prior = \<not> cli_no_bootstrap_prior a, bea_max_span_ma = mspan,
      bea_draws = cli_bea_draws a, bea_tune = cli_bea_tune a, bea_chains = 2,
      bea_target_accept = 0.9, bea_seed = cli_seed a\<rparr>"

text \<open>Lines 57--67.\<close>

definition bad_cfg_of :: "cli_args \<Rightarrow> real \<Rightarrow> bad_config" where
  "bad_cfg_of a dsig =
     \<lparr>depth_sigma_m = dsig, sedrate_logn_mu = ln 0.05, sedrate_logn_sigma = 1,
      bad_draws = cli_bad_draws a, bad_tune = cli_bad_tune a, bad_chains = 2,
      bad_target_accept = 0.9, bad_seed = cli_seed a\<rparr>"

text \<open>
  Lines 51--52: \<open>pd.DataFrame(rows).merge(data.tiepoints, on="ash_id", how="left")\<close>,
  then \<open>sort_values("depth_m")\<close> (taken stable). pandas would keep an estimate
  without a tie row, with a NaN depth; the model drops it. That case does not arise:
  \<open>read_inputs\<close> has dropped the grains of every ash bed without a tie row.
\<close>

record bea_row =
  br_result :: bea_result
  br_depth :: metres

definition merge_left_depth :: "bea_result list \<Rightarrow> tiepoint_row list \<Rightarrow> bea_row list" where
  "merge_left_depth rows ts =
     concat (map (\<lambda>r. map (\<lambda>u. \<lparr>br_result = r, br_depth = t_depth_m u\<rparr>) (filter (\<lambda>u. t_ash_id u = ash_id r) ts)) rows)"

text \<open>
  Lines 33--52: read the tables and the query depths, fit BEA per ash bed, merge with
  the tie points and sort by depth; lines 57--67: fit BAD on that table. When no ash bed
  has grains, \<open>pd.DataFrame([])\<close> has no column \<open>ash_id\<close> and the merge of line 51
  raises \<open>KeyError\<close>. The NaN query grid of an empty tie table is passed as the empty
  list: that case has no grains either and stops at line 51.
\<close>

definition cli_bea_stage :: "cli_env \<Rightarrow> cli_args \<Rightarrow> real \<Rightarrow> (real list option \<times> bea_row list) result" where
  "cli_bea_stage env a mspan =
     bindE (read_inputs (read_zircon env (cli_zircon a)) (read_tiepoints env (cli_tiepoints a))) (\<lambda>data.
     bindE (read_query_depths (cli_query a) (read_query env) (tiepoints data) 300) (\<lambda>qd.
     bindE (mapE (\<lambda>(aid, g). fit_bea_for_ash (env_rng env) (env_bea_sampler env) aid
                               (map z_age_ma g) (map z_sigma_ma g) (bea_cfg_of a mspan))
                 (ash_groups (zircon data))) (\<lambda>rows.
       if rows = [] then Inl (KeyError ''ash_id'')
       else Inr (qd, sort_key br_depth (merge_left_depth rows (tiepoints data))))))"

definition cli_pipeline :: "cli_env \<Rightarrow> cli_args \<Rightarrow> real \<Rightarrow> real \<Rightarrow> (bea_row list \<times> bad_outputs) result" where
  "cli_pipeline env a mspan dsig =
     bindE (cli_bea_stage env a mspan) (\<lambda>(qd, bea_df).
       bindE (fit_bad (env_bad_sampler env) (map br_depth bea_df) (map (e_mean \<circ> br_result) bea_df)
                (map (e_sd \<circ> br_result) bea_df) (case qd of Some q \<Rightarrow> q | None \<Rightarrow> []) (bad_cfg_of a dsig))
         (\<lambda>out. Inr (bea_df, out)))"

text \<open>\<open>main()\<close>: \<open>ap.parse_args()\<close> reads \<open>sys.argv[1:]\<close>.\<close>

definition cli_main :: "cli_env \<Rightarrow> string list \<Rightarrow> (bea_row list \<times> bad_outputs) result" where
  "cli_main env sys_argv =
     bindE (parse_args bea_bad_parser (drop 1 sys_argv)) (\<lambda>ns.
       (let a = cli_args_of ns
        in case (cli_max_span_ma a, cli_depth_sigma_m a) of
             (PFin mspan, PFin dsig) \<Rightarrow> cli_pipeline env a mspan dsig
           | _ \<Rightarrow> Inl NonFiniteFloat))"

subsection \<open>Lemmas\<close>

lemma classify_plain: "plain_token t \<Longrightarrow> classify sp t = Positional"
  by (auto simp: plain_token_def classify_def)

lemma classify_str_int: "classify bea_bad_parser (str_int i) = Positional"
proof (cases "i < 0")
  case True
  let ?d = "nat_digits (nat (- i))"
  have d: "?d \<noteq> []" "list_all is_digit ?d" "hd ?d \<noteq> CHR ''-''"
    using nat_digits_digits nat_digits_strip_valid [of "nat (- i)"] by (auto simp: list_all_iff is_digit_def)
  then obtain c cs where c: "?d = c # cs" "c \<noteq> CHR ''-''" by (cases ?d) auto
  have "negative_number_like (CHR ''-'' # ?d)" using d by (simp add: negative_number_like_def)
  then show ?thesis using True c by (simp add: str_int_def classify_def bea_bad_parser_def cli_opt_defs)
next
  case False
  have "hd (nat_digits (nat i)) \<noteq> CHR ''-''"
    using nat_digits_strip_valid [of "nat i"] by (auto simp: is_digit_def)
  then show ?thesis using False by (intro classify_plain) (simp add: plain_token_def str_int_def)
qed

lemma convert_str_int: "convert_arg StoreInt f (str_int i) = Inr (VInt i)"
  by (simp add: convert_arg_def py_int_str_int)

lemma classify_cli_flags:
  "classify bea_bad_parser ''--zircon'' = KnownOpt opt_zircon"
  "classify bea_bad_parser ''--tiepoints'' = KnownOpt opt_tiepoints"
  "classify bea_bad_parser ''--query'' = KnownOpt opt_query"
  "classify bea_bad_parser ''--outdir'' = KnownOpt opt_outdir"
  "classify bea_bad_parser ''--max_span_ma'' = KnownOpt opt_max_span_ma"
  "classify bea_bad_parser ''--depth_sigma_m'' = KnownOpt opt_depth_sigma_m"
  "classify bea_bad_parser ''--no_bootstrap_prior'' = KnownOpt opt_no_bootstrap_prior"
  "classify bea_bad_parser ''--bea_draws'' = KnownOpt opt_bea_draws"
  "classify bea_bad_parser ''--bea_tune'' = KnownOpt opt_bea_tune"
  "classify bea_bad_parser ''--bad_draws'' = KnownOpt opt_bad_draws"
  "classify bea_bad_parser ''--bad_tune'' = KnownOpt opt_bad_tune"
  "classify bea_bad_parser ''--seed'' = KnownOpt opt_seed"
  by (simp_all add: classify_def bea_bad_parser_def cli_opt_defs)

lemma ap_loop_cli:
  assumes "plain_token (cli_zircon a)" "plain_token (cli_tiepoints a)" "plain_token (cli_outdir a)"
    "case cli_query a of None \<Rightarrow> True | Some q \<Rightarrow> plain_token q"
    "float_token fr (cli_max_span_ma a)" "float_token fr (cli_depth_sigma_m a)"
  shows "ap_loop bea_bad_parser Map.empty [] (cli_argv fr a)
         = Inr ((Map.empty(''--zircon'' \<mapsto> VStr (cli_zircon a), ''--tiepoints'' \<mapsto> VStr (cli_tiepoints a)))
                ++ (case cli_query a of None \<Rightarrow> Map.empty | Some q \<Rightarrow> [''--query'' \<mapsto> VStr q])
                ++ [''--outdir'' \<mapsto> VStr (cli_outdir a), ''--max_span_ma'' \<mapsto> VFloat (cli_max_span_ma a),
                    ''--depth_sigma_m'' \<mapsto> VFloat (cli_depth_sigma_m a)]
                ++ (if cli_no_bootstrap_prior a then [''--no_bootstrap_prior'' \<mapsto> VBool True] else Map.empty)
                ++ [''--bea_draws'' \<mapsto> VInt (cli_bea_draws a), ''--bea_tune'' \<mapsto> VInt (cli_bea_tune a),
                    ''--bad_draws'' \<mapsto> VInt (cli_bad_draws a), ''--bad_tune'' \<mapsto> VInt (cli_bad_tune a),
                    ''--seed'' \<mapsto> VInt (cli_seed a)], [])"
  using assms
  by (cases "cli_query a"; cases "cli_no_bootstrap_prior a")
     (simp_all add: cli_argv_def classify_plain classify_str_int convert_str_int float_token_def
       classify_cli_flags cli_opt_defs convert_arg_def py_int_str_int map_add_def fun_eq_iff)

lemma val_fits_iff:
  "val_fits StoreStr v \<longleftrightarrow> (\<exists>s. v = VStr s)" "val_fits StoreFloat v \<longleftrightarrow> (\<exists>x. v = VFloat x)"
  "val_fits StoreInt v \<longleftrightarrow> (\<exists>i. v = VInt i)" "val_fits StoreTrue v \<longleftrightarrow> (\<exists>b. v = VBool b)"
  by (cases v; simp)+

lemma bea_bad_parser_distinct: "distinct (map a_flag bea_bad_parser)"
  by (simp add: bea_bad_parser_def cli_opt_defs)

lemma cli_ns_parsed:
  assumes "parse_args bea_bad_parser argv = Inr ns" "a \<in> set bea_bad_parser"
  shows "cli_ns (cli_args_of ns) (a_flag a) = ns (a_flag a)"
  using parse_args_value [OF assms(1) bea_bad_parser_distinct assms(2)] assms(2)
  by (auto simp: bea_bad_parser_def cli_opt_defs cli_ns_def cli_args_of_def val_fits_iff
      get_str_def get_opt_str_def get_float_def get_bool_def get_int_def)

lemma ash_groups_keys: "map fst (ash_groups zs) = sorted_list_of_set (z_ash_id ` set zs)"
  by (simp add: ash_groups_def comp_def)

lemma merge_left_depth_ids:
  assumes tied: "\<And>r. r \<in> set rows \<Longrightarrow> \<exists>u \<in> set ts. t_ash_id u = ash_id r"
  shows "(ash_id \<circ> br_result) ` set (merge_left_depth rows ts) = ash_id ` set rows"
proof
  show "(ash_id \<circ> br_result) ` set (merge_left_depth rows ts) \<subseteq> ash_id ` set rows"
    by (auto simp: merge_left_depth_def)
next
  show "ash_id ` set rows \<subseteq> (ash_id \<circ> br_result) ` set (merge_left_depth rows ts)"
  proof
    fix x assume "x \<in> ash_id ` set rows"
    then obtain r where r: "r \<in> set rows" "x = ash_id r" by blast
    obtain u where "u \<in> set ts" "t_ash_id u = ash_id r" using tied [OF r(1)] by blast
    then have "\<lparr>br_result = r, br_depth = t_depth_m u\<rparr> \<in> set (merge_left_depth rows ts)"
      using r(1) by (auto simp: merge_left_depth_def)
    then show "x \<in> (ash_id \<circ> br_result) ` set (merge_left_depth rows ts)" using r(2) by force
  qed
qed

subsection \<open>Properties\<close>

text \<open>
  C20 (roundtrip). Writing every argument on the command line, as the launcher does, and
  parsing it with the \<open>bea_bad\<close> option table gives back exactly those arguments, for
  any paths that do not start with \<open>-\<close> and any float formatting that \<open>float()\<close>
  reads back. No range is checked: a negative span or depth uncertainty is accepted.
\<close>

theorem cli_args_roundtrip:
  assumes "plain_token (cli_zircon a)" "plain_token (cli_tiepoints a)" "plain_token (cli_outdir a)"
    "case cli_query a of None \<Rightarrow> True | Some q \<Rightarrow> plain_token q"
    "float_token fr (cli_max_span_ma a)" "float_token fr (cli_depth_sigma_m a)"
  shows "\<exists>ns. parse_args bea_bad_parser (cli_argv fr a) = Inr ns \<and> cli_args_of ns = a"
  using parse_args_loop [OF ap_loop_cli [OF assms]]
  by (cases a; cases "cli_query a"; cases "cli_no_bootstrap_prior a")
     (simp_all add: bea_bad_parser_def cli_opt_defs cli_args_of_def get_str_def get_opt_str_def
        get_float_def get_bool_def get_int_def Let_def)
theorem cli_args_roundtrip_witness:
  "plain_token ''z.csv'' \<and> plain_token ''t.csv'' \<and> plain_token ''out''
   \<and> float_token (\<lambda>x. if x = PFin (- 1) then ''-1'' else ''0.03'') (PFin (- 1)) \<and> float_token (\<lambda>x. if x = PFin (- 1) then ''-1'' else ''0.03'') (PFin 0.03)
   \<and> (\<exists>ns. parse_args bea_bad_parser (cli_argv (\<lambda>x. if x = PFin (- 1) then ''-1'' else ''0.03'')
        \<lparr>cli_zircon = ''z.csv'', cli_tiepoints = ''t.csv'', cli_query = None, cli_outdir = ''out'',
        cli_max_span_ma = PFin (- 1), cli_depth_sigma_m = PFin 0.03, cli_no_bootstrap_prior = True,
        cli_bea_draws = 2000, cli_bea_tune = 2000, cli_bad_draws = 3000, cli_bad_tune = 3000, cli_seed = - 5\<rparr>) = Inr ns
        \<and> cli_args_of ns = \<lparr>cli_zircon = ''z.csv'', cli_tiepoints = ''t.csv'', cli_query = None, cli_outdir = ''out'',
        cli_max_span_ma = PFin (- 1), cli_depth_sigma_m = PFin 0.03, cli_no_bootstrap_prior = True,
        cli_bea_draws = 2000, cli_bea_tune = 2000, cli_bad_draws = 3000, cli_bad_tune = 3000, cli_seed = - 5\<rparr>)"
proof -
  have f: "float_token (\<lambda>x. if x = PFin (- 1) then ''-1'' else ''0.03'') (PFin (- 1))" "float_token (\<lambda>x. if x = PFin (- 1) then ''-1'' else ''0.03'') (PFin 0.03)"
    by (simp_all add: float_token_def py_float_def parse_decimal_def parse_mantissa_def py_strip_def
        py_isspace_def ascii_lower_def is_digit_def digits_value_def digit_val_def count_digits_def
        classify_def negative_number_like_def bea_bad_parser_def cli_opt_defs)
  have p: "plain_token ''z.csv''" "plain_token ''t.csv''" "plain_token ''out''" by (simp_all add: plain_token_def)
  show ?thesis
    using f p cli_args_roundtrip [of "\<lparr>cli_zircon = ''z.csv'', cli_tiepoints = ''t.csv'', cli_query = None, cli_outdir = ''out'', cli_max_span_ma = PFin (- 1), cli_depth_sigma_m = PFin 0.03, cli_no_bootstrap_prior = True, cli_bea_draws = 2000, cli_bea_tune = 2000, cli_bad_draws = 3000, cli_bad_tune = 3000, cli_seed = - 5\<rparr>" "(\<lambda>x. if x = PFin (- 1) then ''-1'' else ''0.03'')"] by simp
qed


text \<open>
  C24 (type). Whatever the command line, a successful \<open>parse_args\<close> yields a namespace
  in which every option of the table holds a value of its declared type (a string, a
  float, an int or a bool, or \<open>None\<close> for the optional \<open>--query\<close>) and nothing else
  is bound: the namespace is exactly the typed record \<open>args\<close> that \<open>main\<close> reads,
  so none of the attribute reads of lines 30--60 meets a value of another type.
\<close>

theorem parse_args_cli_typed:
  assumes "parse_args bea_bad_parser argv = Inr ns"
  shows "ns = cli_ns (cli_args_of ns)"
proof
  fix f
  show "ns f = cli_ns (cli_args_of ns) f"
  proof (cases "f \<in> a_flag ` set bea_bad_parser")
    case True
    then obtain a where "a \<in> set bea_bad_parser" "f = a_flag a" by blast
    then show ?thesis using cli_ns_parsed [OF assms] by simp
  next
    case False
    then have "cli_ns (cli_args_of ns) f = None" by (auto simp: cli_ns_def bea_bad_parser_def cli_opt_defs)
    then show ?thesis using parse_args_None [OF assms False] by simp
  qed
qed

theorem parse_args_cli_typed_witness:
  "parse_args bea_bad_parser [''--zircon'', ''z.csv'', ''--tiepoints'', ''t.csv'', ''--seed'', str_int 7]
     = Inr (cli_ns \<lparr>cli_zircon = ''z.csv'', cli_tiepoints = ''t.csv'', cli_query = None, cli_outdir = ''out'',
         cli_max_span_ma = PFin 1, cli_depth_sigma_m = PFin 0.03, cli_no_bootstrap_prior = False,
         cli_bea_draws = 2000, cli_bea_tune = 2000, cli_bad_draws = 3000, cli_bad_tune = 3000, cli_seed = 7\<rparr>)"
proof -
  have l: "ap_loop bea_bad_parser Map.empty [] [''--zircon'', ''z.csv'', ''--tiepoints'', ''t.csv'', ''--seed'', str_int 7]
     = Inr ([''--zircon'' \<mapsto> VStr ''z.csv'', ''--tiepoints'' \<mapsto> VStr ''t.csv'', ''--seed'' \<mapsto> VInt 7], [])"
    by (simp add: classify_cli_flags classify_plain plain_token_def classify_str_int convert_str_int
        convert_arg_def py_int_str_int cli_opt_defs)
  have "\<exists>ns. parse_args bea_bad_parser [''--zircon'', ''z.csv'', ''--tiepoints'', ''t.csv'', ''--seed'', str_int 7] = Inr ns
     \<and> cli_args_of ns = \<lparr>cli_zircon = ''z.csv'', cli_tiepoints = ''t.csv'', cli_query = None, cli_outdir = ''out'',
         cli_max_span_ma = PFin 1, cli_depth_sigma_m = PFin 0.03, cli_no_bootstrap_prior = False,
         cli_bea_draws = 2000, cli_bea_tune = 2000, cli_bad_draws = 3000, cli_bad_tune = 3000, cli_seed = 7\<rparr>"
    unfolding parse_args_loop [OF l] by (simp add: cli_opt_defs bea_bad_parser_def cli_args_of_def get_str_def
        get_opt_str_def get_float_def get_bool_def get_int_def Let_def)
  then obtain ns where p: "parse_args bea_bad_parser [''--zircon'', ''z.csv'', ''--tiepoints'', ''t.csv'', ''--seed'', str_int 7] = Inr ns"
    and r: "cli_args_of ns = \<lparr>cli_zircon = ''z.csv'', cli_tiepoints = ''t.csv'', cli_query = None, cli_outdir = ''out'',
         cli_max_span_ma = PFin 1, cli_depth_sigma_m = PFin 0.03, cli_no_bootstrap_prior = False,
         cli_bea_draws = 2000, cli_bea_tune = 2000, cli_bad_draws = 3000, cli_bad_tune = 3000, cli_seed = 7\<rparr>" by blast
  show ?thesis using parse_args_cli_typed [OF p] p r by simp
qed

end
