(* ===== verification/GUI.thy ===== *)
theory GUI
  imports CLI
begin

text \<open>
  GUILauncher (spec \S6), \<open>app_gui.py\<close>: the field validation of \<open>_parse_int\<close> and
  \<open>_parse_float\<close>, and \<open>run_pipeline\<close>, which checks the input paths, validates the
  fields, builds \<open>sys.argv\<close> and calls \<open>bea_bad.cli.main\<close>, reporting an
  \<open>Exception\<close> in a message box. Argparse exits with \<open>SystemExit\<close>, which is not an
  \<open>Exception\<close>: it escapes the handler. The Tk widgets, dialogs and the window layout
  (lines 1--21, 105--178) are I/O and not modelled; the field contents are the state,
  the file-existence test and the formatting \<open>str(float)\<close> are parameters.
  Messages quoting a bound are abbreviated (\<open>>=\<close> for the source's \<open>\<ge>\<close>).
\<close>

subsection \<open>Field validation\<close>

text \<open>Lines 23--30.\<close>

definition gui_parse_int :: "string \<Rightarrow> string \<Rightarrow> int \<Rightarrow> int result" where
  "gui_parse_int name value min_v =
     (case py_int value of
        None \<Rightarrow> Inl (ValueError (name @ '' must be an integer.''))
      | Some v \<Rightarrow> if v < min_v then Inl (ValueError (name @ '' must be >= '' @ str_int min_v @ ''.'')) else Inr v)"

text \<open>Lines 33--42.\<close>

definition gui_parse_float :: "string \<Rightarrow> string \<Rightarrow> real option \<Rightarrow> real option \<Rightarrow> pyfloat result" where
  "gui_parse_float name value min_v max_v =
     (case py_float value of
        None \<Rightarrow> Inl (ValueError (name @ '' must be a number.''))
      | Some v \<Rightarrow>
          if (case min_v of Some m \<Rightarrow> py_lt v m | None \<Rightarrow> False)
          then Inl (ValueError (name @ '' must be >= its minimum.''))
          else if (case max_v of Some m \<Rightarrow> py_gt v m | None \<Rightarrow> False)
          then Inl (ValueError (name @ '' must be <= its maximum.''))
          else Inr v)"

subsection \<open>The Run button\<close>

text \<open>The Tk variables read by \<open>run_pipeline\<close> (lines 110--124).\<close>

record gui_vars =
  zircon_var :: string
  tiepoints_var :: string
  outdir_var :: string
  bea_draws_var :: string
  bea_tune_var :: string
  bad_draws_var :: string
  bad_tune_var :: string
  max_span_var :: string
  depth_sigma_var :: string
  target_accept_var :: string
  no_bootstrap_var :: int

record gui_params =
  g_bea_draws :: int
  g_bea_tune :: int
  g_bad_draws :: int
  g_bad_tune :: int
  g_max_span :: pyfloat
  g_depth_sigma :: pyfloat
  g_target_accept :: pyfloat

text \<open>Lines 59--66, in order: the first invalid field raises.\<close>

definition gui_params_of :: "gui_vars \<Rightarrow> gui_params result" where
  "gui_params_of g =
     bindE (gui_parse_int ''BEA draws'' (bea_draws_var g) 100) (\<lambda>bd.
     bindE (gui_parse_int ''BEA tune'' (bea_tune_var g) 100) (\<lambda>bt.
     bindE (gui_parse_int ''BAD draws'' (bad_draws_var g) 100) (\<lambda>xd.
     bindE (gui_parse_int ''BAD tune'' (bad_tune_var g) 100) (\<lambda>xt.
     bindE (gui_parse_float ''Max span (Ma)'' (max_span_var g) (Some 0) (Some 100)) (\<lambda>ms.
     bindE (gui_parse_float ''Depth sigma (m)'' (depth_sigma_var g) (Some 0) (Some 10)) (\<lambda>ds.
     bindE (gui_parse_float ''target_accept'' (target_accept_var g) (Some 0.6) (Some 0.999)) (\<lambda>ta.
       Inr \<lparr>g_bea_draws = bd, g_bea_tune = bt, g_bad_draws = xd, g_bad_tune = xt,
            g_max_span = ms, g_depth_sigma = ds, g_target_accept = ta\<rparr>)))))))"

text \<open>Lines 74--94: \<open>sys.argv\<close>.\<close>

definition gui_argv :: "(pyfloat \<Rightarrow> string) \<Rightarrow> string \<Rightarrow> string \<Rightarrow> string \<Rightarrow> gui_params \<Rightarrow> bool \<Rightarrow> string list" where
  "gui_argv fr zircon_p tiepoints_p outdir_p p no_bootstrap =
     [''bea_bad'', ''--zircon'', zircon_p, ''--tiepoints'', tiepoints_p, ''--outdir'', outdir_p,
      ''--bea_draws'', str_int (g_bea_draws p), ''--bea_tune'', str_int (g_bea_tune p),
      ''--bad_draws'', str_int (g_bad_draws p), ''--bad_tune'', str_int (g_bad_tune p),
      ''--max_span_ma'', fr (g_max_span p), ''--depth_sigma_m'', fr (g_depth_sigma p)]
     @ [''--target_accept'', fr (g_target_accept p)]
     @ (if no_bootstrap then [''--no_bootstrap_prior''] else [])"

datatype gui_outcome =
    ShowError string string   \<comment> \<open>\<open>messagebox.showerror(title, message)\<close>\<close>
  | ShowInfo string string    \<comment> \<open>\<open>messagebox.showinfo(title, message)\<close>\<close>
  | Uncaught py_error         \<comment> \<open>an exception that escapes \<open>except Exception\<close>\<close>

text \<open>\<open>str(e)\<close> of a caught exception (the launcher's own messages verbatim).\<close>

fun err_str :: "py_error \<Rightarrow> string" where
  "err_str (ValueError m) = m"
| "err_str (MissingColumns f) = f"
| "err_str e = ''error''"

text \<open>
  Lines 45--102. \<open>SystemExit\<close> raised by argparse is not caught; every other
  exception of \<open>main\<close> is shown.
\<close>

definition run_pipeline :: "(pyfloat \<Rightarrow> string) \<Rightarrow> (string \<Rightarrow> bool) \<Rightarrow> cli_env \<Rightarrow> gui_vars \<Rightarrow> gui_outcome" where
  "run_pipeline fr path_exists env g =
     (let zircon_p = py_strip (zircon_var g); tiepoints_p = py_strip (tiepoints_var g);
          outdir_p = (if py_strip (outdir_var g) = [] then ''out'' else py_strip (outdir_var g))
      in if zircon_p = [] \<or> \<not> path_exists zircon_p
         then ShowError ''Missing input'' ''Please select a valid zircon CSV file.''
         else if tiepoints_p = [] \<or> \<not> path_exists tiepoints_p
         then ShowError ''Missing input'' ''Please select a valid tiepoints CSV file.''
         else (case gui_params_of g of
                 Inl e \<Rightarrow> ShowError ''Error'' (err_str e)
               | Inr p \<Rightarrow>
                   (case cli_main env (gui_argv fr zircon_p tiepoints_p outdir_p p (no_bootstrap_var g \<noteq> 0)) of
                      Inl (ArgparseError m) \<Rightarrow> Uncaught (ArgparseError m)
                    | Inl e \<Rightarrow> ShowError ''Error'' (err_str e)
                    | Inr _ \<Rightarrow> ShowInfo ''Done'' (''Finished! Outputs saved to: '' @ outdir_p))))"

subsection \<open>Lemmas\<close>

lemma classify_target_accept: "classify bea_bad_parser ''--target_accept'' = UnknownOpt"
  by (simp add: classify_def bea_bad_parser_def cli_opt_defs negative_number_like_def)

lemma cli_main_gui_argv:
  "\<exists>m. cli_main env (gui_argv fr z t od p nb) = Inl (ArgparseError m)"
proof -
  have "''--target_accept'' \<in> set (drop 1 (gui_argv fr z t od p nb))" by (simp add: gui_argv_def)
  then obtain m where "parse_args bea_bad_parser (drop 1 (gui_argv fr z t od p nb)) = Inl (ArgparseError m)"
    using parse_args_unknown classify_target_accept by blast
  then show ?thesis by (simp add: cli_main_def)
qed

lemma gui_defaults_params:
  "gui_params_of \<lparr>zircon_var = ''z.csv'', tiepoints_var = ''t.csv'', outdir_var = ''out'', bea_draws_var = ''2000'',
        bea_tune_var = ''2000'', bad_draws_var = ''3000'', bad_tune_var = ''3000'', max_span_var = ''1.0'',
        depth_sigma_var = ''0.03'', target_accept_var = ''0.9'', no_bootstrap_var = 0\<rparr>
   = Inr \<lparr>g_bea_draws = 2000, g_bea_tune = 2000, g_bad_draws = 3000, g_bad_tune = 3000,
        g_max_span = PFin 1, g_depth_sigma = PFin 0.03, g_target_accept = PFin 0.9\<rparr>"
  by (simp add: gui_params_of_def gui_parse_int_def gui_parse_float_def py_int_def py_float_def
      parse_decimal_def parse_mantissa_def py_strip_def py_isspace_def ascii_lower_def is_digit_def
      digits_value_def digit_val_def count_digits_def)

subsection \<open>Properties\<close>

text \<open>
  C21 (safety). Whenever both input files exist and every field is valid, the Run
  button ends in an exception that escapes the handler: the launcher always passes
  \<open>--target_accept\<close>, which the \<open>bea_bad\<close> command does not define, so argparse exits
  with \<open>SystemExit(2)\<close>, and \<open>except Exception\<close> does not catch it. No pipeline runs.
\<close>

theorem run_pipeline_uncaught_exit:
  assumes "py_strip (zircon_var g) \<noteq> []" "path_exists (py_strip (zircon_var g))"
    and "py_strip (tiepoints_var g) \<noteq> []" "path_exists (py_strip (tiepoints_var g))"
    and "gui_params_of g = Inr p"
  shows "\<exists>m. run_pipeline fr path_exists env g = Uncaught (ArgparseError m)"
proof -
  obtain m where "cli_main env (gui_argv fr (py_strip (zircon_var g)) (py_strip (tiepoints_var g))
                     (if py_strip (outdir_var g) = [] then ''out'' else py_strip (outdir_var g)) p
                     (no_bootstrap_var g \<noteq> 0)) = Inl (ArgparseError m)"
    using cli_main_gui_argv by blast
  then show ?thesis using assms by (simp add: run_pipeline_def Let_def)
qed

theorem run_pipeline_uncaught_exit_witness:
  "py_strip ''z.csv'' \<noteq> [] \<and> py_strip ''t.csv'' \<noteq> []
   \<and> gui_params_of \<lparr>zircon_var = ''z.csv'', tiepoints_var = ''t.csv'', outdir_var = ''out'', bea_draws_var = ''2000'',
        bea_tune_var = ''2000'', bad_draws_var = ''3000'', bad_tune_var = ''3000'', max_span_var = ''1.0'',
        depth_sigma_var = ''0.03'', target_accept_var = ''0.9'', no_bootstrap_var = 0\<rparr> = Inr \<lparr>g_bea_draws = 2000, g_bea_tune = 2000, g_bad_draws = 3000, g_bad_tune = 3000,
        g_max_span = PFin 1, g_depth_sigma = PFin 0.03, g_target_accept = PFin 0.9\<rparr>
   \<and> (\<exists>m. run_pipeline (\<lambda>x. ''1.0'') (\<lambda>f. True) \<lparr>read_zircon = \<lambda>f. \<lparr>z_columns = [], z_rows = []\<rparr>, read_tiepoints = \<lambda>f. \<lparr>t_columns = [], t_rows = []\<rparr>,
        read_query = \<lambda>f. \<lparr>q_columns = [], q_depths = []\<rparr>, env_rng = \<lambda>s b i. 0,
        env_bea_sampler = \<lambda>m c. Inr [], env_bad_sampler = \<lambda>m c. Inr []\<rparr>
          \<lparr>zircon_var = ''z.csv'', tiepoints_var = ''t.csv'', outdir_var = ''out'', bea_draws_var = ''2000'',
        bea_tune_var = ''2000'', bad_draws_var = ''3000'', bad_tune_var = ''3000'', max_span_var = ''1.0'',
        depth_sigma_var = ''0.03'', target_accept_var = ''0.9'', no_bootstrap_var = 0\<rparr> = Uncaught (ArgparseError m))"
proof -
  have s: "py_strip ''z.csv'' = ''z.csv''" "py_strip ''t.csv'' = ''t.csv''" by (simp_all add: py_strip_def py_isspace_def)
  show ?thesis
    using s gui_defaults_params run_pipeline_uncaught_exit [of "\<lparr>zircon_var = ''z.csv'', tiepoints_var = ''t.csv'', outdir_var = ''out'', bea_draws_var = ''2000'', bea_tune_var = ''2000'', bad_draws_var = ''3000'', bad_tune_var = ''3000'', max_span_var = ''1.0'', depth_sigma_var = ''0.03'', target_accept_var = ''0.9'', no_bootstrap_var = 0\<rparr>" "\<lambda>f. True"
        "\<lparr>g_bea_draws = 2000, g_bea_tune = 2000, g_bad_draws = 3000, g_bad_tune = 3000, g_max_span = PFin 1, g_depth_sigma = PFin 0.03, g_target_accept = PFin 0.9\<rparr>" "\<lambda>x. ''1.0''" "\<lparr>read_zircon = \<lambda>f. \<lparr>z_columns = [], z_rows = []\<rparr>, read_tiepoints = \<lambda>f. \<lparr>t_columns = [], t_rows = []\<rparr>, read_query = \<lambda>f. \<lparr>q_columns = [], q_depths = []\<rparr>, env_rng = \<lambda>s b i. 0, env_bea_sampler = \<lambda>m c. Inr [], env_bad_sampler = \<lambda>m c. Inr []\<rparr>"]
      by simp
qed

text \<open>
  C22 (safety). The range checks of \<open>_parse_float\<close> do not reject NaN: \<open>float("nan")\<close>
  compares false with every bound, so the field \<open>nan\<close> passes any range.
\<close>

theorem gui_parse_float_accepts_nan: "gui_parse_float name ''nan'' min_v max_v = Inr PNaN"
  by (cases min_v; cases max_v)
     (simp_all add: gui_parse_float_def py_float_def py_strip_def py_isspace_def ascii_lower_def)

text \<open>
  The bounds the launcher checks: an accepted integer field is the integer the text
  denotes and is at least the minimum; an accepted finite float field lies within its
  bounds.
\<close>

lemma gui_parse_bounds:
  "(gui_parse_int name v m = Inr k \<longrightarrow> py_int v = Some k \<and> m \<le> k)
   \<and> (gui_parse_float name' w (Some lo) (Some hi) = Inr (PFin x) \<longrightarrow> py_float w = Some (PFin x) \<and> lo \<le> x \<and> x \<le> hi)"
  by (auto simp: gui_parse_int_def gui_parse_float_def split: option.splits if_splits)

end
