(* ===== verification/Outputs.thy ===== *)
theory Outputs
  imports CLI
begin

text \<open>
  What \<open>main\<close> of \<open>bea_bad/cli.py\<close> does to the file system and the terminal, and the
  figure of \<open>bea_bad/plot.py\<close>: a run is a list of effects (directories created, files
  written with their contents, lines printed) together with its result, so that the
  order of the effects and what a failing run has already written are part of the model.
  Paths are joined as \<open>posixpath.join\<close> joins them. Drawing the figure is not modelled:
  the figure is the data \<open>plot_age_depth\<close> hands to matplotlib.
\<close>

subsection \<open>Paths and effects\<close>

text \<open>\<open>os.path.join(a, b)\<close> (\<open>posixpath\<close>): an absolute \<open>b\<close> replaces \<open>a\<close>.\<close>

definition os_path_join :: "string \<Rightarrow> string \<Rightarrow> string" where
  "os_path_join a b =
     (if b \<noteq> [] \<and> hd b = CHR ''/'' then b
      else if a = [] \<or> last a = CHR ''/'' then a @ b
      else a @ ''/'' @ b)"

text \<open>\<open>plot.py\<close> lines 18--41: the shaded HDI band, the mean curve and the tie points with
  their \<open>1.96 sd\<close> error bars, the inverted depth axis, the axis labels and the dpi.\<close>

record age_depth_figure =
  fig_band :: "(metres \<times> ma \<times> ma) list"
  fig_line :: "(ma \<times> metres) list"
  fig_errorbars :: "(ma \<times> metres \<times> real) list"
  fig_y_inverted :: bool
  fig_xlabel :: string
  fig_ylabel :: string
  fig_dpi :: nat

datatype cli_effect =
    MakeDirs string
  | WriteBeaCsv string "bea_row list"
  | WriteNetcdf string "bad_draw list"
  | WriteTieCsv string "tie_row list"
  | WriteQueryCsv string "query_row list"
  | SaveFigure string age_depth_figure
  | PrintLine string

text \<open>\<open>utils.py\<close> lines 56--58: \<open>os.makedirs(path, exist_ok=True)\<close>.\<close>

definition ensure_dir :: "string \<Rightarrow> cli_effect" where
  "ensure_dir path = MakeDirs path"

subsection \<open>The figure\<close>

text \<open>\<open>plot_age_depth\<close> (\<open>plot.py\<close> lines 9--45): its effects and the returned path.\<close>

definition plot_age_depth ::
  "tie_row list \<Rightarrow> query_row list \<Rightarrow> string \<Rightarrow> string \<Rightarrow> bool \<Rightarrow> cli_effect list \<times> string" where
  "plot_age_depth tie_df query_df outdir filename invert_y =
     (let fig_path = os_path_join outdir filename;
          fig = \<lparr>fig_band = map (\<lambda>r. (q_depth_m r, q_age_low_ma r, q_age_high_ma r)) query_df,
                 fig_line = map (\<lambda>r. (q_age_mean_ma r, q_depth_m r)) query_df,
                 fig_errorbars = map (\<lambda>r. (t_eruption_obs_ma r, t_depth_obs_m r, 1.96 * t_eruption_obs_sd_ma r))
                                   tie_df,
                 fig_y_inverted = invert_y, fig_xlabel = ''Age (Ma)'', fig_ylabel = ''Depth (m)'', fig_dpi = 200\<rparr>
      in ([ensure_dir outdir, SaveFigure fig_path fig], fig_path))"

subsection \<open>The run of main\<close>

text \<open>
  \<open>fit_bad\<close> with its effects (\<open>bad.py\<close> lines 48--91): the output directory first,
  then, once the engine has returned, the posterior written to \<open>bad_posterior.nc\<close>
  before the summaries are computed.
\<close>

definition fit_bad_run ::
  "bad_sampler \<Rightarrow> metres list \<Rightarrow> ma list \<Rightarrow> real list \<Rightarrow> metres list \<Rightarrow> bad_config \<Rightarrow> string
   \<Rightarrow> cli_effect list \<times> (bad_outputs \<times> string) result" where
  "fit_bad_run sampler tie_depths_m tie_age_mean_ma tie_age_sd_ma query_depths_m cfg outdir =
     (case bindE (bad_model_of tie_depths_m tie_age_mean_ma tie_age_sd_ma cfg) (\<lambda>(m, d_obs, E_obs, E_sd).
             bindE (sampler m cfg) (\<lambda>post. Inr (post, d_obs, E_obs, E_sd))) of
        Inl e \<Rightarrow> ([ensure_dir outdir], Inl e)
      | Inr (post, d_obs, E_obs, E_sd) \<Rightarrow>
          (let posterior_path = os_path_join outdir ''bad_posterior.nc''
           in ([ensure_dir outdir, WriteNetcdf posterior_path post],
               bindE (bad_summaries post query_depths_m d_obs E_obs E_sd) (\<lambda>out. Inr (out, posterior_path)))))"

text \<open>
  \<open>main()\<close> (\<open>cli.py\<close> lines 30--81): parse, create the output directory, fit BEA and
  write its table, fit BAD, write both summary tables, draw the figure, print the paths.
\<close>

definition main_run :: "cli_env \<Rightarrow> string list \<Rightarrow> cli_effect list \<times> unit result" where
  "main_run env sys_argv =
     (case parse_args bea_bad_parser (drop 1 sys_argv) of
        Inl e \<Rightarrow> ([], Inl e)
      | Inr ns \<Rightarrow>
          (let a = cli_args_of ns; outdir = cli_outdir a; e0 = [ensure_dir outdir]
           in case (cli_max_span_ma a, cli_depth_sigma_m a) of
                (PFin mspan, PFin dsig) \<Rightarrow>
                  (case cli_bea_stage env a mspan of
                     Inl e \<Rightarrow> (e0, Inl e)
                   | Inr (qd, bea_df) \<Rightarrow>
                       (let bea_path = os_path_join outdir ''bea_eruption_age_summary.csv'';
                            e1 = e0 @ [WriteBeaCsv bea_path bea_df];
                            (e2, r) = fit_bad_run (env_bad_sampler env) (map br_depth bea_df)
                                        (map (e_mean \<circ> br_result) bea_df) (map (e_sd \<circ> br_result) bea_df)
                                        (case qd of Some q \<Rightarrow> q | None \<Rightarrow> []) (bad_cfg_of a dsig) outdir
                        in case r of
                             Inl e \<Rightarrow> (e1 @ e2, Inl e)
                           | Inr (bad_out, posterior_path) \<Rightarrow>
                               (let tie_path = os_path_join outdir ''tiepoint_summary.csv'';
                                    query_path = os_path_join outdir ''query_age_summary.csv'';
                                    (e3, fig_path) = plot_age_depth (tie_summary bad_out) (query_summary bad_out)
                                                       outdir ''age_depth_model.png'' True
                                in (e1 @ e2 @ [WriteTieCsv tie_path (tie_summary bad_out),
                                               WriteQueryCsv query_path (query_summary bad_out)] @ e3
                                    @ map PrintLine [''Done.'', ''BEA summary: '' @ bea_path,
                                        ''BAD posterior: '' @ posterior_path, ''Tie summary: '' @ tie_path,
                                        ''Query summary: '' @ query_path, ''Figure: '' @ fig_path],
                                    Inr ()))))
              | _ \<Rightarrow> (e0, Inl NonFiniteFloat)))"

text \<open>The files a run has written, in order.\<close>

fun written_file :: "cli_effect \<Rightarrow> string option" where
  "written_file (WriteBeaCsv p _) = Some p"
| "written_file (WriteNetcdf p _) = Some p"
| "written_file (WriteTieCsv p _) = Some p"
| "written_file (WriteQueryCsv p _) = Some p"
| "written_file (SaveFigure p _) = Some p"
| "written_file _ = None"

definition written_files :: "cli_effect list \<Rightarrow> string list" where
  "written_files tr = List.map_filter written_file tr"

subsection \<open>Lemmas\<close>

text \<open>The result of \<open>fit_bad_run\<close> is the result of \<open>fit_bad\<close>, with the posterior path.\<close>

lemma fit_bad_run_result:
  "snd (fit_bad_run sampler d E sd q cfg outdir)
   = bindE (fit_bad sampler d E sd q cfg) (\<lambda>out. Inr (out, os_path_join outdir ''bad_posterior.nc''))"
proof (cases "bad_model_of d E sd cfg")
  case (Inr p)
  obtain m d' E' sd' where p: "p = (m, d', E', sd')" by (cases p) auto
  show ?thesis
    using Inr by (cases "sampler m cfg") (simp_all add: fit_bad_run_def fit_bad_def p Let_def)
qed (simp add: fit_bad_run_def fit_bad_def)

lemma fit_bad_run_Inr:
  assumes "bad_model_of d E sd cfg = Inr (m0, d', E', sd')" "sampler m0 cfg = Inr post"
    "bad_summaries post q d' E' sd' = Inr out"
  shows "fit_bad_run sampler d E sd q cfg outdir
         = ([MakeDirs outdir, WriteNetcdf (os_path_join outdir ''bad_posterior.nc'') post],
            Inr (out, os_path_join outdir ''bad_posterior.nc''))"
  using assms by (simp add: fit_bad_run_def ensure_dir_def Let_def)

text \<open>Forgetting the effects, a run of \<open>main\<close> fails exactly when \<open>cli_main\<close> does.\<close>

lemma main_run_cli_main: "snd (main_run env argv) = bindE (cli_main env argv) (\<lambda>_. Inr ())"
proof (cases "parse_args bea_bad_parser (drop 1 argv)")
  case (Inr ns)
  note parsed = this
  let ?a = "cli_args_of ns"
  show ?thesis
  proof (cases "\<exists>mspan dsig. cli_max_span_ma ?a = PFin mspan \<and> cli_depth_sigma_m ?a = PFin dsig")
    case True
    then obtain mspan dsig where f: "cli_max_span_ma ?a = PFin mspan" "cli_depth_sigma_m ?a = PFin dsig" by blast
    show ?thesis
    proof (cases "cli_bea_stage env ?a mspan")
      case (Inr s)
      obtain qd bea_df where s: "s = (qd, bea_df)" by (cases s) auto
      let ?r = "fit_bad_run (env_bad_sampler env) (map br_depth bea_df) (map (e_mean \<circ> br_result) bea_df)
                  (map (e_sd \<circ> br_result) bea_df) (case qd of Some q \<Rightarrow> q | None \<Rightarrow> [])
                  (bad_cfg_of ?a dsig) (cli_outdir ?a)"
      obtain e2 r where r: "?r = (e2, r)" by (cases ?r) auto
      let ?fb = "fit_bad (env_bad_sampler env) (map br_depth bea_df) (map (e_mean \<circ> br_result) bea_df)
                  (map (e_sd \<circ> br_result) bea_df) (case qd of Some q \<Rightarrow> q | None \<Rightarrow> [])
                  (bad_cfg_of ?a dsig)"
      have rr: "r = bindE ?fb (\<lambda>out. Inr (out, os_path_join (cli_outdir ?a) ''bad_posterior.nc''))"
        using fit_bad_run_result [where sampler = "env_bad_sampler env"] r by (metis snd_conv)
      have st: "cli_bea_stage env ?a mspan = Inr (qd, bea_df)" using Inr s by simp
      show ?thesis
      proof (cases ?fb)
        case (Inl e)
        then show ?thesis using parsed f st r rr
          by (simp add: main_run_def cli_main_def cli_pipeline_def Let_def)
      next
        case (Inr out)
        then show ?thesis using parsed f st r rr
          by (simp add: main_run_def cli_main_def cli_pipeline_def Let_def plot_age_depth_def)
      qed
    qed (use parsed f in \<open>simp add: main_run_def cli_main_def cli_pipeline_def Let_def\<close>)
  next
    case False
    then show ?thesis using parsed
      by (auto simp: main_run_def cli_main_def Let_def split: pyfloat.split)
  qed
qed (simp add: main_run_def cli_main_def)

text \<open>
  A run whose BAD stage fails has already created the output directory and written the
  BEA table: the failure of \<open>fit_bad\<close> (fewer than two tie points, an engine error)
  leaves \<open>bea_eruption_age_summary.csv\<close> behind.
\<close>

lemma main_run_bad_error_partial:
  assumes "parse_args bea_bad_parser (drop 1 argv) = Inr ns"
    and "cli_max_span_ma (cli_args_of ns) = PFin mspan" "cli_depth_sigma_m (cli_args_of ns) = PFin dsig"
    and "cli_bea_stage env (cli_args_of ns) mspan = Inr (qd, bea_df)"
    and "fit_bad (env_bad_sampler env) (map br_depth bea_df) (map (e_mean \<circ> br_result) bea_df)
           (map (e_sd \<circ> br_result) bea_df) (case qd of Some q \<Rightarrow> q | None \<Rightarrow> [])
           (bad_cfg_of (cli_args_of ns) dsig) = Inl e"
  shows "\<exists>tr. main_run env argv
           = ([MakeDirs (cli_outdir (cli_args_of ns)),
               WriteBeaCsv (os_path_join (cli_outdir (cli_args_of ns)) ''bea_eruption_age_summary.csv'') bea_df] @ tr,
              Inl e)"
proof -
  let ?r = "fit_bad_run (env_bad_sampler env) (map br_depth bea_df) (map (e_mean \<circ> br_result) bea_df)
              (map (e_sd \<circ> br_result) bea_df) (case qd of Some q \<Rightarrow> q | None \<Rightarrow> [])
              (bad_cfg_of (cli_args_of ns) dsig) (cli_outdir (cli_args_of ns))"
  obtain e2 r where r: "?r = (e2, r)" by (cases ?r) auto
  have "r = Inl e" using fit_bad_run_result [where sampler = "env_bad_sampler env"] r assms(5)
    by (metis bindE_Inl snd_conv)
  then show ?thesis using assms(1-4) r by (simp add: main_run_def Let_def ensure_dir_def)
qed

subsection \<open>Properties\<close>

text \<open>
  C23 (liveness). A run of \<open>main\<close> whose command line parses, whose float options are
  finite, whose BEA stage succeeds and whose BAD engine returns draws meeting its
  contract, finishes: it creates the output directory first, writes the five output
  files in the code's order (the BEA table, the posterior, the tie and query tables,
  the figure), all inside \<open>--outdir\<close>, and ends by printing the figure's path.
\<close>

theorem main_run_writes_outputs:
  assumes "parse_args bea_bad_parser (drop 1 argv) = Inr ns"
    and "cli_max_span_ma (cli_args_of ns) = PFin mspan" "cli_depth_sigma_m (cli_args_of ns) = PFin dsig"
    and "cli_bea_stage env (cli_args_of ns) mspan = Inr (qd, bea_df)"
    and "bad_model_of (map br_depth bea_df) (map (e_mean \<circ> br_result) bea_df) (map (e_sd \<circ> br_result) bea_df)
           (bad_cfg_of (cli_args_of ns) dsig) = Inr (m0, d', E', sd')"
    and "env_bad_sampler env m0 (bad_cfg_of (cli_args_of ns) dsig) = Inr post"
    and "post_ok (length d') post"
  shows "\<exists>tr. main_run env argv = (tr, Inr ())
           \<and> hd tr = MakeDirs (cli_outdir (cli_args_of ns))
           \<and> written_files tr = map (os_path_join (cli_outdir (cli_args_of ns)))
                [''bea_eruption_age_summary.csv'', ''bad_posterior.nc'', ''tiepoint_summary.csv'',
                 ''query_age_summary.csv'', ''age_depth_model.png'']
           \<and> last tr = PrintLine (''Figure: '' @ os_path_join (cli_outdir (cli_args_of ns)) ''age_depth_model.png'')"
proof -
  obtain out where "fit_bad (env_bad_sampler env) (map br_depth bea_df) (map (e_mean \<circ> br_result) bea_df)
      (map (e_sd \<circ> br_result) bea_df) (case qd of Some q \<Rightarrow> q | None \<Rightarrow> []) (bad_cfg_of (cli_args_of ns) dsig) = Inr out"
    using fit_bad_eval [where sampler = "env_bad_sampler env", OF assms(5,6,7)] by blast
  then have "bad_summaries post (case qd of Some q \<Rightarrow> q | None \<Rightarrow> []) d' E' sd' = Inr out"
    using assms(5,6) by (simp add: fit_bad_def)
  from fit_bad_run_Inr [where sampler = "env_bad_sampler env", OF assms(5,6) this]
  show ?thesis using assms(1-4)
    by (simp add: main_run_def Let_def plot_age_depth_def ensure_dir_def written_files_def)
qed

theorem main_run_writes_outputs_witness:
  "\<exists>tr. main_run \<lparr>read_zircon = \<lambda>p. \<lparr>z_columns = [''ash_id'', ''age_ma'', ''sigma_ma''],
        z_rows = [\<lparr>z_ash_id = ''A'', z_age_ma = 2.1, z_sigma_ma = 0.05, z_is_discordant = None\<rparr>,
                  \<lparr>z_ash_id = ''B'', z_age_ma = 2.5, z_sigma_ma = 0.05, z_is_discordant = None\<rparr>]\<rparr>,
      read_tiepoints = \<lambda>p. \<lparr>t_columns = [''ash_id'', ''depth_m''],
        t_rows = [\<lparr>t_ash_id = ''A'', t_depth_m = 10\<rparr>, \<lparr>t_ash_id = ''B'', t_depth_m = 20\<rparr>]\<rparr>,
      read_query = \<lambda>p. \<lparr>q_columns = [''depth_m''], q_depths = [15]\<rparr>,
      env_rng = \<lambda>s b i. 0, env_bea_sampler = \<lambda>m c. Inr [2],
      env_bad_sampler = \<lambda>m c. Inr [\<lparr>d_true = [10, 20], age0 = 2, rates = [1/10]\<rparr>]\<rparr>
       [''bea_bad'', ''--zircon'', ''z.csv'', ''--tiepoints'', ''t.csv'', ''--query'', ''q.csv'', ''--no_bootstrap_prior''] = (tr, Inr ())
     \<and> written_files tr = [''out/bea_eruption_age_summary.csv'', ''out/bad_posterior.nc'',
          ''out/tiepoint_summary.csv'', ''out/query_age_summary.csv'', ''out/age_depth_model.png'']"
proof -
  have l: "ap_loop bea_bad_parser Map.empty [] [''--zircon'', ''z.csv'', ''--tiepoints'', ''t.csv'', ''--query'', ''q.csv'', ''--no_bootstrap_prior'']
     = Inr ([''--zircon'' \<mapsto> VStr ''z.csv'', ''--tiepoints'' \<mapsto> VStr ''t.csv'', ''--query'' \<mapsto> VStr ''q.csv'',
             ''--no_bootstrap_prior'' \<mapsto> VBool True], [])"
    by (simp add: classify_cli_flags classify_plain plain_token_def convert_arg_def cli_opt_defs)
  have "\<exists>ns. parse_args bea_bad_parser (drop 1 [''bea_bad'', ''--zircon'', ''z.csv'', ''--tiepoints'', ''t.csv'', ''--query'', ''q.csv'', ''--no_bootstrap_prior'']) = Inr ns \<and> cli_args_of ns = \<lparr>cli_zircon = ''z.csv'', cli_tiepoints = ''t.csv'', cli_query = Some ''q.csv'', cli_outdir = ''out'',
         cli_max_span_ma = PFin 1, cli_depth_sigma_m = PFin 0.03, cli_no_bootstrap_prior = True,
         cli_bea_draws = 2000, cli_bea_tune = 2000, cli_bad_draws = 3000, cli_bad_tune = 3000, cli_seed = 42\<rparr>"
    unfolding One_nat_def drop_Suc_Cons drop_0 parse_args_loop [OF l] by (simp add: cli_opt_defs bea_bad_parser_def cli_args_of_def get_str_def
        get_opt_str_def get_float_def get_bool_def get_int_def Let_def)
  then obtain ns where p: "parse_args bea_bad_parser (drop 1 [''bea_bad'', ''--zircon'', ''z.csv'', ''--tiepoints'', ''t.csv'', ''--query'', ''q.csv'', ''--no_bootstrap_prior'']) = Inr ns"
    and a: "cli_args_of ns = \<lparr>cli_zircon = ''z.csv'', cli_tiepoints = ''t.csv'', cli_query = Some ''q.csv'', cli_outdir = ''out'',
         cli_max_span_ma = PFin 1, cli_depth_sigma_m = PFin 0.03, cli_no_bootstrap_prior = True,
         cli_bea_draws = 2000, cli_bea_tune = 2000, cli_bad_draws = 3000, cli_bad_tune = 3000, cli_seed = 42\<rparr>" by blast
  have fA: "bea_fit_set [2.1] [0.05] 1 = Inr ([2.1], [0.05])" and fB: "bea_fit_set [2.5] [0.05] 1 = Inr ([2.5], [0.05])"
    by (simp_all add: bea_fit_set_def filter_outliers_within_span_def span_mask_def median_def)
  have rA: "robust_mad [2.1] = Some 0" and rB: "robust_mad [2.5] = Some 0"
    by (simp_all add: robust_mad_def median_def np_std_def)
  have hA: "bea_model_of (\<lambda>s b i. 0) [2.1] [0.05] \<lparr>use_bootstrap_prior = False, bea_max_span_ma = 1, bea_draws = 2000, bea_tune = 2000, bea_chains = 2,
      bea_target_accept = 0.9, bea_seed = 42\<rparr>
     = Inr \<lparr>e_prior = NormalPrior (2.1 - 0.05) (Some 0.2), tau_sigma = Some 0.02, n_delta = 1,
            obs_ages = [2.1], obs_sigmas = [0.05]\<rparr>"
    using bea_model_of_fallback_eq [of "[2.1]" "[0.05]" "\<lparr>use_bootstrap_prior = False, bea_max_span_ma = 1, bea_draws = 2000, bea_tune = 2000, bea_chains = 2,
      bea_target_accept = 0.9, bea_seed = 42\<rparr>" "[2.1]" "[0.05]" 0 "\<lambda>s b i. 0"] fA rA
    by simp
  have hB: "bea_model_of (\<lambda>s b i. 0) [2.5] [0.05] \<lparr>use_bootstrap_prior = False, bea_max_span_ma = 1, bea_draws = 2000, bea_tune = 2000, bea_chains = 2,
      bea_target_accept = 0.9, bea_seed = 42\<rparr>
     = Inr \<lparr>e_prior = NormalPrior (2.5 - 0.05) (Some 0.2), tau_sigma = Some 0.02, n_delta = 1,
            obs_ages = [2.5], obs_sigmas = [0.05]\<rparr>"
    using bea_model_of_fallback_eq [of "[2.5]" "[0.05]" "\<lparr>use_bootstrap_prior = False, bea_max_span_ma = 1, bea_draws = 2000, bea_tune = 2000, bea_chains = 2,
      bea_target_accept = 0.9, bea_seed = 42\<rparr>" "[2.5]" "[0.05]" 0 "\<lambda>s b i. 0"] fB rB
    by simp
  obtain lo hi where hdi: "arviz_hdi [2] 0.95 = Inr (lo, hi)"
    using arviz_hdi_bounds [of "[2]" "0.95"] by auto
  have "\<exists>qd bea_df. cli_bea_stage \<lparr>read_zircon = \<lambda>p. \<lparr>z_columns = [''ash_id'', ''age_ma'', ''sigma_ma''],
        z_rows = [\<lparr>z_ash_id = ''A'', z_age_ma = 2.1, z_sigma_ma = 0.05, z_is_discordant = None\<rparr>,
                  \<lparr>z_ash_id = ''B'', z_age_ma = 2.5, z_sigma_ma = 0.05, z_is_discordant = None\<rparr>]\<rparr>,
      read_tiepoints = \<lambda>p. \<lparr>t_columns = [''ash_id'', ''depth_m''],
        t_rows = [\<lparr>t_ash_id = ''A'', t_depth_m = 10\<rparr>, \<lparr>t_ash_id = ''B'', t_depth_m = 20\<rparr>]\<rparr>,
      read_query = \<lambda>p. \<lparr>q_columns = [''depth_m''], q_depths = [15]\<rparr>,
      env_rng = \<lambda>s b i. 0, env_bea_sampler = \<lambda>m c. Inr [2],
      env_bad_sampler = \<lambda>m c. Inr [\<lparr>d_true = [10, 20], age0 = 2, rates = [1/10]\<rparr>]\<rparr>
       \<lparr>cli_zircon = ''z.csv'', cli_tiepoints = ''t.csv'', cli_query = Some ''q.csv'', cli_outdir = ''out'',
         cli_max_span_ma = PFin 1, cli_depth_sigma_m = PFin 0.03, cli_no_bootstrap_prior = True,
         cli_bea_draws = 2000, cli_bea_tune = 2000, cli_bad_draws = 3000, cli_bad_tune = 3000, cli_seed = 42\<rparr> 1 = Inr (qd, bea_df)
     \<and> map br_depth bea_df = [10, 20] \<and> map (e_mean \<circ> br_result) bea_df = [2, 2]
     \<and> map (e_sd \<circ> br_result) bea_df = [0, 0]"
    using hA hB hdi
    by (simp add: cli_bea_stage_def read_inputs_def has_columns_def merge_inner_ash_def read_query_depths_def
        ash_groups_def bea_cfg_of_def fit_bea_for_ash_def np_mean_def np_std_def merge_left_depth_def)
  then obtain qd bea_df where st: "cli_bea_stage \<lparr>read_zircon = \<lambda>p. \<lparr>z_columns = [''ash_id'', ''age_ma'', ''sigma_ma''],
        z_rows = [\<lparr>z_ash_id = ''A'', z_age_ma = 2.1, z_sigma_ma = 0.05, z_is_discordant = None\<rparr>,
                  \<lparr>z_ash_id = ''B'', z_age_ma = 2.5, z_sigma_ma = 0.05, z_is_discordant = None\<rparr>]\<rparr>,
      read_tiepoints = \<lambda>p. \<lparr>t_columns = [''ash_id'', ''depth_m''],
        t_rows = [\<lparr>t_ash_id = ''A'', t_depth_m = 10\<rparr>, \<lparr>t_ash_id = ''B'', t_depth_m = 20\<rparr>]\<rparr>,
      read_query = \<lambda>p. \<lparr>q_columns = [''depth_m''], q_depths = [15]\<rparr>,
      env_rng = \<lambda>s b i. 0, env_bea_sampler = \<lambda>m c. Inr [2],
      env_bad_sampler = \<lambda>m c. Inr [\<lparr>d_true = [10, 20], age0 = 2, rates = [1/10]\<rparr>]\<rparr>
       \<lparr>cli_zircon = ''z.csv'', cli_tiepoints = ''t.csv'', cli_query = Some ''q.csv'', cli_outdir = ''out'',
         cli_max_span_ma = PFin 1, cli_depth_sigma_m = PFin 0.03, cli_no_bootstrap_prior = True,
         cli_bea_draws = 2000, cli_bea_tune = 2000, cli_bad_draws = 3000, cli_bad_tune = 3000, cli_seed = 42\<rparr> 1 = Inr (qd, bea_df)"
    and d: "map br_depth bea_df = [10, 20]" "map (e_mean \<circ> br_result) bea_df = [2, 2]"
      "map (e_sd \<circ> br_result) bea_df = [0, 0]" by (elim exE conjE) (rule that)
  obtain m0 where m: "bad_model_of (map br_depth bea_df) (map (e_mean \<circ> br_result) bea_df)
      (map (e_sd \<circ> br_result) bea_df) (bad_cfg_of \<lparr>cli_zircon = ''z.csv'', cli_tiepoints = ''t.csv'', cli_query = Some ''q.csv'', cli_outdir = ''out'',
         cli_max_span_ma = PFin 1, cli_depth_sigma_m = PFin 0.03, cli_no_bootstrap_prior = True,
         cli_bea_draws = 2000, cli_bea_tune = 2000, cli_bad_draws = 3000, cli_bad_tune = 3000, cli_seed = 42\<rparr> 0.03) = Inr (m0, [10, 20], [2, 2], [0, 0])"
    unfolding d by (simp add: bad_model_of_eq np_argsort_def)
  have ok: "post_ok (length [10, 20 :: real]) [\<lparr>d_true = [10, 20], age0 = 2, rates = [1/10]\<rparr>]"
    by (simp add: post_ok_def draw_defs)
  have fl: "cli_max_span_ma \<lparr>cli_zircon = ''z.csv'', cli_tiepoints = ''t.csv'', cli_query = Some ''q.csv'', cli_outdir = ''out'',
         cli_max_span_ma = PFin 1, cli_depth_sigma_m = PFin 0.03, cli_no_bootstrap_prior = True,
         cli_bea_draws = 2000, cli_bea_tune = 2000, cli_bad_draws = 3000, cli_bad_tune = 3000, cli_seed = 42\<rparr> = PFin 1"
    "cli_depth_sigma_m \<lparr>cli_zircon = ''z.csv'', cli_tiepoints = ''t.csv'', cli_query = Some ''q.csv'', cli_outdir = ''out'',
         cli_max_span_ma = PFin 1, cli_depth_sigma_m = PFin 0.03, cli_no_bootstrap_prior = True,
         cli_bea_draws = 2000, cli_bea_tune = 2000, cli_bad_draws = 3000, cli_bad_tune = 3000, cli_seed = 42\<rparr> = PFin 0.03" by simp_all
  have smp: "env_bad_sampler \<lparr>read_zircon = \<lambda>p. \<lparr>z_columns = [''ash_id'', ''age_ma'', ''sigma_ma''],
        z_rows = [\<lparr>z_ash_id = ''A'', z_age_ma = 2.1, z_sigma_ma = 0.05, z_is_discordant = None\<rparr>,
                  \<lparr>z_ash_id = ''B'', z_age_ma = 2.5, z_sigma_ma = 0.05, z_is_discordant = None\<rparr>]\<rparr>,
      read_tiepoints = \<lambda>p. \<lparr>t_columns = [''ash_id'', ''depth_m''],
        t_rows = [\<lparr>t_ash_id = ''A'', t_depth_m = 10\<rparr>, \<lparr>t_ash_id = ''B'', t_depth_m = 20\<rparr>]\<rparr>,
      read_query = \<lambda>p. \<lparr>q_columns = [''depth_m''], q_depths = [15]\<rparr>,
      env_rng = \<lambda>s b i. 0, env_bea_sampler = \<lambda>m c. Inr [2],
      env_bad_sampler = \<lambda>m c. Inr [\<lparr>d_true = [10, 20], age0 = 2, rates = [1/10]\<rparr>]\<rparr>
      m0 (bad_cfg_of \<lparr>cli_zircon = ''z.csv'', cli_tiepoints = ''t.csv'', cli_query = Some ''q.csv'', cli_outdir = ''out'',
         cli_max_span_ma = PFin 1, cli_depth_sigma_m = PFin 0.03, cli_no_bootstrap_prior = True,
         cli_bea_draws = 2000, cli_bea_tune = 2000, cli_bad_draws = 3000, cli_bad_tune = 3000, cli_seed = 42\<rparr> 0.03) = Inr [\<lparr>d_true = [10, 20], age0 = 2, rates = [1/10]\<rparr>]" by simp
  obtain tr where t1: "main_run \<lparr>read_zircon = \<lambda>p. \<lparr>z_columns = [''ash_id'', ''age_ma'', ''sigma_ma''],
        z_rows = [\<lparr>z_ash_id = ''A'', z_age_ma = 2.1, z_sigma_ma = 0.05, z_is_discordant = None\<rparr>,
                  \<lparr>z_ash_id = ''B'', z_age_ma = 2.5, z_sigma_ma = 0.05, z_is_discordant = None\<rparr>]\<rparr>,
      read_tiepoints = \<lambda>p. \<lparr>t_columns = [''ash_id'', ''depth_m''],
        t_rows = [\<lparr>t_ash_id = ''A'', t_depth_m = 10\<rparr>, \<lparr>t_ash_id = ''B'', t_depth_m = 20\<rparr>]\<rparr>,
      read_query = \<lambda>p. \<lparr>q_columns = [''depth_m''], q_depths = [15]\<rparr>,
      env_rng = \<lambda>s b i. 0, env_bea_sampler = \<lambda>m c. Inr [2],
      env_bad_sampler = \<lambda>m c. Inr [\<lparr>d_true = [10, 20], age0 = 2, rates = [1/10]\<rparr>]\<rparr>
       [''bea_bad'', ''--zircon'', ''z.csv'', ''--tiepoints'', ''t.csv'', ''--query'', ''q.csv'', ''--no_bootstrap_prior''] = (tr, Inr ())"
    and t2: "written_files tr = map (os_path_join (cli_outdir \<lparr>cli_zircon = ''z.csv'', cli_tiepoints = ''t.csv'', cli_query = Some ''q.csv'', cli_outdir = ''out'',
         cli_max_span_ma = PFin 1, cli_depth_sigma_m = PFin 0.03, cli_no_bootstrap_prior = True,
         cli_bea_draws = 2000, cli_bea_tune = 2000, cli_bad_draws = 3000, cli_bad_tune = 3000, cli_seed = 42\<rparr>))
       [''bea_eruption_age_summary.csv'', ''bad_posterior.nc'', ''tiepoint_summary.csv'',
         ''query_age_summary.csv'', ''age_depth_model.png'']"
    using main_run_writes_outputs [OF p, unfolded a, OF fl st m smp ok] by (elim exE conjE) (rule that)
  have j: "map (os_path_join (cli_outdir \<lparr>cli_zircon = ''z.csv'', cli_tiepoints = ''t.csv'', cli_query = Some ''q.csv'', cli_outdir = ''out'',
         cli_max_span_ma = PFin 1, cli_depth_sigma_m = PFin 0.03, cli_no_bootstrap_prior = True,
         cli_bea_draws = 2000, cli_bea_tune = 2000, cli_bad_draws = 3000, cli_bad_tune = 3000, cli_seed = 42\<rparr>))
       [''bea_eruption_age_summary.csv'', ''bad_posterior.nc'', ''tiepoint_summary.csv'',
         ''query_age_summary.csv'', ''age_depth_model.png'']
     = [''out/bea_eruption_age_summary.csv'', ''out/bad_posterior.nc'',
          ''out/tiepoint_summary.csv'', ''out/query_age_summary.csv'', ''out/age_depth_model.png'']"
    by (simp add: os_path_join_def)
  show ?thesis
    by (rule exI [of _ tr], rule conjI, rule t1) (simp only: t2 j)
qed

end
