(* ===== verification/Spec2Isabelle.thy ===== *)
theory Spec2Isabelle
  imports Interpolator RobustStats Posterior BAD PriorBuilder BEA GUI Outputs
begin

text \<open>
  \<^bold>\<open>A verification development of \<open>bea_bad\<close>\<close> (Bayesian Eruption Age and Bayesian
  Age-Depth modelling of ash beds and tie points).

  \<^bold>\<open>The program.\<close> \<open>src/bea_bad/cli.py\<close> (\<open>main\<close>) parses the command line, reads the
  zircon and tie-point tables (\<open>dataio.py\<close>), fits one eruption age per ash bed with
  \<open>fit_bea_for_ash\<close> (\<open>bea.py\<close>, helped by \<open>utils.py\<close>: the robust span filter and the
  bootstrap KDE prior), attaches those ages to the tie depths and fits the age-depth
  model \<open>fit_bad\<close> (\<open>bad.py\<close>), whose posterior is turned into query-depth and
  tie-point summaries by the piecewise-linear interpolator
  \<open>_piecewise_age_one_draw\<close>. \<open>src/app_gui.py\<close> is a Tk launcher that validates its
  fields and calls \<open>main\<close> with a command line.

  \<^bold>\<open>How the model reads.\<close> Every function is a HOL definition in the order of the
  source, with the source's name. A float64 is a \<open>real\<close>; where numpy would produce a NaN
  the model returns \<open>None\<close> (\<open>median\<close>, \<open>np_std\<close>, \<open>np_quantile\<close>, \<open>py_max\<close>), and the
  strings the launcher and \<open>argparse\<close> read are parsed into \<open>pyfloat\<close> (finite, NaN,
  \<open>\<plusminus>\<close>inf). Every exception the code can raise is a value \<open>Inl e\<close> of
  \<open>'a result = py_error + 'a\<close> and the code's sequencing is \<open>bindE\<close>/\<open>mapE\<close>, so each
  early return, \<open>raise\<close> and numpy failure (index out of range, broadcasting,
  reductions of empty arrays, singular KDE, a merge of an empty frame) is a branch of
  the model. Loops are structural recursion or \<open>map\<close>; the one binary search
  (\<open>bisect_right\<close>, the \<open>side='right'\<close> search of \<open>np.searchsorted\<close>) is a
  \<open>function\<close> with a measure, so every definition is total and executable and no
  fuel is needed.

  \<^bold>\<open>Theories and correspondence.\<close>
  \<^item> \<open>Prelude\<close>: \<open>py_error\<close>, the error monad, Python's \<open>list[i]\<close> (\<open>py_get\<close>, negative
    indices included) and the list lemmas shared by the components.
  \<^item> \<open>Numpy\<close>: the numpy primitives the sources call (\<open>np.diff\<close>, \<open>np.cumsum\<close>,
    broadcasting \<open>*\<close>, slice assignment, \<open>np.clip\<close>, \<open>np.searchsorted(side='right')\<close>
    by bisection, \<open>np.linspace\<close>, \<open>median\<close>, \<open>mean\<close>, \<open>std\<close>, \<open>min\<close>).
  \<^item> \<open>Interpolator\<close>: \<open>bad.py\<close> \<open>_piecewise_age_one_draw\<close> (lines 17--26) as
    \<open>age_tie_vec\<close>, \<open>seg_index\<close>, \<open>query_age\<close>, \<open>piecewise_age_one_draw\<close>, and the
    abstract interpolant of spec \S4.4--4.5 (\<open>tie_age\<close>, \<open>segment\<close>, \<open>interp_age\<close>).
  \<^item> \<open>RobustStats\<close>: \<open>utils.py\<close> \<open>robust_mad\<close> and \<open>filter_outliers_within_span\<close>.
  \<^item> \<open>Posterior\<close>: ArviZ's \<open>hdi\<close> (sorted windows, first narrowest) used by \<open>bea.py\<close>, and
    \<open>np.quantile\<close> (linear method) used by \<open>bad.py\<close>.
  \<^item> \<open>PriorBuilder\<close>: \<open>utils.py\<close> \<open>bootstrap_min_prior_kde\<close> with \<open>rng.normal\<close>,
    \<open>min(axis=1)\<close> and scipy's \<open>gaussian_kde\<close> (Scott factor, \<open>ddof=1\<close> covariance).
  \<^item> \<open>BEA\<close>: \<open>bea.py\<close> \<open>fit_bea_for_ash\<close>: span filtering with its revert-to-all
    policy, \<open>tau_scale\<close>, the KDE prior on its 2000-point grid or the normal fallback,
    the model record handed to the sampler, and the mean/sd/HDI summary.
  \<^item> \<open>BAD\<close>: \<open>bad.py\<close> \<open>fit_bad\<close>: argsort and fancy indexing of the tie points, the
    \<open>K < 2\<close> check, the model record, the query-age and tie-age loops and both tables.
  \<^item> \<open>DataIO\<close>: \<open>dataio.py\<close> \<open>read_inputs\<close> (schema checks, discordance filter with
    \<open>astype(int)\<close>, inner merge) and \<open>read_query_depths\<close> (query table or default grid).
  \<^item> \<open>PyStr\<close> and \<open>Argparse\<close>: Python's \<open>int()\<close>, \<open>float()\<close>, \<open>str(int)\<close>,
    \<open>str.join\<close> on ASCII strings, and the subset of \<open>argparse\<close> that \<open>cli.py\<close> uses
    (token classification, the ambiguity check \<open>parse_args\<close> makes on every token
    before consuming any, the consuming loop \<open>ap_loop\<close> and the errors).
  \<^item> \<open>CLI\<close>: \<open>cli.py\<close> \<open>main\<close>: the option table, the typed \<open>args\<close>, and the pipeline
    \<open>cli_pipeline\<close> (read, BEA per ash bed in \<open>groupby\<close> order, merge, sort, BAD),
    with the \<open>KeyError\<close> that merging the empty frame raises when no ash bed has grains.
  \<^item> \<open>GUI\<close>: \<open>app_gui.py\<close> \<open>_parse_int\<close>, \<open>_parse_float\<close> and \<open>run_pipeline\<close> with
    its three outcomes (error box, info box, uncaught exception).
  \<^item> \<open>Outputs\<close>: what \<open>main\<close> does to the file system and the terminal
    (\<open>cli.py\<close> lines 30--81) as a list of effects with the run's result
    (\<open>main_run\<close>): the output directory (\<open>utils.py\<close> \<open>ensure_dir\<close>), the BEA
    table, the posterior file written inside \<open>fit_bad\<close> (\<open>fit_bad_run\<close>, \<open>bad.py\<close>
    lines 48--91), the two summary tables, the figure of \<open>plot.py\<close> \<open>plot_age_depth\<close>
    as the data handed to matplotlib, and the printed paths; paths are joined as
    \<open>posixpath.join\<close> does (\<open>os_path_join\<close>).

  \<^bold>\<open>Interfaces and parameters.\<close> The components meet through the result type and
  the records they pass on: \<open>cli_pipeline\<close> calls \<open>read_inputs\<close>, \<open>fit_bea_for_ash\<close>
  and \<open>fit_bad\<close>; \<open>fit_bad\<close> calls \<open>piecewise_age_one_draw\<close> per posterior draw;
  \<open>fit_bea_for_ash\<close> calls the span filter, the KDE prior and the HDI. What lies
  outside the code is a parameter: the sampling engines \<open>pm.sample\<close>
  (\<open>bea_sampler\<close>, \<open>bad_sampler\<close>: a model record to a list of draws or an error),
  \<open>np.random.default_rng(seed)\<close> (a seed to a stream of standard normals), the CSV
  readers, file existence and the launcher's \<open>str(float)\<close>. Theorems about a fit assume
  only the engine's contract (\<open>post_ok\<close>, \<open>draw_ok\<close>: a non-empty pooled list of
  draws with strictly increasing depths and positive rates, as the ordered transform and
  the log-normal prior guarantee). Sorting is stable (numpy's and pandas' default sort
  is not; only ties of equal keys could differ).

  \<^bold>\<open>What the lemmas show.\<close> Interpolator: refinement of the code by the abstract
  interpolant (C1), exactness at tie depths, strict monotonicity, both extrapolations,
  bracketing between ties and the broadcasting error (C2--C7). RobustStats: the span
  filter keeps only grains within the span of the median (C8). BAD: summary intervals,
  input errors, the sorted model and the summaries and monotone means of a fit
  (C9--C13). PriorBuilder: the centres of the bootstrap KDE are the row minima (C14).
  BEA: the fit's input errors, the grid and density of the KDE prior, the bounds of the
  summary (C15--C17), and that the reported 95% interval is a highest-density interval
  of the engine's draws (C26). DataIO: the discordance filter and the default grid
  (C18--C19). CLI and GUI: the command-line round trip (C20), the launcher's
  \<open>--target_accept\<close> making every run with valid fields end in an uncaught
  \<open>SystemExit\<close> (C21), NaN accepted by \<open>_parse_float\<close> (C22) and the typed namespace
  \<open>main\<close> reads (C24). Outputs proves that a run whose stages succeed and whose engine
  meets its contract finishes, having written the five output files in the code's
  order inside \<open>--outdir\<close> (C23, liveness), that forgetting the effects gives
  \<open>cli_main\<close>, and that a run whose BAD stage fails has already written the BEA table.
  Across components, this theory proves that every ash bed with grains reaches
  \<open>fit_bad\<close> with an estimate and a depth (C25).

  \<^bold>\<open>Not modelled.\<close> Rasterising the figure (matplotlib), its title (a non-ASCII
  string), the bytes of the CSV and NetCDF files (the model records the tables and draws
  each file receives), Windows path joining (\<open>ntpath\<close>; the model joins as on POSIX),
  the Tk layout, event loop and file dialogs of \<open>app_gui.py\<close> (lines 1--21, 105--108, 126--178:
  widget construction with no computation), and the internals of PyMC's sampler, which
  are parameters as above. The \<open>argparse\<close>
  forms \<open>--opt=value\<close>, \<open>--\<close> and \<open>-h\<close> are not modelled. A NaN or infinite value
  given to a float option stops the model with \<open>NonFiniteFloat\<close>, a boundary of the
  real-number model and not an exception of the program.

  \<^bold>\<open>Exact reals against float64.\<close> The KDE (\<open>gaussian_kde\<close>, \<open>np_cov\<close>,
  \<open>kde_evaluate\<close>) is computed in exact reals. Two of its behaviours hold only there:
  the density is positive everywhere in the model, while in float64 it underflows to 0
  far from the centres (the code's \<open>np.maximum(pdf, 1e-300)\<close> covers that), and the
  model raises \<open>KdeSingular\<close> when all bootstrap minima are equal, while in float64
  their covariance is rounding noise of about 1e-31 and scipy usually does not raise.
  No theorem of the development depends on either branch. Ash ids are strings, as
  the model's tables read them; pandas groups numeric ids in numeric order, which for
  ids of different digit counts differs from the string order of \<open>ash_groups\<close>.
\<close>

subsection \<open>Properties across components\<close>

text \<open>
  C25 (safety, spec \S3 and \S6). In \<open>main\<close> of \<open>cli.py\<close>, once \<open>read_inputs\<close> has
  succeeded and BEA has been fitted for every group of \<open>groupby("ash_id")\<close>, the
  table of estimates holds one estimate per ash bed that kept grains, in the sorted
  order of the ash ids, and the left merge with the tie points and the sort by depth
  drop none of them: every ash bed with grains reaches \<open>fit_bad\<close> with a depth,
  because \<open>read_inputs\<close> has already dropped the grains of the beds without a tie row.
\<close>

theorem cli_bea_table_complete:
  assumes "read_inputs zc tc = Inr data"
    and "mapE (\<lambda>(aid, g). fit_bea_for_ash rng smp aid (map z_age_ma g) (map z_sigma_ma g) cfg)
           (ash_groups (zircon data)) = Inr rows"
  shows "map ash_id rows = sorted_list_of_set (z_ash_id ` set (zircon data))
         \<and> (ash_id \<circ> br_result) ` set (sort_key br_depth (merge_left_depth rows (tiepoints data)))
           = z_ash_id ` set (zircon data)"
proof -
  have "map ash_id rows = map fst (ash_groups (zircon data))"
    by (rule mapE_Inr_map_eq [OF assms(2)]) (auto split: prod.splits dest: fit_bea_for_ash_ash_id)
  then have ids: "map ash_id rows = sorted_list_of_set (z_ash_id ` set (zircon data))"
    by (simp only: ash_groups_keys)
  have "set (map ash_id rows) = z_ash_id ` set (zircon data)"
    unfolding ids by simp
  then have set_ids: "ash_id ` set rows = z_ash_id ` set (zircon data)"
    by (simp only: list.set_map)
  have tied: "\<exists>u \<in> set (tiepoints data). t_ash_id u = ash_id r" if "r \<in> set rows" for r
  proof -
    have "ash_id r \<in> ash_id ` set rows" using that by (rule imageI)
    then have "ash_id r \<in> z_ash_id ` set (zircon data)" by (simp only: set_ids)
    then obtain z where z: "z \<in> set (zircon data)" "ash_id r = z_ash_id z" by (rule imageE) (rule that)
    show ?thesis unfolding z(2) by (rule read_inputs_tied [OF assms(1) z(1)])
  qed
  have "(ash_id \<circ> br_result) ` set (sort_key br_depth (merge_left_depth rows (tiepoints data)))
        = ash_id ` set rows"
    unfolding set_sort by (rule merge_left_depth_ids [OF tied])
  then show ?thesis using ids set_ids by simp
qed

theorem cli_bea_table_complete_witness:
  "read_inputs \<lparr>z_columns = [''ash_id'', ''age_ma'', ''sigma_ma''],
       z_rows = [\<lparr>z_ash_id = ''A'', z_age_ma = 2.1, z_sigma_ma = 0.05, z_is_discordant = None\<rparr>]\<rparr>
     \<lparr>t_columns = [''ash_id'', ''depth_m''], t_rows = [\<lparr>t_ash_id = ''A'', t_depth_m = 10\<rparr>]\<rparr>
   = Inr \<lparr>zircon = [\<lparr>z_ash_id = ''A'', z_age_ma = 2.1, z_sigma_ma = 0.05, z_is_discordant = None\<rparr>],
       tiepoints = [\<lparr>t_ash_id = ''A'', t_depth_m = 10\<rparr>]\<rparr>
   \<and> (\<exists>rows. mapE (\<lambda>(aid, g). fit_bea_for_ash (\<lambda>s b i. 0) (\<lambda>m c. Inr [2]) aid (map z_age_ma g) (map z_sigma_ma g)
       \<lparr>use_bootstrap_prior = False, bea_max_span_ma = 1, bea_draws = 2000, bea_tune = 2000, bea_chains = 2,
      bea_target_accept = 0.9, bea_seed = 42\<rparr>)
         (ash_groups (zircon \<lparr>zircon = [\<lparr>z_ash_id = ''A'', z_age_ma = 2.1, z_sigma_ma = 0.05, z_is_discordant = None\<rparr>],
       tiepoints = [\<lparr>t_ash_id = ''A'', t_depth_m = 10\<rparr>]\<rparr>)) = Inr rows
       \<and> map ash_id rows = [''A'']
       \<and> (ash_id \<circ> br_result) ` set (sort_key br_depth (merge_left_depth rows [\<lparr>t_ash_id = ''A'', t_depth_m = 10\<rparr>]))
         = {''A''})"
proof -
  have ri: "read_inputs \<lparr>z_columns = [''ash_id'', ''age_ma'', ''sigma_ma''],
       z_rows = [\<lparr>z_ash_id = ''A'', z_age_ma = 2.1, z_sigma_ma = 0.05, z_is_discordant = None\<rparr>]\<rparr>
     \<lparr>t_columns = [''ash_id'', ''depth_m''], t_rows = [\<lparr>t_ash_id = ''A'', t_depth_m = 10\<rparr>]\<rparr>
   = Inr \<lparr>zircon = [\<lparr>z_ash_id = ''A'', z_age_ma = 2.1, z_sigma_ma = 0.05, z_is_discordant = None\<rparr>],
       tiepoints = [\<lparr>t_ash_id = ''A'', t_depth_m = 10\<rparr>]\<rparr>"
    by (simp add: read_inputs_def has_columns_def merge_inner_ash_def)
  have f: "bea_fit_set [2.1] [0.05] 1 = Inr ([2.1], [0.05])"
    by (simp add: bea_fit_set_def filter_outliers_within_span_def span_mask_def median_def)
  have r: "robust_mad [2.1] = Some 0" by (simp add: robust_mad_def median_def np_std_def)
  have h: "bea_model_of (\<lambda>s b i. 0) [2.1] [0.05] \<lparr>use_bootstrap_prior = False, bea_max_span_ma = 1, bea_draws = 2000, bea_tune = 2000, bea_chains = 2,
      bea_target_accept = 0.9, bea_seed = 42\<rparr>
     = Inr \<lparr>e_prior = NormalPrior (2.1 - 0.05) (Some 0.2), tau_sigma = Some 0.02, n_delta = 1,
            obs_ages = [2.1], obs_sigmas = [0.05]\<rparr>"
    using bea_model_of_fallback_eq [of "[2.1]" "[0.05]" "\<lparr>use_bootstrap_prior = False, bea_max_span_ma = 1, bea_draws = 2000, bea_tune = 2000, bea_chains = 2,
      bea_target_accept = 0.9, bea_seed = 42\<rparr>"
        "[2.1]" "[0.05]" 0 "\<lambda>s b i. 0"] f r by simp
  obtain lo hi where hdi: "arviz_hdi [2] 0.95 = Inr (lo, hi)"
    using arviz_hdi_bounds [of "[2]" "0.95"] by auto
  obtain e where e: "fit_bea_for_ash (\<lambda>s b i. 0) (\<lambda>m c. Inr [2]) ''A'' [2.1] [0.05] \<lparr>use_bootstrap_prior = False, bea_max_span_ma = 1, bea_draws = 2000, bea_tune = 2000, bea_chains = 2,
      bea_target_accept = 0.9, bea_seed = 42\<rparr> = Inr e"
    using h hdi by (simp add: fit_bea_for_ash_def np_mean_def np_std_def)
  have m: "mapE (\<lambda>(aid, g). fit_bea_for_ash (\<lambda>s b i. 0) (\<lambda>m c. Inr [2]) aid (map z_age_ma g) (map z_sigma_ma g)
       \<lparr>use_bootstrap_prior = False, bea_max_span_ma = 1, bea_draws = 2000, bea_tune = 2000, bea_chains = 2,
      bea_target_accept = 0.9, bea_seed = 42\<rparr>)
         (ash_groups (zircon \<lparr>zircon = [\<lparr>z_ash_id = ''A'', z_age_ma = 2.1, z_sigma_ma = 0.05, z_is_discordant = None\<rparr>],
       tiepoints = [\<lparr>t_ash_id = ''A'', t_depth_m = 10\<rparr>]\<rparr>)) = Inr [e]"
    using e by (simp add: ash_groups_def)
  show ?thesis
    using ri m cli_bea_table_complete [OF ri m] by simp
qed

end
